theory Spec2Isabelle
  imports Complex_Main "HOL-Library.AList"
begin

section \<open>Decimal arithmetic\<close>

text \<open>
  The payroll engine of \<^verbatim>\<open>src/Payroll_calculator\<close> (\<^verbatim>\<open>employee.py\<close>,
  \<^verbatim>\<open>payslip.py\<close>, \<^verbatim>\<open>payroll_processor.py\<close>) computes with Python's \<^verbatim>\<open>decimal\<close> module
  in its default context: 28 significant digits, rounding half-even, the signals
  InvalidOperation and Overflow trapped.

  A finite \<^verbatim>\<open>Decimal\<close> is a signed coefficient and an exponent; it denotes
  \<open>coefficient * 10 ^ exponent\<close>. NaN and the infinities are not values of the type: the
  specification's amounts are fixed-point decimals. The sign of a zero is not kept; Python
  compares \<^verbatim>\<open>-0.00\<close> equal to \<^verbatim>\<open>0.00\<close>.
\<close>

datatype Decimal = Decimal (coefficient: int) (exponent: int)

definition val :: "Decimal \<Rightarrow> rat" where
  "val d = of_int (coefficient d) * 10 powi exponent d"

text \<open>The precision of the default context.\<close>

definition prec :: nat where
  "prec = 28"

text \<open>The number of decimal digits of a non-negative coefficient, \<^verbatim>\<open>len(str(n))\<close>.\<close>

function digits :: "int \<Rightarrow> nat" where
  "digits n = (if n < 10 then 1 else Suc (digits (n div 10)))"
  by pat_completeness auto
termination
  by (relation "measure nat") auto

declare digits.simps [simp del]

text \<open>
  \<^verbatim>\<open>ROUND_HALF_EVEN\<close>, the rounding of the context: to the nearest integer, a tie going to
  the even one. \<^verbatim>\<open>ROUND_HALF_UP\<close>, the rounding \<^verbatim>\<open>_round_currency\<close> asks for: to the
  nearest integer, a tie going away from zero.
\<close>

definition round_half_even :: "rat \<Rightarrow> int" where
  "round_half_even x =
     (let f = \<lfloor>x\<rfloor>; r = x - of_int f
      in if r < 1 / 2 then f
         else if 1 / 2 < r then f + 1
         else if even f then f else f + 1)"

definition round_half_up :: "rat \<Rightarrow> int" where
  "round_half_up x = (if 0 \<le> x then \<lfloor>x + 1 / 2\<rfloor> else - \<lfloor>- x + 1 / 2\<rfloor>)"

text \<open>
  What the context does to the exact result of an arithmetic operation: a coefficient of
  more than 28 digits is cut to 28, the digits cut off deciding the rounding; when the
  rounding carries into a 29th digit the coefficient is \<open>10 ^ 27\<close> at the next exponent.
\<close>

definition fix_context :: "Decimal \<Rightarrow> Decimal" where
  "fix_context d =
     (let n = digits \<bar>coefficient d\<bar>
      in if n \<le> prec then d
         else
           (let s = n - prec;
                c = round_half_even (of_int (coefficient d) / 10 ^ s)
            in if \<bar>c\<bar> = 10 ^ prec then Decimal (c div 10) (exponent d + int s + 1)
               else Decimal c (exponent d + int s)))"

text \<open>
  The exponent of the last of the 28 digits that the context keeps of a value that is not
  zero (used in the proofs only).
\<close>

definition scale :: "Decimal \<Rightarrow> int" where
  "scale d = exponent d + int (digits \<bar>coefficient d\<bar>) - int prec"

text \<open>
  \<^verbatim>\<open>*\<close>, \<^verbatim>\<open>+\<close> and \<^verbatim>\<open>-\<close> of two decimals: the exact result, rounded by the context.
  \<^verbatim>\<open>a - b\<close> is \<^verbatim>\<open>a + (-b)\<close>. An integer operand (\<^verbatim>\<open>0 + d\<close>, \<^verbatim>\<open>d - 0\<close>) is
  converted exactly first. Comparisons are exact: they are those of \<^const>\<open>val\<close>.

  The exponent limits of the context (\<open>Emax = 999999\<close>, \<open>Emin = - 999999\<close>) are not
  modelled. Where Python raises Overflow the result is so large that the quantize that
  follows every computation of the calculators raises here; both are the error
  \<open>DecimalException\<close>. A result below \<open>Emin\<close> is a subnormal or zero in Python and is
  quantized to zero in both.
\<close>

definition dec_mul :: "Decimal \<Rightarrow> Decimal \<Rightarrow> Decimal" where
  "dec_mul a b =
     fix_context (Decimal (coefficient a * coefficient b) (exponent a + exponent b))"

definition dec_add :: "Decimal \<Rightarrow> Decimal \<Rightarrow> Decimal" where
  "dec_add a b =
     (let e = min (exponent a) (exponent b)
      in fix_context
           (Decimal (coefficient a * 10 ^ nat (exponent a - e)
                     + coefficient b * 10 ^ nat (exponent b - e)) e))"

definition dec_neg :: "Decimal \<Rightarrow> Decimal" where
  "dec_neg a = Decimal (- coefficient a) (exponent a)"

definition dec_sub :: "Decimal \<Rightarrow> Decimal \<Rightarrow> Decimal" where
  "dec_sub a b = dec_add a (dec_neg b)"

text \<open>
  The failures of the source. The two \<^verbatim>\<open>ValueError\<close>s are told apart by their message:
  \<open>HoursOutOfRange\<close> is "PART_TIME employees cannot exceed 120 hours/month" and
  \<open>UnknownEmployeeType\<close> is "Unknown employee type: ...". \<open>DecimalException\<close> is a
  trapped signal of the decimal context: InvalidOperation from \<^verbatim>\<open>quantize\<close>, or Overflow.
\<close>

datatype error = HoursOutOfRange | UnknownEmployeeType | DecimalException

text \<open>
  \<^verbatim>\<open>d.quantize(q, rounding=ROUND_HALF_UP)\<close> for a \<open>q\<close> of exponent \<open>e\<close>: the value
  of \<open>d\<close> rounded to a multiple of \<open>10 ^ e\<close>, with the exponent \<open>e\<close>. It raises
  InvalidOperation when the coefficient of the result would have more than 28 digits.
\<close>

definition quantize_half_up :: "Decimal \<Rightarrow> int \<Rightarrow> error + Decimal" where
  "quantize_half_up d e =
     (let c = round_half_up (val d / 10 powi e)
      in if \<bar>c\<bar> < 10 ^ prec then Inr (Decimal c e) else Inl DecimalException)"

section \<open>Data model\<close>

text \<open>
  \<^verbatim>\<open>class EmployeeType(Enum)\<close> has three members. The attribute \<^verbatim>\<open>employee_type\<close>
  of an employee is not checked by \<^verbatim>\<open>Employee.__init__\<close>, so it can hold a value that is
  none of the members; \<open>NOT_A_MEMBER\<close> stands for every such value. It is what reaches the
  final \<^verbatim>\<open>else\<close> of \<^verbatim>\<open>calculate_gross_pay\<close>.
\<close>

datatype EmployeeType = FULL_TIME | PART_TIME | CONTRACTOR | NOT_A_MEMBER

text \<open>\<^verbatim>\<open>id: Union[str, int]\<close>\<close>

datatype employee_id = IntId int | StrId string

text \<open>
  The attributes of an \<^verbatim>\<open>Employee\<close> object; \<^verbatim>\<open>__init__\<close> stores
  \<^verbatim>\<open>Decimal(str(pay_rate))\<close>, so the pay rate is a decimal.
\<close>

record Employee =
  id_attr :: employee_id
  name :: string
  employee_type :: EmployeeType
  pay_rate :: Decimal
  is_union_member :: bool
  has_retirement :: bool

text \<open>
  Employees are mutable objects and the processor is handed references to them. The
  store gives, for every reference, the attribute values its object has at the moment.
  \<^verbatim>\<open>generate_pay_slip\<close> and \<^verbatim>\<open>process_monthly_payroll\<close> take the store and return it
  with their result, on a normal return and on an exception alike. The three calculators
  only read attributes: they are given the record the store holds for the employee.
\<close>

type_synonym ref = nat

type_synonym store = "ref \<Rightarrow> Employee"

text \<open>\<^verbatim>\<open>Employee.MAX_PART_TIME_HOURS = 120\<close>\<close>

definition MAX_PART_TIME_HOURS :: Decimal where
  "MAX_PART_TIME_HOURS = Decimal 120 0"

text \<open>
  A Python \<^verbatim>\<open>dict\<close> keeps its keys in insertion order; the deduction mapping is an
  association list, \<^verbatim>\<open>d[k] = v\<close> is \<^const>\<open>AList.update\<close> (replace in place, else append)
  and \<^verbatim>\<open>d[k]\<close> is \<^const>\<open>map_of\<close>.
\<close>

type_synonym deduction_dict = "(string \<times> Decimal) list"

text \<open>A \<^verbatim>\<open>PaySlip\<close> holds a reference to its employee, not a copy.\<close>

record PaySlip =
  employee :: ref
  gross_pay :: Decimal
  tax_amount :: Decimal
  deductions :: deduction_dict
  net_pay :: Decimal

text \<open>
  \<^verbatim>\<open>sum(d.values())\<close>: a left fold of \<^verbatim>\<open>+\<close> from the integer \<open>0\<close> over the values in
  insertion order; each \<^verbatim>\<open>+\<close> is a decimal addition in the context.
\<close>

definition sum_values :: "deduction_dict \<Rightarrow> Decimal" where
  "sum_values d = foldl dec_add (Decimal 0 0) (map snd d)"

text \<open>\<^verbatim>\<open>PaySlip.total_deductions\<close>\<close>

definition total_deductions :: "PaySlip \<Rightarrow> Decimal" where
  "total_deductions ps = sum_values (deductions ps)"

section \<open>Rate table\<close>

definition TAX_BRACKET_1_MAX :: Decimal where "TAX_BRACKET_1_MAX = Decimal 1000 0"
definition TAX_BRACKET_2_MAX :: Decimal where "TAX_BRACKET_2_MAX = Decimal 3000 0"
definition TAX_BRACKET_3_MAX :: Decimal where "TAX_BRACKET_3_MAX = Decimal 5000 0"

definition HEALTH_INSURANCE :: Decimal where "HEALTH_INSURANCE = Decimal 150 0"
definition RETIREMENT_RATE :: Decimal where "RETIREMENT_RATE = Decimal 5 (- 2)"
definition UNION_DUES :: Decimal where "UNION_DUES = Decimal 50 0"

section \<open>PayrollProcessor\<close>

text \<open>
  \<^verbatim>\<open>_round_currency\<close> (line 38): \<^verbatim>\<open>Decimal(str(value))\<close> is an exact conversion, and
  the value is then quantized to the exponent of \<^verbatim>\<open>Decimal("0.01")\<close>.
\<close>

definition round_currency :: "Decimal \<Rightarrow> error + Decimal" where
  "round_currency v = quantize_half_up v (- 2)"

text \<open>
  \<^verbatim>\<open>calculate_gross_pay\<close> (lines 40 to 76) in two steps: the local variable \<^verbatim>\<open>gross\<close>
  as the branches on the employee type compute it, and the rounding of the
  \<^verbatim>\<open>return\<close>. The comparison with 120 is exact.
\<close>

definition gross_before_rounding :: "Employee \<Rightarrow> Decimal \<Rightarrow> error + Decimal" where
  "gross_before_rounding emp hours_or_days =
     (if employee_type emp = FULL_TIME then Inr (pay_rate emp)
      else if employee_type emp = PART_TIME then
        (if val hours_or_days > val MAX_PART_TIME_HOURS then Inl HoursOutOfRange
         else Inr (dec_mul (pay_rate emp) hours_or_days))
      else if employee_type emp = CONTRACTOR then
        Inr (dec_mul (pay_rate emp) hours_or_days)
      else Inl UnknownEmployeeType)"

definition calculate_gross_pay :: "Employee \<Rightarrow> Decimal \<Rightarrow> error + Decimal" where
  "calculate_gross_pay emp hours_or_days =
     (case gross_before_rounding emp hours_or_days of
        Inl err \<Rightarrow> Inl err
      | Inr gross \<Rightarrow> round_currency gross)"

text \<open>
  \<^verbatim>\<open>calculate_tax\<close> (lines 78 to 109), also in two steps: the local variable \<^verbatim>\<open>tax\<close>
  after the four branches, where \<^verbatim>\<open>tax += x\<close> is \<^verbatim>\<open>tax = tax + x\<close>, and the rounding
  of the \<^verbatim>\<open>return\<close>. The comparisons with the bracket limits are exact.
\<close>

definition tax_before_rounding :: "Decimal \<Rightarrow> Decimal" where
  "tax_before_rounding gross =
     (if val gross \<le> val TAX_BRACKET_1_MAX then Decimal 0 0
      else if val gross \<le> val TAX_BRACKET_2_MAX then
        dec_mul (dec_sub gross TAX_BRACKET_1_MAX) (Decimal 10 (- 2))
      else if val gross \<le> val TAX_BRACKET_3_MAX then
        dec_add
          (dec_mul (dec_sub TAX_BRACKET_2_MAX TAX_BRACKET_1_MAX) (Decimal 10 (- 2)))
          (dec_mul (dec_sub gross TAX_BRACKET_2_MAX) (Decimal 20 (- 2)))
      else
        dec_add
          (dec_add
            (dec_mul (dec_sub TAX_BRACKET_2_MAX TAX_BRACKET_1_MAX) (Decimal 10 (- 2)))
            (dec_mul (dec_sub TAX_BRACKET_3_MAX TAX_BRACKET_2_MAX) (Decimal 20 (- 2))))
          (dec_mul (dec_sub gross TAX_BRACKET_3_MAX) (Decimal 30 (- 2))))"

definition calculate_tax :: "Decimal \<Rightarrow> error + Decimal" where
  "calculate_tax gross = round_currency (tax_before_rounding gross)"

text \<open>
  \<^verbatim>\<open>calculate_deductions\<close> (lines 111 to 144): three independent tests, each writing
  one key into the dictionary, in this order. An exception of the rounding of the
  retirement amount leaves the function, and the dictionary built so far is lost.
\<close>

definition calculate_deductions :: "Employee \<Rightarrow> Decimal \<Rightarrow> error + deduction_dict" where
  "calculate_deductions emp gross =
     (let d0 = [];
          d1 = (if employee_type emp = FULL_TIME
                then AList.update ''health_insurance'' HEALTH_INSURANCE d0 else d0)
      in case (if has_retirement emp
               then (case round_currency (dec_mul gross RETIREMENT_RATE) of
                       Inl err \<Rightarrow> Inl err
                     | Inr amount \<Rightarrow> Inr (AList.update ''retirement'' amount d1))
               else Inr d1) of
           Inl err \<Rightarrow> Inl err
         | Inr d2 \<Rightarrow>
             Inr (if is_union_member emp
                  then AList.update ''union_dues'' UNION_DUES d2 else d2))"

text \<open>
  \<^verbatim>\<open>generate_pay_slip\<close> (lines 146 to 171). No exception is caught, so the first one is
  the result. No statement assigns to an attribute of the employee: the store is returned
  as it was received. The source's default \<open>0\<close> of \<^verbatim>\<open>hours_or_days\<close> is an argument like
  any other here.
\<close>

definition generate_pay_slip ::
  "store \<Rightarrow> ref \<Rightarrow> Decimal \<Rightarrow> (error + PaySlip) \<times> store" where
  "generate_pay_slip s r hours_or_days =
     (case calculate_gross_pay (s r) hours_or_days of
        Inl err \<Rightarrow> (Inl err, s)
      | Inr gross \<Rightarrow>
          (case calculate_tax gross of
             Inl err \<Rightarrow> (Inl err, s)
           | Inr tax \<Rightarrow>
               (case calculate_deductions (s r) gross of
                  Inl err \<Rightarrow> (Inl err, s)
                | Inr d \<Rightarrow>
                    (let total = sum_values d
                     in case round_currency (dec_sub (dec_sub gross tax) total) of
                          Inl err \<Rightarrow> (Inl err, s)
                        | Inr net \<Rightarrow>
                            (Inr \<lparr>employee = r, gross_pay = gross, tax_amount = tax,
                                  deductions = d, net_pay = net\<rparr>, s)))))"

text \<open>
  The worked-units the batch loop passes for one employee: the mapping's value when the
  id is a key, else the default of the employee's type (the integers 80, 20 and 0).
\<close>

definition worked_units :: "(employee_id \<rightharpoonup> Decimal) \<Rightarrow> Employee \<Rightarrow> Decimal" where
  "worked_units hours_or_days_map emp =
     (case hours_or_days_map (id_attr emp) of
        Some h \<Rightarrow> h
      | None \<Rightarrow>
          if employee_type emp = PART_TIME then Decimal 80 0
          else if employee_type emp = CONTRACTOR then Decimal 20 0
          else Decimal 0 0)"

text \<open>
  The \<^verbatim>\<open>for\<close> loop of \<^verbatim>\<open>process_monthly_payroll\<close>, with the list \<^verbatim>\<open>payslips\<close> built so
  far as accumulator and the store threaded through the calls. An exception leaves the
  loop and the function at once.
\<close>

fun payroll_loop ::
  "(employee_id \<rightharpoonup> Decimal) \<Rightarrow> ref list \<Rightarrow> PaySlip list \<Rightarrow> store \<Rightarrow>
   (error + PaySlip list) \<times> store" where
  "payroll_loop m [] payslips s = (Inr payslips, s)"
| "payroll_loop m (r # rest) payslips s =
     (case generate_pay_slip s r (worked_units m (s r)) of
        (Inl err, s') \<Rightarrow> (Inl err, s')
      | (Inr payslip, s') \<Rightarrow> payroll_loop m rest (payslips @ [payslip]) s')"

text \<open>
  \<^verbatim>\<open>process_monthly_payroll\<close> (lines 173 to 208): an absent mapping (\<^verbatim>\<open>None\<close>) is the
  empty one.
\<close>

definition process_monthly_payroll ::
  "store \<Rightarrow> ref list \<Rightarrow> (employee_id \<rightharpoonup> Decimal) option \<Rightarrow>
   (error + PaySlip list) \<times> store" where
  "process_monthly_payroll s employee_list hours_or_days_map =
     payroll_loop
       (case hours_or_days_map of None \<Rightarrow> Map.empty | Some m \<Rightarrow> m)
       employee_list [] s"

section \<open>The specification's vocabulary\<close>

text \<open>
  The definitions of this section follow the words of the specification, not the code;
  the theorems below compare the two. Amounts are rational numbers here.

  A value has (at most) two decimal places when a hundred times it is an integer.
\<close>

definition two_places :: "rat \<Rightarrow> bool" where
  "two_places v \<longleftrightarrow> of_int \<lfloor>v * 100\<rfloor> = v * 100"

text \<open>
  \<open>r\<close> is \<open>v\<close> rounded to two decimal places, round-half-up: \<open>r\<close> has two places and is
  the nearest such value, the farther from zero of the two when \<open>v\<close> lies half-way.
\<close>

definition is_rounded_half_up :: "rat \<Rightarrow> rat \<Rightarrow> bool" where
  "is_rounded_half_up v r \<longleftrightarrow>
     two_places r \<and>
     (\<bar>r - v\<bar> < 1 / 200 \<or> (\<bar>r - v\<bar> = 1 / 200 \<and> \<bar>v\<bar> < \<bar>r\<bar>))"

text \<open>
  The progressive schedule of the specification: the part of the gross pay that falls in
  each bracket, times the bracket's marginal rate (0\%, 10\%, 20\%, 30\%), summed.
\<close>

definition amount_in_bracket :: "rat \<Rightarrow> rat \<Rightarrow> rat \<Rightarrow> rat" where
  "amount_in_bracket lo hi gross = max 0 (min gross hi - lo)"

definition bracket_schedule_tax :: "rat \<Rightarrow> rat" where
  "bracket_schedule_tax gross =
     (0 / 100) * min gross 1000
     + (10 / 100) * amount_in_bracket 1000 3000 gross
     + (20 / 100) * amount_in_bracket 3000 5000 gross
     + (30 / 100) * max 0 (gross - 5000)"

text \<open>
  The worked-units of the batch runner: the mapping's value when the mapping is given and
  the employee's id is one of its keys, otherwise the default of the employee's category,
  0 for FULL_TIME, 80 for PART_TIME and 20 for CONTRACTOR. The specification names no
  default for a value that is no category; the code's \<^verbatim>\<open>else\<close> gives it 0 and
  \<^verbatim>\<open>calculate_gross_pay\<close> then rejects it.
\<close>

fun default_units :: "EmployeeType \<Rightarrow> Decimal" where
  "default_units FULL_TIME = Decimal 0 0"
| "default_units PART_TIME = Decimal 80 0"
| "default_units CONTRACTOR = Decimal 20 0"
| "default_units NOT_A_MEMBER = Decimal 0 0"

definition units_for :: "(employee_id \<rightharpoonup> Decimal) option \<Rightarrow> Employee \<Rightarrow> Decimal" where
  "units_for hmap emp =
     (case hmap of
        None \<Rightarrow> default_units (employee_type emp)
      | Some m \<Rightarrow>
          (case m (id_attr emp) of
             Some h \<Rightarrow> h
           | None \<Rightarrow> default_units (employee_type emp)))"

section \<open>Digits and the two roundings\<close>

lemma digits_pos: "0 < digits n"
  by (subst digits.simps) simp

lemma digits_small: "n < 10 \<Longrightarrow> digits n = 1"
  by (subst digits.simps) simp

lemma digits_bounds:
  "0 < n \<Longrightarrow> 10 ^ (digits n - 1) \<le> n \<and> n < 10 ^ digits n"
proof (induction n rule: digits.induct)
  case (1 n)
  show ?case
  proof (cases "n < 10")
    case True
    with "1.prems" show ?thesis by (simp add: digits_small)
  next
    case False
    then have pos: "0 < n div 10" by simp
    have d: "digits n = Suc (digits (n div 10))"
      using False by (subst digits.simps) simp
    from "1.IH" [OF False pos]
    have lo: "10 ^ (digits (n div 10) - 1) \<le> n div 10"
      and hi: "n div 10 < 10 ^ digits (n div 10)" by simp_all
    have "10 * 10 ^ (digits (n div 10) - 1) \<le> 10 * (n div 10)" using lo by simp
    moreover have "10 * 10 ^ (digits (n div 10) - 1) = (10::int) ^ digits (n div 10)"
      using digits_pos [of "n div 10"] by (cases "digits (n div 10)") simp_all
    moreover have "10 * (n div 10) \<le> n" by simp
    ultimately have a: "10 ^ digits (n div 10) \<le> n" by linarith
    have "n div 10 + 1 \<le> 10 ^ digits (n div 10)" using hi by simp
    then have "10 * (n div 10) + 10 \<le> 10 * 10 ^ digits (n div 10)" by simp
    moreover have "n < 10 * (n div 10) + 10" by simp
    ultimately have b: "n < 10 * 10 ^ digits (n div 10)" by linarith
    from a b show ?thesis by (simp add: d)
  qed
qed

lemma digits_le_prec_iff: "0 \<le> n \<Longrightarrow> digits n \<le> prec \<longleftrightarrow> n < 10 ^ prec"
proof (cases "n = 0")
  case True
  then show ?thesis by (simp add: digits_small prec_def)
next
  case False
  assume "0 \<le> n"
  with False have pos: "0 < n" by simp
  from digits_bounds [OF pos]
  have lo: "10 ^ (digits n - 1) \<le> n" and hi: "n < 10 ^ digits n" by simp_all
  show ?thesis
  proof
    assume "digits n \<le> prec"
    then have "(10::int) ^ digits n \<le> 10 ^ prec" by (intro power_increasing) simp_all
    with hi show "n < 10 ^ prec" by linarith
  next
    assume "n < 10 ^ prec"
    with lo have "(10::int) ^ (digits n - 1) < 10 ^ prec" by linarith
    then have "digits n - 1 < prec" by (simp add: power_strict_increasing_iff)
    then show "digits n \<le> prec" by simp
  qed
qed

lemma round_half_even_of_int [simp]: "round_half_even (of_int n) = n"
  by (simp add: round_half_even_def)

lemma round_half_even_numeral [simp]:
  "round_half_even (numeral n) = numeral n" "round_half_even (- numeral n) = - numeral n"
  "round_half_even 0 = 0" "round_half_even 1 = 1"
  using round_half_even_of_int [of "numeral n"] round_half_even_of_int [of "- numeral n"]
    round_half_even_of_int [of 0] round_half_even_of_int [of 1]
  by simp_all

lemma round_half_even_mono: "x \<le> y \<Longrightarrow> round_half_even x \<le> round_half_even y"
proof -
  assume xy: "x \<le> y"
  have fx: "of_int \<lfloor>x\<rfloor> \<le> x" "x < of_int \<lfloor>x\<rfloor> + 1" by linarith+
  have fy: "of_int \<lfloor>y\<rfloor> \<le> y" "y < of_int \<lfloor>y\<rfloor> + 1" by linarith+
  have le: "\<lfloor>x\<rfloor> \<le> \<lfloor>y\<rfloor>" using xy by (rule floor_mono)
  show ?thesis
  proof (cases "\<lfloor>x\<rfloor> = \<lfloor>y\<rfloor>")
    case True
    with xy show ?thesis by (auto simp: round_half_even_def Let_def)
  next
    case False
    with le have "\<lfloor>x\<rfloor> + 1 \<le> \<lfloor>y\<rfloor>" by simp
    moreover have "round_half_even x \<le> \<lfloor>x\<rfloor> + 1"
      by (auto simp: round_half_even_def Let_def)
    moreover have "\<lfloor>y\<rfloor> \<le> round_half_even y"
      by (auto simp: round_half_even_def Let_def)
    ultimately show ?thesis by linarith
  qed
qed

lemma round_half_even_bounds:
  "of_int (round_half_even x) - 1 / 2 \<le> x" "x \<le> of_int (round_half_even x) + 1 / 2"
  by (auto simp: round_half_even_def Let_def; linarith)+

lemma round_half_up_of_int [simp]: "round_half_up (of_int n) = n"
  unfolding round_half_up_def by (auto; linarith)

lemma round_half_up_numeral [simp]:
  "round_half_up (numeral n) = numeral n" "round_half_up (- numeral n) = - numeral n"
  "round_half_up 0 = 0" "round_half_up 1 = 1"
  using round_half_up_of_int [of "numeral n"] round_half_up_of_int [of "- numeral n"]
    round_half_up_of_int [of 0] round_half_up_of_int [of 1]
  by simp_all

lemma round_half_up_mono: "x \<le> y \<Longrightarrow> round_half_up x \<le> round_half_up y"
  unfolding round_half_up_def by (auto intro: floor_mono; linarith)

lemma round_half_up_bounds:
  "of_int (round_half_up x) - 1 / 2 \<le> x" "x \<le> of_int (round_half_up x) + 1 / 2"
  unfolding round_half_up_def by (auto; linarith)+

section \<open>Rounding to the precision of the context\<close>

lemma val_Decimal [simp]: "val (Decimal m e) = of_int m * 10 powi e"
  by (simp add: val_def)

lemma ten_powi_pos [simp]: "0 < (10::rat) powi k"
  by simp

lemma ten_powi_not_neg [simp]: "\<not> (10::rat) powi k < 0"
  by (simp add: not_less)

lemma val_zero_iff: "val d = 0 \<longleftrightarrow> coefficient d = 0"
  by (simp add: val_def)

lemma val_pos_iff: "0 < val d \<longleftrightarrow> 0 < coefficient d"
  by (simp add: val_def zero_less_mult_iff)

lemma val_neg_iff: "val d < 0 \<longleftrightarrow> coefficient d < 0"
  by (simp add: val_def mult_less_0_iff)

lemma abs_val: "\<bar>val d\<bar> = of_int \<bar>coefficient d\<bar> * 10 powi exponent d"
  by (simp add: val_def abs_mult)

lemma scale_bounds:
  assumes "coefficient d \<noteq> 0"
  shows "10 powi (scale d + 27) \<le> \<bar>val d\<bar>" "\<bar>val d\<bar> < 10 powi (scale d + 28)"
proof -
  let ?m = "\<bar>coefficient d\<bar>" and ?n = "digits \<bar>coefficient d\<bar>"
  have pos: "0 < ?m" using assms by simp
  from digits_bounds [OF pos]
  have lo: "10 ^ (?n - 1) \<le> ?m" and hi: "?m < 10 ^ ?n" by simp_all
  have n: "0 < ?n" by (rule digits_pos)
  have "(10::rat) powi (scale d + 27) = 10 ^ (?n - 1) * 10 powi exponent d"
  proof -
    have "scale d + 27 = int (?n - 1) + exponent d"
      using n by (simp add: scale_def prec_def)
    then show ?thesis by (simp add: power_int_add)
  qed
  moreover have "(10::rat) ^ (?n - 1) \<le> of_int ?m"
    using lo by (metis of_int_le_iff of_int_numeral of_int_power)
  ultimately show "10 powi (scale d + 27) \<le> \<bar>val d\<bar>"
    by (simp add: abs_val mult_right_mono)
  have "(10::rat) powi (scale d + 28) = 10 ^ ?n * 10 powi exponent d"
  proof -
    have "scale d + 28 = int ?n + exponent d"
      by (simp add: scale_def prec_def)
    then show ?thesis by (simp add: power_int_add)
  qed
  moreover have "of_int ?m < (10::rat) ^ ?n"
    using hi by (metis of_int_less_iff of_int_numeral of_int_power)
  ultimately show "\<bar>val d\<bar> < 10 powi (scale d + 28)"
    by (simp add: abs_val mult_strict_right_mono)
qed

lemma fix_context_small: "\<bar>coefficient d\<bar> < 10 ^ prec \<Longrightarrow> fix_context d = d"
  by (simp add: fix_context_def Let_def digits_le_prec_iff)

lemma val_fix_context:
  assumes "coefficient d \<noteq> 0"
  shows "val (fix_context d) =
           of_int (round_half_even (val d / 10 powi scale d)) * 10 powi scale d"
proof (cases "digits \<bar>coefficient d\<bar> \<le> prec")
  case True
  let ?n = "digits \<bar>coefficient d\<bar>"
  have "val d / 10 powi scale d = of_int (coefficient d) * 10 powi (exponent d - scale d)"
    by (simp add: val_def power_int_diff)
  also have "exponent d - scale d = int (prec - ?n)"
    using True by (simp add: scale_def)
  finally have "val d / 10 powi scale d = of_int (coefficient d * 10 ^ (prec - ?n))"
    by simp
  then have "of_int (round_half_even (val d / 10 powi scale d)) * 10 powi scale d
      = (val d / 10 powi scale d) * 10 powi scale d"
    by (metis round_half_even_of_int)
  also have "\<dots> = val d" by simp
  finally show ?thesis using True by (simp add: fix_context_def Let_def)
next
  case False
  let ?n = "digits \<bar>coefficient d\<bar>"
  let ?s = "?n - prec"
  let ?c = "round_half_even (of_int (coefficient d) / 10 ^ ?s)"
  have sc: "scale d = exponent d + int ?s"
    using False by (simp add: scale_def)
  have q: "val d / 10 powi scale d = of_int (coefficient d) / 10 ^ ?s"
    by (simp add: val_def sc power_int_add)
  show ?thesis
  proof (cases "\<bar>?c\<bar> = 10 ^ prec")
    case True
    then have dv: "10 dvd ?c"
      by (metis dvd_abs_iff dvd_power prec_def zero_less_numeral dvd_refl)
    have "fix_context d = Decimal (?c div 10) (exponent d + int ?s + 1)"
      using False True by (simp add: fix_context_def Let_def)
    then have "val (fix_context d) = of_int (?c div 10) * 10 powi (scale d + 1)"
      by (simp add: sc)
    also have "\<dots> = of_int (?c div 10) * 10 * 10 powi scale d"
      by (simp add: power_int_add)
    also have "of_int (?c div 10) * (10::rat) = of_int (?c div 10 * 10)" by simp
    also have "?c div 10 * 10 = ?c" using dv by simp
    finally show ?thesis by (simp add: q)
  next
    case F2: False
    have "fix_context d = Decimal ?c (exponent d + int ?s)"
      using False F2 by (simp add: fix_context_def Let_def)
    then have "val (fix_context d) = of_int ?c * 10 powi scale d"
      by (simp add: sc)
    then show ?thesis by (simp only: q)
  qed
qed

lemma val_fix_context_zero: "coefficient d = 0 \<Longrightarrow> val (fix_context d) = 0"
  by (simp add: fix_context_small prec_def val_def)

lemma powi_split27: "(10::rat) powi (k + 27) = 10 ^ 27 * 10 powi k"
  by (simp add: power_int_add)

lemma powi_split28: "(10::rat) powi (k + 28) = 10 ^ 28 * 10 powi k"
  by (simp add: power_int_add)

lemma scale_le:
  assumes "coefficient a \<noteq> 0" "coefficient b \<noteq> 0" "\<bar>val a\<bar> \<le> \<bar>val b\<bar>"
  shows "scale a \<le> scale b"
proof (rule ccontr)
  assume "\<not> scale a \<le> scale b"
  then have "scale b + 28 \<le> scale a + 27" by simp
  then have "(10::rat) powi (scale b + 28) \<le> 10 powi (scale a + 27)"
    by (intro power_int_increasing) simp_all
  with scale_bounds [OF assms(1)] scale_bounds [OF assms(2)] assms(3)
  show False by linarith
qed

lemma quotient_bounds_pos:
  assumes "0 < val d"
  shows "10 ^ 27 \<le> val d / 10 powi scale d" "val d / 10 powi scale d < 10 ^ 28"
proof -
  have nz: "coefficient d \<noteq> 0" using assms by (simp add: val_pos_iff)
  from scale_bounds [OF nz] assms
  have "10 ^ 27 * 10 powi scale d \<le> val d" "val d < 10 ^ 28 * 10 powi scale d"
    by (simp_all add: powi_split27 powi_split28)
  then show "10 ^ 27 \<le> val d / 10 powi scale d" "val d / 10 powi scale d < 10 ^ 28"
    by (simp_all add: pos_le_divide_eq pos_divide_less_eq)
qed

lemma quotient_bounds_neg:
  assumes "val d < 0"
  shows "val d / 10 powi scale d \<le> - (10 ^ 27)" "- (10 ^ 28) < val d / 10 powi scale d"
proof -
  have nz: "coefficient d \<noteq> 0" using assms by (simp add: val_neg_iff)
  from scale_bounds [OF nz] assms
  have "10 ^ 27 * 10 powi scale d \<le> - val d" "- val d < 10 ^ 28 * 10 powi scale d"
    by (simp_all add: powi_split27 powi_split28)
  then have "val d \<le> - (10 ^ 27) * 10 powi scale d" "- (10 ^ 28) * 10 powi scale d < val d"
    by simp_all
  then show "val d / 10 powi scale d \<le> - (10 ^ 27)" "- (10 ^ 28) < val d / 10 powi scale d"
    by (simp_all add: pos_le_divide_eq pos_divide_le_eq pos_less_divide_eq)
qed

lemma rounded_quotient_pos:
  assumes "0 < val d"
  shows "10 ^ 27 \<le> round_half_even (val d / 10 powi scale d)"
    "round_half_even (val d / 10 powi scale d) \<le> 10 ^ 28"
proof -
  have "round_half_even (of_int (10 ^ 27)) \<le> round_half_even (val d / 10 powi scale d)"
    using quotient_bounds_pos(1) [OF assms] by (intro round_half_even_mono) simp
  then show "10 ^ 27 \<le> round_half_even (val d / 10 powi scale d)" by simp
  have "round_half_even (val d / 10 powi scale d) \<le> round_half_even (of_int (10 ^ 28))"
    using quotient_bounds_pos(2) [OF assms] by (intro round_half_even_mono) simp
  then show "round_half_even (val d / 10 powi scale d) \<le> 10 ^ 28" by simp
qed

lemma rounded_quotient_neg:
  assumes "val d < 0"
  shows "round_half_even (val d / 10 powi scale d) \<le> - (10 ^ 27)"
    "- (10 ^ 28) \<le> round_half_even (val d / 10 powi scale d)"
proof -
  have "round_half_even (val d / 10 powi scale d) \<le> round_half_even (of_int (- (10 ^ 27)))"
    using quotient_bounds_neg(1) [OF assms] by (intro round_half_even_mono) simp
  then show "round_half_even (val d / 10 powi scale d) \<le> - (10 ^ 27)" by simp
  have "round_half_even (of_int (- (10 ^ 28))) \<le> round_half_even (val d / 10 powi scale d)"
    using quotient_bounds_neg(2) [OF assms] by (intro round_half_even_mono) simp
  then show "- (10 ^ 28) \<le> round_half_even (val d / 10 powi scale d)" by simp
qed

lemma fix_context_range_pos:
  assumes "0 < val d"
  shows "10 powi (scale d + 27) \<le> val (fix_context d)"
    "val (fix_context d) \<le> 10 powi (scale d + 28)"
proof -
  have nz: "coefficient d \<noteq> 0" using assms by (simp add: val_pos_iff)
  have "(10::rat) ^ 27 \<le> of_int (round_half_even (val d / 10 powi scale d))"
    using rounded_quotient_pos(1) [OF assms]
    by (metis of_int_le_iff of_int_numeral of_int_power)
  then show "10 powi (scale d + 27) \<le> val (fix_context d)"
    by (simp add: val_fix_context [OF nz] powi_split27 mult_right_mono)
  have "of_int (round_half_even (val d / 10 powi scale d)) \<le> (10::rat) ^ 28"
    using rounded_quotient_pos(2) [OF assms]
    by (metis of_int_le_iff of_int_numeral of_int_power)
  then show "val (fix_context d) \<le> 10 powi (scale d + 28)"
    by (simp add: val_fix_context [OF nz] powi_split28 mult_right_mono)
qed

lemma fix_context_range_neg:
  assumes "val d < 0"
  shows "val (fix_context d) \<le> - (10 powi (scale d + 27))"
    "- (10 powi (scale d + 28)) \<le> val (fix_context d)"
proof -
  have nz: "coefficient d \<noteq> 0" using assms by (simp add: val_neg_iff)
  have "of_int (round_half_even (val d / 10 powi scale d)) \<le> - ((10::rat) ^ 27)"
    using rounded_quotient_neg(1) [OF assms]
    by (metis of_int_le_iff of_int_numeral of_int_power of_int_minus)
  then have "of_int (round_half_even (val d / 10 powi scale d)) * 10 powi scale d
      \<le> - ((10::rat) ^ 27) * 10 powi scale d"
    by (intro mult_right_mono) simp_all
  then show "val (fix_context d) \<le> - (10 powi (scale d + 27))"
    by (simp add: val_fix_context [OF nz] powi_split27)
  have "- ((10::rat) ^ 28) \<le> of_int (round_half_even (val d / 10 powi scale d))"
    using rounded_quotient_neg(2) [OF assms]
    by (metis of_int_le_iff of_int_numeral of_int_power of_int_minus)
  then have "- ((10::rat) ^ 28) * 10 powi scale d
      \<le> of_int (round_half_even (val d / 10 powi scale d)) * 10 powi scale d"
    by (intro mult_right_mono) simp_all
  then show "- (10 powi (scale d + 28)) \<le> val (fix_context d)"
    by (simp add: val_fix_context [OF nz] powi_split28)
qed

lemma fix_context_pos: "0 < val d \<Longrightarrow> 0 < val (fix_context d)"
  using fix_context_range_pos(1) [of d] ten_powi_pos [of "scale d + 27"] by linarith

lemma fix_context_neg: "val d < 0 \<Longrightarrow> val (fix_context d) < 0"
  using fix_context_range_neg(1) [of d] ten_powi_pos [of "scale d + 27"] by linarith

lemma fix_context_same_scale:
  assumes "coefficient a \<noteq> 0" "coefficient b \<noteq> 0" "scale a = scale b" "val a \<le> val b"
  shows "val (fix_context a) \<le> val (fix_context b)"
proof -
  have "val a / 10 powi scale b \<le> val b / 10 powi scale b"
    using assms(4) by (simp add: divide_right_mono)
  then have "round_half_even (val a / 10 powi scale b) \<le> round_half_even (val b / 10 powi scale b)"
    by (rule round_half_even_mono)
  then have "(of_int (round_half_even (val a / 10 powi scale b)) :: rat)
      \<le> of_int (round_half_even (val b / 10 powi scale b))" by simp
  then show ?thesis
    by (simp add: val_fix_context assms mult_right_mono)
qed

lemma fix_context_mono:
  assumes "val a \<le> val b"
  shows "val (fix_context a) \<le> val (fix_context b)"
proof -
  consider "0 < val a" | "val b < 0" | "val a \<le> 0" "0 \<le> val b" by linarith
  then show ?thesis
  proof cases
    case 1
    with assms have pb: "0 < val b" by simp
    have nz: "coefficient a \<noteq> 0" "coefficient b \<noteq> 0"
      using 1 pb by (simp_all add: val_pos_iff)
    have "scale a \<le> scale b" using nz 1 pb assms by (intro scale_le) simp_all
    then consider "scale a = scale b" | "scale a + 28 \<le> scale b + 27" by linarith
    then show ?thesis
    proof cases
      case 1
      with nz assms show ?thesis by (intro fix_context_same_scale)
    next
      case 2
      then have "(10::rat) powi (scale a + 28) \<le> 10 powi (scale b + 27)"
        by (intro power_int_increasing) simp_all
      with fix_context_range_pos(2) [OF \<open>0 < val a\<close>] fix_context_range_pos(1) [OF pb]
      show ?thesis by linarith
    qed
  next
    case 2
    with assms have na: "val a < 0" by simp
    have nz: "coefficient a \<noteq> 0" "coefficient b \<noteq> 0"
      using 2 na by (simp_all add: val_neg_iff)
    have "scale b \<le> scale a" using nz 2 na assms by (intro scale_le) simp_all
    then consider "scale a = scale b" | "scale b + 28 \<le> scale a + 27" by linarith
    then show ?thesis
    proof cases
      case 1
      with nz assms show ?thesis by (intro fix_context_same_scale)
    next
      case 2
      then have "(10::rat) powi (scale b + 28) \<le> 10 powi (scale a + 27)"
        by (intro power_int_increasing) simp_all
      with fix_context_range_neg(1) [OF na] fix_context_range_neg(2) [OF \<open>val b < 0\<close>]
      show ?thesis by linarith
    qed
  next
    case 3
    have "val (fix_context a) \<le> 0"
    proof (cases "val a = 0")
      case True
      then show ?thesis by (simp add: val_zero_iff val_fix_context_zero)
    next
      case False
      with 3 have "val a < 0" by simp
      then show ?thesis using fix_context_neg by fastforce
    qed
    moreover have "0 \<le> val (fix_context b)"
    proof (cases "val b = 0")
      case True
      then show ?thesis by (simp add: val_zero_iff val_fix_context_zero)
    next
      case False
      with 3 have "0 < val b" by simp
      then show ?thesis using fix_context_pos by fastforce
    qed
    ultimately show ?thesis by linarith
  qed
qed

lemma fix_context_cong: "val a = val b \<Longrightarrow> val (fix_context a) = val (fix_context b)"
  by (intro antisym fix_context_mono) simp_all

lemma fix_context_exact:
  assumes "val d = of_int m * 10 powi e" "\<bar>m\<bar> < 10 ^ prec"
  shows "val (fix_context d) = val d"
proof -
  have "val d = val (Decimal m e)" using assms(1) by simp
  then have "val (fix_context d) = val (fix_context (Decimal m e))" by (rule fix_context_cong)
  also have "fix_context (Decimal m e) = Decimal m e"
    using assms(2) by (simp add: fix_context_small)
  finally show ?thesis using assms(1) by simp
qed

section \<open>Arithmetic in the context and rounding to cents\<close>

lemma val_dec_neg [simp]: "val (dec_neg a) = - val a"
  by (simp add: dec_neg_def val_def)

lemma val_product: "val (Decimal (coefficient a * coefficient b) (exponent a + exponent b))
    = val a * val b"
  by (simp add: val_def power_int_add)

lemma val_aligned:
  assumes "e \<le> exponent a"
  shows "of_int (coefficient a * 10 ^ nat (exponent a - e)) * (10::rat) powi e = val a"
proof -
  have "(10::rat) ^ nat (exponent a - e) = 10 powi (exponent a - e)"
    using assms by (simp add: power_int_def)
  then show ?thesis by (simp add: val_def power_int_diff)
qed

lemma val_sum:
  "val (Decimal (coefficient a * 10 ^ nat (exponent a - min (exponent a) (exponent b))
                 + coefficient b * 10 ^ nat (exponent b - min (exponent a) (exponent b)))
          (min (exponent a) (exponent b))) = val a + val b"
proof -
  let ?e = "min (exponent a) (exponent b)"
  have "val (Decimal (coefficient a * 10 ^ nat (exponent a - ?e)
                 + coefficient b * 10 ^ nat (exponent b - ?e)) ?e)
      = of_int (coefficient a * 10 ^ nat (exponent a - ?e)) * 10 powi ?e
        + of_int (coefficient b * 10 ^ nat (exponent b - ?e)) * 10 powi ?e"
    by (simp add: algebra_simps)
  also have "\<dots> = val a + val b"
    by (simp only: val_aligned [of ?e a] val_aligned [of ?e b] min.cobounded1 min.cobounded2)
  finally show ?thesis .
qed

lemma dec_mul_le:
  "val a * val b \<le> val c * val d \<Longrightarrow> val (dec_mul a b) \<le> val (dec_mul c d)"
  unfolding dec_mul_def by (intro fix_context_mono) (simp only: val_product)

lemma dec_add_le:
  "val a + val b \<le> val c + val d \<Longrightarrow> val (dec_add a b) \<le> val (dec_add c d)"
  unfolding dec_add_def Let_def by (intro fix_context_mono) (simp only: val_sum)

lemma dec_sub_le:
  "val a - val b \<le> val c - val d \<Longrightarrow> val (dec_sub a b) \<le> val (dec_sub c d)"
  unfolding dec_sub_def by (intro dec_add_le) simp

lemma dec_mul_exact:
  "val a * val b = of_int m * 10 powi e \<Longrightarrow> \<bar>m\<bar> < 10 ^ prec \<Longrightarrow>
   val (dec_mul a b) = val a * val b"
  unfolding dec_mul_def using fix_context_exact [of _ m e] by (simp only: val_product)

lemma dec_add_exact:
  "val a + val b = of_int m * 10 powi e \<Longrightarrow> \<bar>m\<bar> < 10 ^ prec \<Longrightarrow>
   val (dec_add a b) = val a + val b"
  unfolding dec_add_def Let_def using fix_context_exact [of _ m e] by (simp only: val_sum)

lemma dec_sub_exact:
  "val a - val b = of_int m * 10 powi e \<Longrightarrow> \<bar>m\<bar> < 10 ^ prec \<Longrightarrow>
   val (dec_sub a b) = val a - val b"
  unfolding dec_sub_def using dec_add_exact [of a "dec_neg b" m e] by simp

lemma dec_mul_upper:
  assumes "val a * val b \<le> of_int m * 10 powi e" "\<bar>m\<bar> < 10 ^ prec"
  shows "val (dec_mul a b) \<le> of_int m * 10 powi e"
proof -
  have "val (dec_mul a b) \<le> val (fix_context (Decimal m e))"
    unfolding dec_mul_def
  proof (rule fix_context_mono)
    show "val (Decimal (coefficient a * coefficient b) (exponent a + exponent b))
        \<le> val (Decimal m e)"
      unfolding val_product using assms(1) by simp
  qed
  then show ?thesis using assms(2) by (simp add: fix_context_small)
qed

lemma dec_mul_lower:
  assumes "of_int m * 10 powi e \<le> val a * val b" "\<bar>m\<bar> < 10 ^ prec"
  shows "of_int m * 10 powi e \<le> val (dec_mul a b)"
proof -
  have "val (fix_context (Decimal m e)) \<le> val (dec_mul a b)"
    unfolding dec_mul_def
  proof (rule fix_context_mono)
    show "val (Decimal m e)
        \<le> val (Decimal (coefficient a * coefficient b) (exponent a + exponent b))"
      unfolding val_product using assms(1) by simp
  qed
  then show ?thesis using assms(2) by (simp add: fix_context_small)
qed

lemma dec_add_upper:
  assumes "val a + val b \<le> of_int m * 10 powi e" "\<bar>m\<bar> < 10 ^ prec"
  shows "val (dec_add a b) \<le> of_int m * 10 powi e"
proof -
  have "val (dec_add a b) \<le> val (fix_context (Decimal m e))"
    unfolding dec_add_def Let_def
  proof (rule fix_context_mono)
    show "val (Decimal (coefficient a * 10 ^ nat (exponent a - min (exponent a) (exponent b))
                 + coefficient b * 10 ^ nat (exponent b - min (exponent a) (exponent b)))
          (min (exponent a) (exponent b))) \<le> val (Decimal m e)"
      unfolding val_sum using assms(1) by simp
  qed
  then show ?thesis using assms(2) by (simp add: fix_context_small)
qed

lemma dec_add_lower:
  assumes "of_int m * 10 powi e \<le> val a + val b" "\<bar>m\<bar> < 10 ^ prec"
  shows "of_int m * 10 powi e \<le> val (dec_add a b)"
proof -
  have "val (fix_context (Decimal m e)) \<le> val (dec_add a b)"
    unfolding dec_add_def Let_def
  proof (rule fix_context_mono)
    show "val (Decimal m e) \<le>
          val (Decimal (coefficient a * 10 ^ nat (exponent a - min (exponent a) (exponent b))
                 + coefficient b * 10 ^ nat (exponent b - min (exponent a) (exponent b)))
          (min (exponent a) (exponent b)))"
      unfolding val_sum using assms(1) by simp
  qed
  then show ?thesis using assms(2) by (simp add: fix_context_small)
qed

lemma dec_sub_upper:
  "val a - val b \<le> of_int m * 10 powi e \<Longrightarrow> \<bar>m\<bar> < 10 ^ prec \<Longrightarrow>
   val (dec_sub a b) \<le> of_int m * 10 powi e"
  unfolding dec_sub_def using dec_add_upper [of a "dec_neg b" m e] by simp

lemma dec_sub_lower:
  "of_int m * 10 powi e \<le> val a - val b \<Longrightarrow> \<bar>m\<bar> < 10 ^ prec \<Longrightarrow>
   of_int m * 10 powi e \<le> val (dec_sub a b)"
  unfolding dec_sub_def using dec_add_lower [of m e a "dec_neg b"] by simp

lemma powi_minus2 [simp]: "(10::rat) powi (- 2) = 1 / 100"
  by (simp add: power_int_minus_divide)

lemma round_currency_Inr_iff:
  "round_currency d = Inr r \<longleftrightarrow>
     \<bar>round_half_up (val d * 100)\<bar> < 10 ^ prec \<and> r = Decimal (round_half_up (val d * 100)) (- 2)"
  by (auto simp: round_currency_def quantize_half_up_def Let_def)

lemma round_currency_Inl_iff:
  "round_currency d = Inl err \<longleftrightarrow>
     10 ^ prec \<le> \<bar>round_half_up (val d * 100)\<bar> \<and> err = DecimalException"
  by (auto simp: round_currency_def quantize_half_up_def Let_def)

lemma round_currency_val:
  "round_currency d = Inr r \<Longrightarrow> val r = of_int (round_half_up (val d * 100)) / 100"
  by (simp add: round_currency_Inr_iff)

lemma round_currency_cents:
  "\<bar>c\<bar> < 10 ^ prec \<Longrightarrow> val d = of_int c / 100 \<Longrightarrow> round_currency d = Inr (Decimal c (- 2))"
  by (simp add: round_currency_Inr_iff)

lemma round_currency_between:
  assumes "of_int lo / 100 \<le> val d" "val d \<le> of_int hi / 100"
    and "\<bar>lo\<bar> < 10 ^ prec" "\<bar>hi\<bar> < 10 ^ prec"
  shows "\<exists>c. round_currency d = Inr (Decimal c (- 2)) \<and> lo \<le> c \<and> c \<le> hi \<and>
              c = round_half_up (val d * 100)"
proof -
  have "round_half_up (of_int lo) \<le> round_half_up (val d * 100)"
    using assms(1) by (intro round_half_up_mono) simp
  moreover have "round_half_up (val d * 100) \<le> round_half_up (of_int hi)"
    using assms(2) by (intro round_half_up_mono) simp
  ultimately have b: "lo \<le> round_half_up (val d * 100)" "round_half_up (val d * 100) \<le> hi"
    by simp_all
  with assms(3,4) have "\<bar>round_half_up (val d * 100)\<bar> < 10 ^ prec" by linarith
  with b show ?thesis by (simp add: round_currency_Inr_iff)
qed

section \<open>Income tax\<close>

lemmas bracket_defs = TAX_BRACKET_1_MAX_def TAX_BRACKET_2_MAX_def TAX_BRACKET_3_MAX_def

lemma val_brackets [simp]:
  "val TAX_BRACKET_1_MAX = 1000" "val TAX_BRACKET_2_MAX = 3000" "val TAX_BRACKET_3_MAX = 5000"
  by (simp_all add: bracket_defs)

lemma val_rates [simp]:
  "val (Decimal 10 (- 2)) = 1 / 10" "val (Decimal 20 (- 2)) = 1 / 5"
  "val (Decimal 30 (- 2)) = 3 / 10" "val (Decimal 5 (- 2)) = 1 / 20"
  by simp_all

lemma tax_base_200:
  "dec_mul (dec_sub TAX_BRACKET_2_MAX TAX_BRACKET_1_MAX) (Decimal 10 (- 2)) = Decimal 20000 (- 2)"
  by code_simp

lemma tax_base_600:
  "dec_add (Decimal 20000 (- 2))
     (dec_mul (dec_sub TAX_BRACKET_3_MAX TAX_BRACKET_2_MAX) (Decimal 20 (- 2)))
   = Decimal 60000 (- 2)"
  by code_simp

lemma tax_before_rounding_cases:
  "tax_before_rounding gross =
     (if val gross \<le> 1000 then Decimal 0 0
      else if val gross \<le> 3000 then
        dec_mul (dec_sub gross TAX_BRACKET_1_MAX) (Decimal 10 (- 2))
      else if val gross \<le> 5000 then
        dec_add (Decimal 20000 (- 2))
          (dec_mul (dec_sub gross TAX_BRACKET_2_MAX) (Decimal 20 (- 2)))
      else
        dec_add (Decimal 60000 (- 2))
          (dec_mul (dec_sub gross TAX_BRACKET_3_MAX) (Decimal 30 (- 2))))"
  by (simp add: tax_before_rounding_def tax_base_200 tax_base_600)

text \<open>Bounds by integers, which the context represents exactly up to 28 digits.\<close>

lemma dec_sub_int_lower:
  "of_int m \<le> val a - val b \<Longrightarrow> \<bar>m\<bar> < 10 ^ prec \<Longrightarrow> of_int m \<le> val (dec_sub a b)"
  using dec_sub_lower [of m 0 a b] by simp

lemma dec_sub_int_upper:
  "val a - val b \<le> of_int m \<Longrightarrow> \<bar>m\<bar> < 10 ^ prec \<Longrightarrow> val (dec_sub a b) \<le> of_int m"
  using dec_sub_upper [of a b m 0] by simp

lemma dec_mul_int_lower:
  "of_int m \<le> val a * val b \<Longrightarrow> \<bar>m\<bar> < 10 ^ prec \<Longrightarrow> of_int m \<le> val (dec_mul a b)"
  using dec_mul_lower [of m 0 a b] by simp

lemma dec_mul_int_upper:
  "val a * val b \<le> of_int m \<Longrightarrow> \<bar>m\<bar> < 10 ^ prec \<Longrightarrow> val (dec_mul a b) \<le> of_int m"
  using dec_mul_upper [of a b m 0] by simp

lemma dec_add_int_lower:
  "of_int m \<le> val a + val b \<Longrightarrow> \<bar>m\<bar> < 10 ^ prec \<Longrightarrow> of_int m \<le> val (dec_add a b)"
  using dec_add_lower [of m 0 a b] by simp

lemma dec_add_int_upper:
  "val a + val b \<le> of_int m \<Longrightarrow> \<bar>m\<bar> < 10 ^ prec \<Longrightarrow> val (dec_add a b) \<le> of_int m"
  using dec_add_upper [of a b m 0] by simp

lemma tax_bracket_2_range:
  assumes "1000 < val g" "val g \<le> 3000"
  shows "0 \<le> val (tax_before_rounding g)" "val (tax_before_rounding g) \<le> 200"
proof -
  let ?s = "dec_sub g TAX_BRACKET_1_MAX"
  have s0: "0 \<le> val ?s"
    using dec_sub_int_lower [of 0 g TAX_BRACKET_1_MAX] assms by (simp add: prec_def)
  have s1: "val ?s \<le> 2000"
    using dec_sub_int_upper [of g TAX_BRACKET_1_MAX 2000] assms by (simp add: prec_def)
  have t0: "0 \<le> val (dec_mul ?s (Decimal 10 (- 2)))"
    using dec_mul_int_lower [of 0 ?s "Decimal 10 (- 2)"] s0 by (simp add: prec_def)
  have t1: "val (dec_mul ?s (Decimal 10 (- 2))) \<le> 200"
    using dec_mul_int_upper [of ?s "Decimal 10 (- 2)" 200] s1 by (simp add: prec_def)
  from t0 t1 assms show "0 \<le> val (tax_before_rounding g)" "val (tax_before_rounding g) \<le> 200"
    by (simp_all add: tax_before_rounding_cases)
qed

lemma tax_bracket_3_range:
  assumes "3000 < val g" "val g \<le> 5000"
  shows "200 \<le> val (tax_before_rounding g)" "val (tax_before_rounding g) \<le> 600"
proof -
  let ?s = "dec_sub g TAX_BRACKET_2_MAX"
  let ?p = "dec_mul ?s (Decimal 20 (- 2))"
  have s0: "0 \<le> val ?s"
    using dec_sub_int_lower [of 0 g TAX_BRACKET_2_MAX] assms by (simp add: prec_def)
  have s1: "val ?s \<le> 2000"
    using dec_sub_int_upper [of g TAX_BRACKET_2_MAX 2000] assms by (simp add: prec_def)
  have p0: "0 \<le> val ?p"
    using dec_mul_int_lower [of 0 ?s "Decimal 20 (- 2)"] s0 by (simp add: prec_def)
  have p1: "val ?p \<le> 400"
    using dec_mul_int_upper [of ?s "Decimal 20 (- 2)" 400] s1 by (simp add: prec_def)
  have t0: "200 \<le> val (dec_add (Decimal 20000 (- 2)) ?p)"
    using dec_add_int_lower [of 200 "Decimal 20000 (- 2)" ?p] p0 by (simp add: prec_def)
  have t1: "val (dec_add (Decimal 20000 (- 2)) ?p) \<le> 600"
    using dec_add_int_upper [of "Decimal 20000 (- 2)" ?p 600] p1 by (simp add: prec_def)
  from t0 t1 assms
  show "200 \<le> val (tax_before_rounding g)" "val (tax_before_rounding g) \<le> 600"
    by (simp_all add: tax_before_rounding_cases)
qed

lemma tax_bracket_4_range:
  assumes "5000 < val g"
  shows "600 \<le> val (tax_before_rounding g)"
proof -
  let ?s = "dec_sub g TAX_BRACKET_3_MAX"
  let ?p = "dec_mul ?s (Decimal 30 (- 2))"
  have s0: "0 \<le> val ?s"
    using dec_sub_int_lower [of 0 g TAX_BRACKET_3_MAX] assms by (simp add: prec_def)
  have p0: "0 \<le> val ?p"
    using dec_mul_int_lower [of 0 ?s "Decimal 30 (- 2)"] s0 by (simp add: prec_def)
  have "600 \<le> val (dec_add (Decimal 60000 (- 2)) ?p)"
    using dec_add_int_lower [of 600 "Decimal 60000 (- 2)" ?p] p0 by (simp add: prec_def)
  with assms show ?thesis by (simp add: tax_before_rounding_cases)
qed

lemma tax_bracket_1: "val g \<le> 1000 \<Longrightarrow> tax_before_rounding g = Decimal 0 0"
  by (simp add: tax_before_rounding_cases)

lemma tax_before_rounding_nonneg: "0 \<le> val (tax_before_rounding g)"
proof -
  consider "val g \<le> 1000" | "1000 < val g" "val g \<le> 3000" | "3000 < val g" "val g \<le> 5000"
    | "5000 < val g" by linarith
  then show ?thesis
  proof cases
    case 1 then show ?thesis by (simp add: tax_bracket_1)
  next
    case 2 then show ?thesis by (rule tax_bracket_2_range)
  next
    case 3 then show ?thesis using tax_bracket_3_range(1) [of g] by simp
  next
    case 4 then show ?thesis using tax_bracket_4_range [of g] by simp
  qed
qed

lemma tax_before_rounding_mono:
  assumes "val g1 \<le> val g2"
  shows "val (tax_before_rounding g1) \<le> val (tax_before_rounding g2)"
proof -
  consider
      (b1) "val g1 \<le> 1000"
    | (b22) "1000 < val g1" "val g2 \<le> 3000"
    | (b2x) "1000 < val g1" "val g1 \<le> 3000" "3000 < val g2"
    | (b33) "3000 < val g1" "val g2 \<le> 5000"
    | (b34) "3000 < val g1" "val g1 \<le> 5000" "5000 < val g2"
    | (b44) "5000 < val g1"
    by linarith
  then show ?thesis
  proof cases
    case b1
    then show ?thesis using tax_before_rounding_nonneg [of g2] by (simp add: tax_bracket_1)
  next
    case b22
    with assms have r: "1000 < val g2" "val g1 \<le> 3000" by simp_all
    have "val (dec_sub g1 TAX_BRACKET_1_MAX) \<le> val (dec_sub g2 TAX_BRACKET_1_MAX)"
      using assms by (intro dec_sub_le) simp
    then have "val (dec_mul (dec_sub g1 TAX_BRACKET_1_MAX) (Decimal 10 (- 2)))
        \<le> val (dec_mul (dec_sub g2 TAX_BRACKET_1_MAX) (Decimal 10 (- 2)))"
      by (intro dec_mul_le) simp
    with b22 r show ?thesis by (simp add: tax_before_rounding_cases)
  next
    case b2x
    have "val (tax_before_rounding g1) \<le> 200" using b2x by (intro tax_bracket_2_range)
    moreover have "200 \<le> val (tax_before_rounding g2)"
    proof (cases "val g2 \<le> 5000")
      case True
      with b2x show ?thesis by (intro tax_bracket_3_range)
    next
      case False
      then show ?thesis using tax_bracket_4_range [of g2] by simp
    qed
    ultimately show ?thesis by linarith
  next
    case b33
    with assms have r: "3000 < val g2" "val g1 \<le> 5000" by simp_all
    have "val (dec_sub g1 TAX_BRACKET_2_MAX) \<le> val (dec_sub g2 TAX_BRACKET_2_MAX)"
      using assms by (intro dec_sub_le) simp
    then have "val (dec_mul (dec_sub g1 TAX_BRACKET_2_MAX) (Decimal 20 (- 2)))
        \<le> val (dec_mul (dec_sub g2 TAX_BRACKET_2_MAX) (Decimal 20 (- 2)))"
      by (intro dec_mul_le) simp
    then have "val (dec_add (Decimal 20000 (- 2))
          (dec_mul (dec_sub g1 TAX_BRACKET_2_MAX) (Decimal 20 (- 2))))
        \<le> val (dec_add (Decimal 20000 (- 2))
          (dec_mul (dec_sub g2 TAX_BRACKET_2_MAX) (Decimal 20 (- 2))))"
      by (intro dec_add_le) simp
    with b33 r show ?thesis by (simp add: tax_before_rounding_cases)
  next
    case b34
    have "val (tax_before_rounding g1) \<le> 600" using b34 by (intro tax_bracket_3_range)
    moreover have "600 \<le> val (tax_before_rounding g2)"
      using b34 by (intro tax_bracket_4_range)
    ultimately show ?thesis by linarith
  next
    case b44
    with assms have r: "5000 < val g2" by simp
    have "val (dec_sub g1 TAX_BRACKET_3_MAX) \<le> val (dec_sub g2 TAX_BRACKET_3_MAX)"
      using assms by (intro dec_sub_le) simp
    then have "val (dec_mul (dec_sub g1 TAX_BRACKET_3_MAX) (Decimal 30 (- 2)))
        \<le> val (dec_mul (dec_sub g2 TAX_BRACKET_3_MAX) (Decimal 30 (- 2)))"
      by (intro dec_mul_le) simp
    then have "val (dec_add (Decimal 60000 (- 2))
          (dec_mul (dec_sub g1 TAX_BRACKET_3_MAX) (Decimal 30 (- 2))))
        \<le> val (dec_add (Decimal 60000 (- 2))
          (dec_mul (dec_sub g2 TAX_BRACKET_3_MAX) (Decimal 30 (- 2))))"
      by (intro dec_add_le) simp
    with b44 r show ?thesis by (simp add: tax_before_rounding_cases)
  qed
qed

lemma powi_neg_nat: "(10::rat) powi (- int k) = 1 / 10 ^ k"
  by (simp add: power_int_minus_divide)

lemma powi_neg_nat_Suc: "(10::rat) powi (- int k - 1) = 1 / (10 * 10 ^ k)"
proof -
  have "- int k - 1 = - int (Suc k)" by simp
  then show ?thesis by (simp only: powi_neg_nat) simp
qed

lemma tax_before_rounding_exact:
  assumes g: "val g = of_int n / 10 ^ k" and small: "\<bar>n\<bar> + 5000 * 10 ^ k < 10 ^ 26"
  shows "val (tax_before_rounding g) = bracket_schedule_tax (val g)"
proof -
  define P :: int where "P = 10 ^ k"
  have P: "0 < P" by (simp add: P_def)
  have Pr: "(10::rat) ^ k = of_int P" by (simp add: P_def)
  have Pnz: "(of_int P :: rat) \<noteq> 0" using P by simp
  have g': "val g = of_int n / of_int P" using g Pr by simp
  have small': "\<bar>n\<bar> + 5000 * P < 10 ^ 26" using small by (simp add: P_def)
  have diff: "val g - of_int b = of_int (n - b * P) * 10 powi (- int k)" for b :: int
    using Pnz by (simp add: g' powi_neg_nat Pr field_simps)
  have prod: "(val g - of_int b) * (of_int r / 10) = of_int (r * (n - b * P)) * 10 powi (- int k - 1)"
    for b r :: int
    using Pnz by (simp add: g' powi_neg_nat_Suc Pr field_simps)
  have sub: "val (dec_sub g B) = val g - of_int b"
    if "val B = of_int b" "0 \<le> b" "b \<le> 5000" for B b
  proof -
    have "\<bar>n - b * P\<bar> < 10 ^ prec"
    proof -
      have "b * P \<le> 5000 * P" using that P by (intro mult_right_mono) simp_all
      moreover have "0 \<le> b * P" using that P by simp
      ultimately show ?thesis using small' by (simp add: prec_def abs_if split: if_splits)
    qed
    then show ?thesis
      using dec_sub_exact [of g B "n - b * P" "- int k"] diff [of b] that(1) by simp
  qed
  have mul: "val (dec_mul (dec_sub g B) R) = (val g - of_int b) * (of_int r / 10)"
    if "val B = of_int b" "0 \<le> b" "b \<le> 5000" "val R = of_int r / 10" "0 \<le> r" "r \<le> 3"
    for B b R r
  proof -
    have "\<bar>n - b * P\<bar> < 10 ^ 26"
    proof -
      have "b * P \<le> 5000 * P" using that P by (intro mult_right_mono) simp_all
      moreover have "0 \<le> b * P" using that P by simp
      ultimately show ?thesis using small' by (simp add: abs_if split: if_splits)
    qed
    moreover have "\<bar>r * (n - b * P)\<bar> \<le> 3 * \<bar>n - b * P\<bar>"
      using that by (simp add: abs_mult mult_right_mono)
    ultimately have "\<bar>r * (n - b * P)\<bar> < 10 ^ prec" by (simp add: prec_def)
    then show ?thesis
      using dec_mul_exact [of "dec_sub g B" R "r * (n - b * P)" "- int k - 1"]
        prod [of b r] sub [OF that(1-3)] that(4) by simp
  qed
  consider "val g \<le> 1000" | "1000 < val g" "val g \<le> 3000" | "3000 < val g" "val g \<le> 5000"
    | "5000 < val g" by linarith
  then show ?thesis
  proof cases
    case 1
    then show ?thesis
      by (simp add: tax_bracket_1 bracket_schedule_tax_def amount_in_bracket_def)
  next
    case 2
    have "val (dec_mul (dec_sub g TAX_BRACKET_1_MAX) (Decimal 10 (- 2)))
        = (val g - of_int 1000) * (of_int 1 / 10)"
      by (rule mul) simp_all
    with 2 show ?thesis
      by (simp add: tax_before_rounding_cases bracket_schedule_tax_def amount_in_bracket_def)
  next
    case 3
    have p: "val (dec_mul (dec_sub g TAX_BRACKET_2_MAX) (Decimal 20 (- 2)))
        = (val g - of_int 3000) * (of_int 2 / 10)"
      by (rule mul) simp_all
    have "200 + (val g - of_int 3000) * (of_int 2 / 10)
        = of_int (2000 * P + 2 * (n - 3000 * P)) * 10 powi (- int k - 1)"
      using Pnz by (simp add: g' powi_neg_nat_Suc Pr field_simps)
    moreover have "\<bar>2000 * P + 2 * (n - 3000 * P)\<bar> < 10 ^ prec"
      using small' P by (simp add: prec_def abs_if split: if_splits)
    ultimately have "val (dec_add (Decimal 20000 (- 2))
        (dec_mul (dec_sub g TAX_BRACKET_2_MAX) (Decimal 20 (- 2))))
        = 200 + (val g - of_int 3000) * (of_int 2 / 10)"
      using dec_add_exact [of "Decimal 20000 (- 2)"
          "dec_mul (dec_sub g TAX_BRACKET_2_MAX) (Decimal 20 (- 2))"
          "2000 * P + 2 * (n - 3000 * P)" "- int k - 1"] p
      by simp
    with 3 show ?thesis
      by (simp add: tax_before_rounding_cases bracket_schedule_tax_def amount_in_bracket_def)
  next
    case 4
    have p: "val (dec_mul (dec_sub g TAX_BRACKET_3_MAX) (Decimal 30 (- 2)))
        = (val g - of_int 5000) * (of_int 3 / 10)"
      by (rule mul) simp_all
    have "600 + (val g - of_int 5000) * (of_int 3 / 10)
        = of_int (6000 * P + 3 * (n - 5000 * P)) * 10 powi (- int k - 1)"
      using Pnz by (simp add: g' powi_neg_nat_Suc Pr field_simps)
    moreover have "\<bar>6000 * P + 3 * (n - 5000 * P)\<bar> < 10 ^ prec"
      using small' P by (simp add: prec_def abs_if split: if_splits)
    ultimately have "val (dec_add (Decimal 60000 (- 2))
        (dec_mul (dec_sub g TAX_BRACKET_3_MAX) (Decimal 30 (- 2))))
        = 600 + (val g - of_int 5000) * (of_int 3 / 10)"
      using dec_add_exact [of "Decimal 60000 (- 2)"
          "dec_mul (dec_sub g TAX_BRACKET_3_MAX) (Decimal 30 (- 2))"
          "6000 * P + 3 * (n - 5000 * P)" "- int k - 1"] p
      by simp
    with 4 show ?thesis
      by (simp add: tax_before_rounding_cases bracket_schedule_tax_def amount_in_bracket_def)
  qed
qed

lemma two_places_cents: "two_places (of_int n / 100)"
  by (simp add: two_places_def)

lemma round_half_up_is_rounded:
  "is_rounded_half_up x (of_int (round_half_up (x * 100)) / 100)"
proof (cases "0 \<le> x")
  case True
  define n where "n = \<lfloor>x * 100 + 1 / 2\<rfloor>"
  have r: "round_half_up (x * 100) = n"
    using True by (simp add: round_half_up_def n_def)
  have b: "of_int n \<le> x * 100 + 1 / 2" "x * 100 + 1 / 2 < of_int n + 1"
    unfolding n_def by linarith+
  have "0 \<le> n" using True unfolding n_def by simp
  then have "(0::rat) \<le> of_int n / 100" by simp
  with b True show ?thesis
    unfolding is_rounded_half_up_def r
    by (auto simp: two_places_cents abs_if field_simps)
next
  case False
  define n where "n = \<lfloor>- (x * 100) + 1 / 2\<rfloor>"
  have r: "round_half_up (x * 100) = - n"
    using False by (simp add: round_half_up_def n_def mult_less_0_iff)
  have b: "of_int n \<le> - (x * 100) + 1 / 2" "- (x * 100) + 1 / 2 < of_int n + 1"
    unfolding n_def by linarith+
  have "0 \<le> n" using False unfolding n_def by simp
  then have "of_int (- n) / 100 \<le> (0::rat)" by simp
  moreover have "two_places (of_int (- n) / 100)" by (rule two_places_cents)
  ultimately show ?thesis
    using b False unfolding is_rounded_half_up_def r
    by (auto simp: abs_if field_simps)
qed

lemma round_currency_is_rounded:
  "round_currency d = Inr r \<Longrightarrow> exponent r = - 2 \<and> is_rounded_half_up (val d) (val r)"
  using round_half_up_is_rounded [of "val d"] by (auto simp: round_currency_Inr_iff)

lemma calculate_tax_Inr_iff:
  "calculate_tax g = Inr t \<longleftrightarrow>
     round_half_up (val (tax_before_rounding g) * 100) < 10 ^ prec \<and>
     t = Decimal (round_half_up (val (tax_before_rounding g) * 100)) (- 2)"
proof -
  have "round_half_up (of_int 0) \<le> round_half_up (val (tax_before_rounding g) * 100)"
    using tax_before_rounding_nonneg [of g] by (intro round_half_up_mono) simp
  then have "0 \<le> round_half_up (val (tax_before_rounding g) * 100)" by simp
  then show ?thesis by (auto simp: calculate_tax_def round_currency_Inr_iff)
qed

lemma calculate_tax_nonneg: "calculate_tax g = Inr t \<Longrightarrow> 0 \<le> val t"
proof -
  assume "calculate_tax g = Inr t"
  then have t: "t = Decimal (round_half_up (val (tax_before_rounding g) * 100)) (- 2)"
    by (simp add: calculate_tax_Inr_iff)
  have "round_half_up (of_int 0) \<le> round_half_up (val (tax_before_rounding g) * 100)"
    using tax_before_rounding_nonneg [of g] by (intro round_half_up_mono) simp
  then show ?thesis by (simp add: t)
qed

lemma calculate_tax_mono:
  assumes "val g1 \<le> val g2" "calculate_tax g2 = Inr t2"
  shows "\<exists>t1. calculate_tax g1 = Inr t1 \<and> val t1 \<le> val t2"
proof -
  have "val (tax_before_rounding g1) * 100 \<le> val (tax_before_rounding g2) * 100"
    using tax_before_rounding_mono [OF assms(1)] by simp
  then have le: "round_half_up (val (tax_before_rounding g1) * 100)
      \<le> round_half_up (val (tax_before_rounding g2) * 100)"
    by (rule round_half_up_mono)
  from assms(2) have b: "round_half_up (val (tax_before_rounding g2) * 100) < 10 ^ prec"
    and t2: "t2 = Decimal (round_half_up (val (tax_before_rounding g2) * 100)) (- 2)"
    by (simp_all add: calculate_tax_Inr_iff)
  from le b have "calculate_tax g1
      = Inr (Decimal (round_half_up (val (tax_before_rounding g1) * 100)) (- 2))"
    by (simp add: calculate_tax_Inr_iff)
  moreover have "val (Decimal (round_half_up (val (tax_before_rounding g1) * 100)) (- 2))
      \<le> val t2"
    using le by (simp add: t2 divide_right_mono)
  ultimately show ?thesis by blast
qed

lemma calculate_tax_low: "val g \<le> 1000 \<Longrightarrow> calculate_tax g = Inr (Decimal 0 (- 2))"
  by (simp add: calculate_tax_Inr_iff tax_bracket_1 prec_def)

lemma calculate_tax_Inl: "calculate_tax g = Inl err \<Longrightarrow> err = DecimalException \<and> 5000 < val g"
proof -
  assume f: "calculate_tax g = Inl err"
  then have e: "err = DecimalException"
    and big: "10 ^ prec \<le> \<bar>round_half_up (val (tax_before_rounding g) * 100)\<bar>"
    by (simp_all add: calculate_tax_def round_currency_Inl_iff)
  have "5000 < val g"
  proof (rule ccontr)
    assume "\<not> 5000 < val g"
    then have "val g \<le> val (Decimal 5000 0)" by simp
    from tax_before_rounding_mono [OF this]
    have "val (tax_before_rounding g) \<le> val (tax_before_rounding (Decimal 5000 0))" .
    also have "tax_before_rounding (Decimal 5000 0) = Decimal 60000 (- 2)" by code_simp
    finally have "val (tax_before_rounding g) * 100 \<le> of_int 60000" by simp
    then have "round_half_up (val (tax_before_rounding g) * 100) \<le> round_half_up (of_int 60000)"
      by (rule round_half_up_mono)
    moreover have "round_half_up (of_int 0) \<le> round_half_up (val (tax_before_rounding g) * 100)"
      using tax_before_rounding_nonneg [of g] by (intro round_half_up_mono) simp
    ultimately show False using big by (simp add: prec_def)
  qed
  with e show ?thesis by simp
qed

lemma bracket_schedule_tax_bounds:
  "0 \<le> bracket_schedule_tax v" "bracket_schedule_tax v \<le> 3 / 10 * \<bar>v\<bar> + 600"
  unfolding bracket_schedule_tax_def amount_in_bracket_def by (simp_all add: max_def min_def)

lemma calculate_tax_exact:
  assumes g: "val g = of_int n / 10 ^ k" and small: "\<bar>n\<bar> + 5000 * 10 ^ k < 10 ^ 26"
  shows "calculate_tax g
     = Inr (Decimal (round_half_up (bracket_schedule_tax (val g) * 100)) (- 2))"
proof -
  have e: "val (tax_before_rounding g) = bracket_schedule_tax (val g)"
    using g small by (rule tax_before_rounding_exact)
  have "\<bar>val g\<bar> \<le> of_int \<bar>n\<bar>"
  proof -
    have "(1::rat) \<le> 10 ^ k" by simp
    then have "\<bar>of_int n :: rat\<bar> / 10 ^ k \<le> \<bar>of_int n\<bar> / 1"
      by (intro divide_left_mono) simp_all
    then show ?thesis by (simp add: g)
  qed
  moreover have "(of_int \<bar>n\<bar> :: rat) < 10 ^ 26"
  proof -
    have "\<bar>n\<bar> < 10 ^ 26" using small by (smt (verit) zero_less_power)
    then show ?thesis by (metis of_int_less_iff of_int_numeral of_int_power)
  qed
  ultimately have "bracket_schedule_tax (val g) * 100 \<le> of_int (4 * 10 ^ 27)"
    using bracket_schedule_tax_bounds(2) [of "val g"] by simp
  then have "round_half_up (bracket_schedule_tax (val g) * 100) \<le> round_half_up (of_int (4 * 10 ^ 27))"
    by (rule round_half_up_mono)
  then have "round_half_up (bracket_schedule_tax (val g) * 100) < 10 ^ prec"
    by (simp add: prec_def)
  then show ?thesis by (simp add: calculate_tax_Inr_iff e)
qed

lemma calculate_tax_returns:
  assumes "val g \<le> 10 ^ 26 - 5001"
  shows "\<exists>t. calculate_tax g = Inr t"
proof -
  let ?G = "Decimal (10 ^ 26 - 5001) 0"
  have v: "val ?G = of_int (10 ^ 26 - 5001) / 10 ^ 0" by simp
  have "\<bar>10 ^ 26 - 5001 :: int\<bar> + 5000 * 10 ^ 0 < 10 ^ 26" by simp
  with v have "calculate_tax ?G
     = Inr (Decimal (round_half_up (bracket_schedule_tax (val ?G) * 100)) (- 2))"
    by (rule calculate_tax_exact)
  moreover have "val g \<le> val ?G" using assms by simp
  ultimately show ?thesis using calculate_tax_mono by blast
qed

text \<open>
  Claim C2 says that \<^verbatim>\<open>calculate_tax\<close> is the bracket schedule rounded once at the end, for every
  gross pay. On the gross pay 1000.049999999999999999999999999999 (34 digits) it is not:
  the schedule gives 0.0049999999999999999999999999999, which rounds to 0.00, but the
  subtraction \<open>gross - 1000\<close> is rounded by the context to 28 digits, 0.05, a tenth of it
  is 0.005, and the tax returned is 0.01.
\<close>

theorem calculate_tax_double_rounding_counterexample:
  "calculate_tax (Decimal 1000049999999999999999999999999999 (- 30)) = Inr (Decimal 1 (- 2)) \<and>
   round_half_up
     (bracket_schedule_tax (val (Decimal 1000049999999999999999999999999999 (- 30))) * 100) = 0"
  by code_simp

text \<open>
  Claim C2, amended. For every gross pay \<open>n / 10 ^ k\<close> with
  \<open>\<bar>n\<bar> + 5000 * 10 ^ k < 10 ^ 26\<close> (an amount with \<open>k\<close> decimal places, below
  \<open>10 ^ (26 - k) - 5000\<close> in absolute value) \<^verbatim>\<open>calculate_tax\<close> returns the tax of the progressive
  bracket schedule (0% up to 1000, 10% from 1000 to 3000, 20% from 3000 to 5000, 30% above
  5000), rounded once, half-up, to two decimal places. For every gross pay at most 1000,
  of any number of digits, the tax is 0.00; and tax(2000) = 100.00, tax(3000) = 200.00,
  tax(4000) = 400.00, tax(5000) = 600.00, tax(6000) = 900.00.
\<close>

theorem calculate_tax_bracket_schedule:
  "(val g = of_int n / 10 ^ k \<and> \<bar>n\<bar> + 5000 * 10 ^ k < 10 ^ 26 \<longrightarrow>
      (\<exists>t. calculate_tax g = Inr t \<and> exponent t = - 2 \<and>
           is_rounded_half_up (bracket_schedule_tax (val g)) (val t))) \<and>
   (val g \<le> 1000 \<longrightarrow> calculate_tax g = Inr (Decimal 0 (- 2))) \<and>
   calculate_tax (Decimal 2000 0) = Inr (Decimal 10000 (- 2)) \<and>
   calculate_tax (Decimal 3000 0) = Inr (Decimal 20000 (- 2)) \<and>
   calculate_tax (Decimal 4000 0) = Inr (Decimal 40000 (- 2)) \<and>
   calculate_tax (Decimal 5000 0) = Inr (Decimal 60000 (- 2)) \<and>
   calculate_tax (Decimal 6000 0) = Inr (Decimal 90000 (- 2))"
proof -
  have sched: "\<exists>t. calculate_tax g = Inr t \<and> exponent t = - 2 \<and>
           is_rounded_half_up (bracket_schedule_tax (val g)) (val t)"
    if "val g = of_int n / 10 ^ k" "\<bar>n\<bar> + 5000 * 10 ^ k < 10 ^ 26"
    using calculate_tax_exact [OF that]
      round_half_up_is_rounded [of "bracket_schedule_tax (val g)"]
    by simp
  have v2: "calculate_tax (Decimal 2000 0) = Inr (Decimal 10000 (- 2))" by code_simp
  have v3: "calculate_tax (Decimal 3000 0) = Inr (Decimal 20000 (- 2))" by code_simp
  have v4: "calculate_tax (Decimal 4000 0) = Inr (Decimal 40000 (- 2))" by code_simp
  have v5: "calculate_tax (Decimal 5000 0) = Inr (Decimal 60000 (- 2))" by code_simp
  have v6: "calculate_tax (Decimal 6000 0) = Inr (Decimal 90000 (- 2))" by code_simp
  from sched calculate_tax_low v2 v3 v4 v5 v6 show ?thesis by blast
qed

text \<open>
  The gross pay 1555.55: the schedule gives 55.555 and the tax is 55.56.
\<close>

theorem calculate_tax_bracket_schedule_witness:
  "calculate_tax (Decimal 155555 (- 2)) = Inr (Decimal 5556 (- 2)) \<and>
   is_rounded_half_up (bracket_schedule_tax (val (Decimal 155555 (- 2))))
     (val (Decimal 5556 (- 2))) \<and>
   calculate_tax (Decimal 1000 0) = Inr (Decimal 0 (- 2))"
proof -
  have run: "calculate_tax (Decimal 155555 (- 2)) = Inr (Decimal 5556 (- 2))" by code_simp
  have h: "val (Decimal 155555 (- 2)) = of_int 155555 / 10 ^ 2 \<and>
      \<bar>155555 :: int\<bar> + 5000 * 10 ^ 2 < 10 ^ 26" by simp
  have l: "val (Decimal 1000 0) \<le> 1000" by simp
  show ?thesis
    using calculate_tax_bracket_schedule [of "Decimal 155555 (- 2)" 155555 2] h run
      calculate_tax_bracket_schedule [of "Decimal 1000 0" 0 0] l
    by auto
qed

text \<open>
  Claim C9 compares the taxes of every two gross pays. \<^verbatim>\<open>calculate_tax\<close> does not return a tax for
  every gross pay: on \<open>4 * 10 ^ 26\<close> the tax before rounding is about \<open>1.2 * 10 ^ 26\<close>,
  its two-place form needs 29 digits, and \<^verbatim>\<open>quantize\<close> raises InvalidOperation.
\<close>

theorem calculate_tax_raises_counterexample:
  "calculate_tax (Decimal 4 26) = Inl DecimalException"
  by code_simp

text \<open>
  Claim C9, amended. \<^verbatim>\<open>calculate_tax\<close> is monotone non-decreasing wherever it returns: for every two
  gross pays \<open>g1 \<le> g2\<close> such that \<^verbatim>\<open>calculate_tax\<close> returns on \<open>g2\<close>, it returns on \<open>g1\<close> too and
  \<open>calculate_tax g1 \<le> calculate_tax g2\<close>. A returned tax is never negative, and the tax
  of a negative gross pay is 0.00. \<^verbatim>\<open>calculate_tax\<close> returns on every gross pay up to
  \<open>10 ^ 26 - 5001\<close>; when it does not return it raises the decimal exception, never
  anything else.
\<close>

theorem calculate_tax_monotone:
  "(val g1 \<le> val g2 \<and> calculate_tax g2 = Inr t2 \<longrightarrow>
      (\<exists>t1. calculate_tax g1 = Inr t1 \<and> val t1 \<le> val t2)) \<and>
   (calculate_tax g = Inr t \<longrightarrow> 0 \<le> val t) \<and>
   (val g < 0 \<longrightarrow> calculate_tax g = Inr (Decimal 0 (- 2))) \<and>
   (val g \<le> 10 ^ 26 - 5001 \<longrightarrow> (\<exists>t. calculate_tax g = Inr t)) \<and>
   (calculate_tax g = Inl err \<longrightarrow> err = DecimalException \<and> 10 ^ 26 - 5001 < val g)"
proof -
  have "10 ^ 26 - 5001 < val g" if "calculate_tax g = Inl err"
  proof (rule ccontr)
    assume "\<not> 10 ^ 26 - 5001 < val g"
    then have "val g \<le> 10 ^ 26 - 5001" by simp
    then have "\<exists>t. calculate_tax g = Inr t" by (rule calculate_tax_returns)
    with that show False by simp
  qed
  moreover have "calculate_tax g = Inr (Decimal 0 (- 2))" if "val g < 0"
    using that by (intro calculate_tax_low) simp
  ultimately show ?thesis
    using calculate_tax_mono [of g1 g2 t2] calculate_tax_nonneg [of g t]
      calculate_tax_Inl [of g err] calculate_tax_returns [of g]
    by blast
qed

text \<open>
  The gross pays -5 and 1200, with the taxes 0.00 and 20.00, and \<open>4 * 10 ^ 26\<close>.
\<close>

theorem calculate_tax_monotone_witness:
  "val (Decimal (- 5) 0) \<le> val (Decimal 1200 0) \<and>
   calculate_tax (Decimal 1200 0) = Inr (Decimal 2000 (- 2)) \<and>
   calculate_tax (Decimal (- 5) 0) = Inr (Decimal 0 (- 2)) \<and>
   val (Decimal 0 (- 2)) \<le> val (Decimal 2000 (- 2)) \<and>
   calculate_tax (Decimal 4 26) = Inl DecimalException \<and> 10 ^ 26 - 5001 < val (Decimal 4 26)"
proof -
  have r2: "calculate_tax (Decimal 1200 0) = Inr (Decimal 2000 (- 2))" by code_simp
  have r3: "calculate_tax (Decimal 4 26) = Inl DecimalException" by code_simp
  have le: "val (Decimal (- 5) 0) \<le> val (Decimal 1200 0)" by simp
  have neg: "val (Decimal (- 5) 0) < 0" by simp
  show ?thesis
    using calculate_tax_monotone [of "Decimal (- 5) 0" "Decimal 1200 0" "Decimal 2000 (- 2)"
        "Decimal (- 5) 0" "Decimal 0 (- 2)" DecimalException]
      calculate_tax_monotone [of "Decimal (- 5) 0" "Decimal 1200 0" "Decimal 2000 (- 2)"
        "Decimal 4 26" "Decimal 0 (- 2)" DecimalException]
      r2 r3 le neg
    by simp
qed

section \<open>Gross pay\<close>

lemma round_half_up_abs_less:
  "\<bar>round_half_up x\<bar> < n \<longleftrightarrow> \<bar>x\<bar> < of_int n - 1 / 2"
proof (cases "0 \<le> x")
  case True
  then have "0 \<le> \<lfloor>x + 1 / 2\<rfloor>" by simp
  then have "\<bar>round_half_up x\<bar> = \<lfloor>x + 1 / 2\<rfloor>"
    using True by (simp add: round_half_up_def)
  moreover have "\<lfloor>x + 1 / 2\<rfloor> < n \<longleftrightarrow> x + 1 / 2 < of_int n" by (rule floor_less_iff)
  ultimately show ?thesis using True by (simp add: less_diff_eq)
next
  case False
  then have "0 \<le> \<lfloor>- x + 1 / 2\<rfloor>" by simp
  then have "\<bar>round_half_up x\<bar> = \<lfloor>- x + 1 / 2\<rfloor>"
    using False by (simp add: round_half_up_def)
  moreover have "\<lfloor>- x + 1 / 2\<rfloor> < n \<longleftrightarrow> - x + 1 / 2 < of_int n" by (rule floor_less_iff)
  ultimately show ?thesis using False by (simp add: less_diff_eq)
qed

lemma round_currency_succeeds_iff:
  "(\<exists>r. round_currency d = Inr r) \<longleftrightarrow> \<bar>val d\<bar> < 10 ^ 26 - 1 / 200"
proof -
  have "(\<exists>r. round_currency d = Inr r) \<longleftrightarrow> \<bar>round_half_up (val d * 100)\<bar> < 10 ^ prec"
    by (simp add: round_currency_Inr_iff)
  also have "\<dots> \<longleftrightarrow> \<bar>val d * 100\<bar> < of_int (10 ^ prec) - 1 / 2"
    by (rule round_half_up_abs_less)
  also have "\<dots> \<longleftrightarrow> \<bar>val d\<bar> < 10 ^ 26 - 1 / 200"
    by (simp add: prec_def abs_mult mult.commute)
  finally show ?thesis .
qed

lemma round_currency_fails_iff:
  "round_currency d = Inl err \<longleftrightarrow> err = DecimalException \<and> 10 ^ 26 - 1 / 200 \<le> \<bar>val d\<bar>"
proof -
  have "round_currency d = Inl err \<longleftrightarrow>
      err = DecimalException \<and> \<not> (\<exists>r. round_currency d = Inr r)"
    by (auto simp: round_currency_Inl_iff round_currency_Inr_iff)
  then show ?thesis by (simp only: round_currency_succeeds_iff not_less)
qed

lemma round_currency_rounds:
  assumes "\<bar>val d\<bar> < 10 ^ 26 - 1 / 200"
  shows "\<exists>r. round_currency d = Inr r \<and> exponent r = - 2 \<and> is_rounded_half_up (val d) (val r)"
proof -
  from assms obtain r where "round_currency d = Inr r"
    using round_currency_succeeds_iff by blast
  then show ?thesis using round_currency_is_rounded by blast
qed

lemma dec_mul_exact_coefficients:
  "\<bar>coefficient a * coefficient b\<bar> < 10 ^ prec \<Longrightarrow> val (dec_mul a b) = val a * val b"
  unfolding dec_mul_def by (simp only: fix_context_small Decimal.sel val_product)

lemma gross_before_rounding_cases:
  "gross_before_rounding emp h =
     (case employee_type emp of
        FULL_TIME \<Rightarrow> Inr (pay_rate emp)
      | PART_TIME \<Rightarrow> if 120 < val h then Inl HoursOutOfRange else Inr (dec_mul (pay_rate emp) h)
      | CONTRACTOR \<Rightarrow> Inr (dec_mul (pay_rate emp) h)
      | NOT_A_MEMBER \<Rightarrow> Inl UnknownEmployeeType)"
  by (cases "employee_type emp") (simp_all add: gross_before_rounding_def MAX_PART_TIME_HOURS_def)

lemma calculate_gross_pay_cases:
  "calculate_gross_pay emp h =
     (case employee_type emp of
        FULL_TIME \<Rightarrow> round_currency (pay_rate emp)
      | PART_TIME \<Rightarrow>
          if 120 < val h then Inl HoursOutOfRange else round_currency (dec_mul (pay_rate emp) h)
      | CONTRACTOR \<Rightarrow> round_currency (dec_mul (pay_rate emp) h)
      | NOT_A_MEMBER \<Rightarrow> Inl UnknownEmployeeType)"
  by (cases "employee_type emp") (simp_all add: calculate_gross_pay_def gross_before_rounding_cases)

lemma calculate_gross_pay_cents:
  assumes "calculate_gross_pay emp h = Inr g"
  shows "\<exists>c. g = Decimal c (- 2) \<and> \<bar>c\<bar> < 10 ^ prec"
proof -
  from assms obtain raw where "round_currency raw = Inr g"
    by (auto simp: calculate_gross_pay_def split: sum.splits)
  then show ?thesis by (auto simp: round_currency_Inr_iff)
qed

text \<open>
  Claim C6 says that \<^verbatim>\<open>calculate_gross_pay\<close> returns the rounded product for every CONTRACTOR and every
  worked-units. For a day rate of \<open>10 ^ 27\<close> and one day the product cannot be written
  with two decimal places in 28 digits, and the call raises InvalidOperation.
\<close>

theorem gross_pay_raises_counterexample:
  "calculate_gross_pay
     \<lparr>id_attr = IntId 5, name = ''Eve'', employee_type = CONTRACTOR,
      pay_rate = Decimal 1 27, is_union_member = False, has_retirement = False\<rparr> (Decimal 1 0)
   = Inl DecimalException"
  by code_simp

text \<open>
  Claim C6, amended. For a FULL_TIME employee the result of \<^verbatim>\<open>calculate_gross_pay\<close> is the same for any
  two worked-units: \<open>pay_rate\<close> rounded to two decimals round-half-up when
  \<open>\<bar>pay_rate\<bar> < 10 ^ 26 - 0.005\<close>, the decimal exception otherwise. For PART_TIME with
  worked-units at most 120, and for CONTRACTOR, the result is \<^verbatim>\<open>_round_currency\<close> of the product
  computed in the 28-digit context; when the product of the two coefficients has at most
  28 digits the product is exact, and the result is \<open>pay_rate * worked-units\<close> rounded to
  two decimals round-half-up when that is below \<open>10 ^ 26 - 0.005\<close> in absolute value, the
  decimal exception otherwise. An employee type that is none of the three categories is
  an error, not a value.
\<close>

theorem gross_pay_by_category:
  "(employee_type emp = FULL_TIME \<longrightarrow>
      calculate_gross_pay emp h = calculate_gross_pay emp h' \<and>
      (\<bar>val (pay_rate emp)\<bar> < 10 ^ 26 - 1 / 200 \<longrightarrow>
         (\<exists>g. calculate_gross_pay emp h = Inr g \<and> exponent g = - 2 \<and>
              is_rounded_half_up (val (pay_rate emp)) (val g))) \<and>
      (10 ^ 26 - 1 / 200 \<le> \<bar>val (pay_rate emp)\<bar> \<longrightarrow>
         calculate_gross_pay emp h = Inl DecimalException)) \<and>
   ((employee_type emp = PART_TIME \<and> val h \<le> 120 \<or> employee_type emp = CONTRACTOR) \<longrightarrow>
      calculate_gross_pay emp h = round_currency (dec_mul (pay_rate emp) h) \<and>
      (\<bar>coefficient (pay_rate emp) * coefficient h\<bar> < 10 ^ 28 \<longrightarrow>
         (\<bar>val (pay_rate emp) * val h\<bar> < 10 ^ 26 - 1 / 200 \<longrightarrow>
            (\<exists>g. calculate_gross_pay emp h = Inr g \<and> exponent g = - 2 \<and>
                 is_rounded_half_up (val (pay_rate emp) * val h) (val g))) \<and>
         (10 ^ 26 - 1 / 200 \<le> \<bar>val (pay_rate emp) * val h\<bar> \<longrightarrow>
            calculate_gross_pay emp h = Inl DecimalException))) \<and>
   (employee_type emp \<notin> {FULL_TIME, PART_TIME, CONTRACTOR} \<longrightarrow>
      calculate_gross_pay emp h = Inl UnknownEmployeeType)"
proof -
  have full: "calculate_gross_pay emp u = round_currency (pay_rate emp)"
    if "employee_type emp = FULL_TIME" for u
    using that by (simp add: calculate_gross_pay_cases)
  have prod: "calculate_gross_pay emp h = round_currency (dec_mul (pay_rate emp) h)"
    if "employee_type emp = PART_TIME \<and> val h \<le> 120 \<or> employee_type emp = CONTRACTOR"
    using that by (auto simp: calculate_gross_pay_cases)
  have exact: "val (dec_mul (pay_rate emp) h) = val (pay_rate emp) * val h"
    if "\<bar>coefficient (pay_rate emp) * coefficient h\<bar> < 10 ^ 28"
    using that by (intro dec_mul_exact_coefficients) (simp add: prec_def)
  have other: "calculate_gross_pay emp h = Inl UnknownEmployeeType"
    if "employee_type emp \<notin> {FULL_TIME, PART_TIME, CONTRACTOR}"
    using that by (cases "employee_type emp") (simp_all add: calculate_gross_pay_cases)
  have c1: "employee_type emp = FULL_TIME \<longrightarrow>
      calculate_gross_pay emp h = calculate_gross_pay emp h' \<and>
      (\<bar>val (pay_rate emp)\<bar> < 10 ^ 26 - 1 / 200 \<longrightarrow>
         (\<exists>g. calculate_gross_pay emp h = Inr g \<and> exponent g = - 2 \<and>
              is_rounded_half_up (val (pay_rate emp)) (val g))) \<and>
      (10 ^ 26 - 1 / 200 \<le> \<bar>val (pay_rate emp)\<bar> \<longrightarrow>
         calculate_gross_pay emp h = Inl DecimalException)"
    using round_currency_rounds [of "pay_rate emp"]
      round_currency_fails_iff [of "pay_rate emp" DecimalException]
    by (simp add: full)
  have c2: "(employee_type emp = PART_TIME \<and> val h \<le> 120 \<or> employee_type emp = CONTRACTOR) \<longrightarrow>
      calculate_gross_pay emp h = round_currency (dec_mul (pay_rate emp) h) \<and>
      (\<bar>coefficient (pay_rate emp) * coefficient h\<bar> < 10 ^ 28 \<longrightarrow>
         (\<bar>val (pay_rate emp) * val h\<bar> < 10 ^ 26 - 1 / 200 \<longrightarrow>
            (\<exists>g. calculate_gross_pay emp h = Inr g \<and> exponent g = - 2 \<and>
                 is_rounded_half_up (val (pay_rate emp) * val h) (val g))) \<and>
         (10 ^ 26 - 1 / 200 \<le> \<bar>val (pay_rate emp) * val h\<bar> \<longrightarrow>
            calculate_gross_pay emp h = Inl DecimalException))"
  proof (intro impI conjI)
    assume a: "employee_type emp = PART_TIME \<and> val h \<le> 120 \<or> employee_type emp = CONTRACTOR"
    show "calculate_gross_pay emp h = round_currency (dec_mul (pay_rate emp) h)"
      using a by (rule prod)
    assume b: "\<bar>coefficient (pay_rate emp) * coefficient h\<bar> < 10 ^ 28"
    {
      assume "\<bar>val (pay_rate emp) * val h\<bar> < 10 ^ 26 - 1 / 200"
      then show "\<exists>g. calculate_gross_pay emp h = Inr g \<and> exponent g = - 2 \<and>
                 is_rounded_half_up (val (pay_rate emp) * val h) (val g)"
        using round_currency_rounds [of "dec_mul (pay_rate emp) h"]
        by (simp add: prod [OF a] exact [OF b])
    }
    {
      assume "10 ^ 26 - 1 / 200 \<le> \<bar>val (pay_rate emp) * val h\<bar>"
      then show "calculate_gross_pay emp h = Inl DecimalException"
        using round_currency_fails_iff [of "dec_mul (pay_rate emp) h" DecimalException]
        by (simp add: prod [OF a] exact [OF b])
    }
  qed
  from c1 c2 other show ?thesis by blast
qed

text \<open>
  A salary of 4500 with 0 and with 999 worked-units, 10 hours at 33.33, 15 days at 200,
  and an employee type that is no category.
\<close>

theorem gross_pay_by_category_witness:
  "calculate_gross_pay
     \<lparr>id_attr = IntId 1, name = ''Alice'', employee_type = FULL_TIME,
      pay_rate = Decimal 4500 0, is_union_member = False, has_retirement = False\<rparr> (Decimal 0 0)
   = Inr (Decimal 450000 (- 2)) \<and>
   calculate_gross_pay
     \<lparr>id_attr = IntId 1, name = ''Alice'', employee_type = FULL_TIME,
      pay_rate = Decimal 4500 0, is_union_member = False, has_retirement = False\<rparr> (Decimal 0 0)
   = calculate_gross_pay
     \<lparr>id_attr = IntId 1, name = ''Alice'', employee_type = FULL_TIME,
      pay_rate = Decimal 4500 0, is_union_member = False, has_retirement = False\<rparr> (Decimal 999 0) \<and>
   (\<exists>g. calculate_gross_pay
     \<lparr>id_attr = IntId 6, name = ''Frank'', employee_type = PART_TIME,
      pay_rate = Decimal 3333 (- 2), is_union_member = False, has_retirement = False\<rparr> (Decimal 10 0) = Inr g \<and>
     is_rounded_half_up (3333 / 10) (val g)) \<and>
   calculate_gross_pay
     \<lparr>id_attr = IntId 6, name = ''Frank'', employee_type = PART_TIME,
      pay_rate = Decimal 3333 (- 2), is_union_member = False, has_retirement = False\<rparr> (Decimal 10 0)
   = Inr (Decimal 33330 (- 2)) \<and>
   calculate_gross_pay
     \<lparr>id_attr = IntId 3, name = ''Carol'', employee_type = CONTRACTOR,
      pay_rate = Decimal 200 0, is_union_member = False, has_retirement = False\<rparr> (Decimal 15 0)
   = Inr (Decimal 300000 (- 2)) \<and>
   calculate_gross_pay
     \<lparr>id_attr = IntId 9, name = ''Ivy'', employee_type = NOT_A_MEMBER,
      pay_rate = Decimal 200 0, is_union_member = False, has_retirement = False\<rparr> (Decimal 15 0)
   = Inl UnknownEmployeeType"
proof -
  have a: "calculate_gross_pay
     \<lparr>id_attr = IntId 1, name = ''Alice'', employee_type = FULL_TIME,
      pay_rate = Decimal 4500 0, is_union_member = False, has_retirement = False\<rparr> (Decimal 0 0)
   = Inr (Decimal 450000 (- 2))" by code_simp
  have f: "calculate_gross_pay
     \<lparr>id_attr = IntId 6, name = ''Frank'', employee_type = PART_TIME,
      pay_rate = Decimal 3333 (- 2), is_union_member = False, has_retirement = False\<rparr> (Decimal 10 0)
   = Inr (Decimal 33330 (- 2))" by code_simp
  have c: "calculate_gross_pay
     \<lparr>id_attr = IntId 3, name = ''Carol'', employee_type = CONTRACTOR,
      pay_rate = Decimal 200 0, is_union_member = False, has_retirement = False\<rparr> (Decimal 15 0)
   = Inr (Decimal 300000 (- 2))" by code_simp
  show ?thesis
    using a f c
      gross_pay_by_category [of "\<lparr>id_attr = IntId 1, name = ''Alice'', employee_type = FULL_TIME,
      pay_rate = Decimal 4500 0, is_union_member = False, has_retirement = False\<rparr>" "Decimal 0 0" "Decimal 999 0"]
      gross_pay_by_category [of "\<lparr>id_attr = IntId 6, name = ''Frank'', employee_type = PART_TIME,
      pay_rate = Decimal 3333 (- 2), is_union_member = False, has_retirement = False\<rparr>" "Decimal 10 0" "Decimal 0 0"]
      gross_pay_by_category [of "\<lparr>id_attr = IntId 9, name = ''Ivy'', employee_type = NOT_A_MEMBER,
      pay_rate = Decimal 200 0, is_union_member = False, has_retirement = False\<rparr>" "Decimal 15 0" "Decimal 0 0"]
    by auto
qed

section \<open>Deductions\<close>

lemmas rate_table_defs = bracket_defs HEALTH_INSURANCE_def RETIREMENT_RATE_def UNION_DUES_def
  MAX_PART_TIME_HOURS_def

lemma calculate_deductions_cases:
  "calculate_deductions emp g =
     (if has_retirement emp then
        (case round_currency (dec_mul g RETIREMENT_RATE) of
           Inl err \<Rightarrow> Inl err
         | Inr amount \<Rightarrow>
             Inr ((if employee_type emp = FULL_TIME
                   then [(''health_insurance'', Decimal 150 0)] else [])
                  @ [(''retirement'', amount)]
                  @ (if is_union_member emp then [(''union_dues'', Decimal 50 0)] else [])))
      else
        Inr ((if employee_type emp = FULL_TIME
              then [(''health_insurance'', Decimal 150 0)] else [])
             @ (if is_union_member emp then [(''union_dues'', Decimal 50 0)] else [])))"
  by (simp add: calculate_deductions_def Let_def HEALTH_INSURANCE_def UNION_DUES_def
      split: sum.splits)

lemma calculate_deductions_Inr:
  "calculate_deductions emp g = Inr d \<longleftrightarrow>
     d = (if employee_type emp = FULL_TIME then [(''health_insurance'', Decimal 150 0)] else [])
         @ (if has_retirement emp
            then [(''retirement'',
                   Decimal (round_half_up (val (dec_mul g RETIREMENT_RATE) * 100)) (- 2))]
            else [])
         @ (if is_union_member emp then [(''union_dues'', Decimal 50 0)] else []) \<and>
     (has_retirement emp \<longrightarrow> \<bar>val (dec_mul g RETIREMENT_RATE)\<bar> < 10 ^ 26 - 1 / 200)"
proof (cases "has_retirement emp")
  case False
  then show ?thesis by (auto simp: calculate_deductions_cases)
next
  case True
  show ?thesis
  proof (cases "round_currency (dec_mul g RETIREMENT_RATE)")
    case (Inl err)
    then have "\<not> \<bar>val (dec_mul g RETIREMENT_RATE)\<bar> < 10 ^ 26 - 1 / 200"
      using round_currency_succeeds_iff [of "dec_mul g RETIREMENT_RATE"] by simp
    with True Inl show ?thesis by (simp add: calculate_deductions_cases)
  next
    case (Inr a)
    then have "\<bar>val (dec_mul g RETIREMENT_RATE)\<bar> < 10 ^ 26 - 1 / 200"
      using round_currency_succeeds_iff [of "dec_mul g RETIREMENT_RATE"] by blast
    moreover have "a = Decimal (round_half_up (val (dec_mul g RETIREMENT_RATE) * 100)) (- 2)"
      using Inr by (simp add: round_currency_Inr_iff)
    ultimately show ?thesis using True Inr by (auto simp: calculate_deductions_cases)
  qed
qed

lemma calculate_deductions_Inl:
  "calculate_deductions emp g = Inl err \<longleftrightarrow>
     err = DecimalException \<and> has_retirement emp \<and>
     10 ^ 26 - 1 / 200 \<le> \<bar>val (dec_mul g RETIREMENT_RATE)\<bar>"
  using round_currency_fails_iff [of "dec_mul g RETIREMENT_RATE" err]
  by (auto simp: calculate_deductions_cases split: sum.splits)

lemma retirement_exact:
  "\<bar>coefficient g\<bar> * 5 < 10 ^ 28 \<Longrightarrow> val (dec_mul g RETIREMENT_RATE) = val g * (5 / 100)"
proof -
  assume "\<bar>coefficient g\<bar> * 5 < 10 ^ 28"
  then have "\<bar>coefficient g * coefficient RETIREMENT_RATE\<bar> < 10 ^ prec"
    by (simp add: RETIREMENT_RATE_def prec_def abs_mult)
  then have "val (dec_mul g RETIREMENT_RATE) = val g * val RETIREMENT_RATE"
    by (rule dec_mul_exact_coefficients)
  then show ?thesis by (simp add: RETIREMENT_RATE_def)
qed

text \<open>
  Claim C5 gives the retirement deduction the value 5%% of gross rounded to two decimals,
  for every gross pay. On the gross pay 0.09999999999999999999999999999 (28 digits) the
  product, 0.0049999999999999999999999999995, has 29 digits: the context rounds it to
  0.005 and the deduction is 0.01, while 5%% of the gross pay rounds to 0.00.
\<close>

theorem retirement_double_rounding_counterexample:
  "calculate_deductions
     \<lparr>id_attr = IntId 5, name = ''Eve'', employee_type = CONTRACTOR,
      pay_rate = Decimal 200 0, is_union_member = False, has_retirement = True\<rparr> (Decimal 9999999999999999999999999999 (- 29))
   = Inr [(''retirement'', Decimal 1 (- 2))] \<and>
   round_half_up (val (Decimal 9999999999999999999999999999 (- 29)) * (5 / 100) * 100) = 0"
  by code_simp

text \<open>
  Claim C5, amended. Whenever \<^verbatim>\<open>calculate_deductions\<close> returns, its mapping contains "health_insurance"
  (value 150) if and only if the category is FULL_TIME, "retirement" if and only if the
  retirement flag is set, "union_dues" (value 50) if and only if the union flag is set,
  and no other key; a FULL_TIME employee with both flags gets exactly those three keys,
  in this order, and PART_TIME and CONTRACTOR employees never get "health_insurance". The
  retirement value is the product \<open>gross * 0.05\<close> of the 28-digit context rounded to two
  decimals round-half-up; it is 5% of gross rounded to two decimals whenever five times
  the coefficient of the gross pay has at most 28 digits. \<^verbatim>\<open>calculate_deductions\<close> returns unless the
  retirement flag is set and that product is \<open>10 ^ 26 - 0.005\<close> or more in absolute
  value; then it raises the decimal exception.
\<close>

theorem deduction_keys:
  "(calculate_deductions emp g = Inr d \<longrightarrow>
      map_of d ''health_insurance'' =
        (if employee_type emp = FULL_TIME then Some (Decimal 150 0) else None) \<and>
      (has_retirement emp \<longrightarrow>
         (\<exists>a. map_of d ''retirement'' = Some a \<and> exponent a = - 2 \<and>
              is_rounded_half_up (val (dec_mul g RETIREMENT_RATE)) (val a) \<and>
              (\<bar>coefficient g\<bar> * 5 < 10 ^ 28 \<longrightarrow>
                 is_rounded_half_up (val g * (5 / 100)) (val a)))) \<and>
      (\<not> has_retirement emp \<longrightarrow> map_of d ''retirement'' = None) \<and>
      map_of d ''union_dues'' =
        (if is_union_member emp then Some (Decimal 50 0) else None) \<and>
      fst ` set d \<subseteq> {''health_insurance'', ''retirement'', ''union_dues''} \<and>
      (employee_type emp = FULL_TIME \<and> has_retirement emp \<and> is_union_member emp \<longrightarrow>
         (\<exists>a. d = [(''health_insurance'', Decimal 150 0), (''retirement'', a),
                    (''union_dues'', Decimal 50 0)])) \<and>
      (employee_type emp = PART_TIME \<or> employee_type emp = CONTRACTOR \<longrightarrow>
         ''health_insurance'' \<notin> fst ` set d)) \<and>
   ((\<exists>d. calculate_deductions emp g = Inr d) \<longleftrightarrow>
      (has_retirement emp \<longrightarrow> \<bar>val (dec_mul g RETIREMENT_RATE)\<bar> < 10 ^ 26 - 1 / 200)) \<and>
   (calculate_deductions emp g = Inl err \<longrightarrow> err = DecimalException)"
proof -
  let ?a = "Decimal (round_half_up (val (dec_mul g RETIREMENT_RATE) * 100)) (- 2)"
  have ra: "is_rounded_half_up (val (dec_mul g RETIREMENT_RATE)) (val ?a)"
    using round_half_up_is_rounded [of "val (dec_mul g RETIREMENT_RATE)"] by simp
  have rx: "\<bar>coefficient g\<bar> * 5 < 10 ^ 28 \<longrightarrow> is_rounded_half_up (val g * (5 / 100)) (val ?a)"
  proof
    assume "\<bar>coefficient g\<bar> * 5 < 10 ^ 28"
    then have "val (dec_mul g RETIREMENT_RATE) = val g * (5 / 100)" by (rule retirement_exact)
    with ra show "is_rounded_half_up (val g * (5 / 100)) (val ?a)" by (simp only:)
  qed
  have main: "calculate_deductions emp g = Inr d \<longrightarrow>
      map_of d ''health_insurance'' =
        (if employee_type emp = FULL_TIME then Some (Decimal 150 0) else None) \<and>
      (has_retirement emp \<longrightarrow>
         (\<exists>a. map_of d ''retirement'' = Some a \<and> exponent a = - 2 \<and>
              is_rounded_half_up (val (dec_mul g RETIREMENT_RATE)) (val a) \<and>
              (\<bar>coefficient g\<bar> * 5 < 10 ^ 28 \<longrightarrow>
                 is_rounded_half_up (val g * (5 / 100)) (val a)))) \<and>
      (\<not> has_retirement emp \<longrightarrow> map_of d ''retirement'' = None) \<and>
      map_of d ''union_dues'' =
        (if is_union_member emp then Some (Decimal 50 0) else None) \<and>
      fst ` set d \<subseteq> {''health_insurance'', ''retirement'', ''union_dues''} \<and>
      (employee_type emp = FULL_TIME \<and> has_retirement emp \<and> is_union_member emp \<longrightarrow>
         (\<exists>a. d = [(''health_insurance'', Decimal 150 0), (''retirement'', a),
                    (''union_dues'', Decimal 50 0)])) \<and>
      (employee_type emp = PART_TIME \<or> employee_type emp = CONTRACTOR \<longrightarrow>
         ''health_insurance'' \<notin> fst ` set d)"
  proof
    assume "calculate_deductions emp g = Inr d"
    then have d: "d = (if employee_type emp = FULL_TIME
                       then [(''health_insurance'', Decimal 150 0)] else [])
         @ (if has_retirement emp then [(''retirement'', ?a)] else [])
         @ (if is_union_member emp then [(''union_dues'', Decimal 50 0)] else [])"
      by (simp add: calculate_deductions_Inr)
    have k1: "map_of d ''health_insurance'' =
        (if employee_type emp = FULL_TIME then Some (Decimal 150 0) else None)"
      by (simp add: d)
    have k2: "has_retirement emp \<longrightarrow> map_of d ''retirement'' = Some ?a"
      by (simp add: d)
    have k3: "\<not> has_retirement emp \<longrightarrow> map_of d ''retirement'' = None"
      by (simp add: d)
    have k4: "map_of d ''union_dues'' =
        (if is_union_member emp then Some (Decimal 50 0) else None)"
      by (simp add: d)
    have k5: "fst ` set d \<subseteq> {''health_insurance'', ''retirement'', ''union_dues''}"
      by (auto simp: d split: if_splits)
    have k6: "employee_type emp = FULL_TIME \<and> has_retirement emp \<and> is_union_member emp \<longrightarrow>
         (\<exists>a. d = [(''health_insurance'', Decimal 150 0), (''retirement'', a),
                    (''union_dues'', Decimal 50 0)])"
      by (simp add: d)
    have k7: "employee_type emp = PART_TIME \<or> employee_type emp = CONTRACTOR \<longrightarrow>
         ''health_insurance'' \<notin> fst ` set d"
      by (auto simp: d split: if_splits)
    have e: "exponent ?a = - 2" by simp
    from k1 k2 k3 k4 k5 k6 k7 ra rx e
    show "map_of d ''health_insurance'' =
        (if employee_type emp = FULL_TIME then Some (Decimal 150 0) else None) \<and>
      (has_retirement emp \<longrightarrow>
         (\<exists>a. map_of d ''retirement'' = Some a \<and> exponent a = - 2 \<and>
              is_rounded_half_up (val (dec_mul g RETIREMENT_RATE)) (val a) \<and>
              (\<bar>coefficient g\<bar> * 5 < 10 ^ 28 \<longrightarrow>
                 is_rounded_half_up (val g * (5 / 100)) (val a)))) \<and>
      (\<not> has_retirement emp \<longrightarrow> map_of d ''retirement'' = None) \<and>
      map_of d ''union_dues'' =
        (if is_union_member emp then Some (Decimal 50 0) else None) \<and>
      fst ` set d \<subseteq> {''health_insurance'', ''retirement'', ''union_dues''} \<and>
      (employee_type emp = FULL_TIME \<and> has_retirement emp \<and> is_union_member emp \<longrightarrow>
         (\<exists>a. d = [(''health_insurance'', Decimal 150 0), (''retirement'', a),
                    (''union_dues'', Decimal 50 0)])) \<and>
      (employee_type emp = PART_TIME \<or> employee_type emp = CONTRACTOR \<longrightarrow>
         ''health_insurance'' \<notin> fst ` set d)"
      by blast
  qed
  have succ: "(\<exists>d. calculate_deductions emp g = Inr d) \<longleftrightarrow>
      (has_retirement emp \<longrightarrow> \<bar>val (dec_mul g RETIREMENT_RATE)\<bar> < 10 ^ 26 - 1 / 200)"
    by (simp add: calculate_deductions_Inr)
  have fail: "calculate_deductions emp g = Inl err \<longrightarrow> err = DecimalException"
    by (simp add: calculate_deductions_Inl)
  from main succ fail show ?thesis by blast
qed

text \<open>
  A FULL_TIME employee with both flags on a gross pay of 6000.00, and a PART_TIME
  employee with both flags.
\<close>

theorem deduction_keys_witness:
  "calculate_deductions
     \<lparr>id_attr = IntId 8, name = ''Henry'', employee_type = FULL_TIME,
      pay_rate = Decimal 6000 0, is_union_member = True, has_retirement = True\<rparr> (Decimal 600000 (- 2))
   = Inr [(''health_insurance'', Decimal 150 0), (''retirement'', Decimal 30000 (- 2)), (''union_dues'', Decimal 50 0)] \<and>
   is_rounded_half_up (val (Decimal 600000 (- 2)) * (5 / 100)) (val (Decimal 30000 (- 2))) \<and>
   calculate_deductions
     \<lparr>id_attr = IntId 2, name = ''Bob'', employee_type = PART_TIME,
      pay_rate = Decimal 25 0, is_union_member = True, has_retirement = True\<rparr> (Decimal 200000 (- 2))
   = Inr [(''retirement'', Decimal 10000 (- 2)), (''union_dues'', Decimal 50 0)] \<and>
   ''health_insurance'' \<notin> fst ` set [(''retirement'', Decimal 10000 (- 2)), (''union_dues'', Decimal 50 0)]"
proof -
  have run: "calculate_deductions
     \<lparr>id_attr = IntId 8, name = ''Henry'', employee_type = FULL_TIME,
      pay_rate = Decimal 6000 0, is_union_member = True, has_retirement = True\<rparr> (Decimal 600000 (- 2))
   = Inr [(''health_insurance'', Decimal 150 0), (''retirement'', Decimal 30000 (- 2)), (''union_dues'', Decimal 50 0)]"
    by code_simp
  have run2: "calculate_deductions
     \<lparr>id_attr = IntId 2, name = ''Bob'', employee_type = PART_TIME,
      pay_rate = Decimal 25 0, is_union_member = True, has_retirement = True\<rparr> (Decimal 200000 (- 2))
   = Inr [(''retirement'', Decimal 10000 (- 2)), (''union_dues'', Decimal 50 0)]"
    by code_simp
  show ?thesis
    using run run2
      deduction_keys [of "\<lparr>id_attr = IntId 8, name = ''Henry'', employee_type = FULL_TIME,
      pay_rate = Decimal 6000 0, is_union_member = True, has_retirement = True\<rparr>" "Decimal 600000 (- 2)"
        "[(''health_insurance'', Decimal 150 0), (''retirement'', Decimal 30000 (- 2)), (''union_dues'', Decimal 50 0)]" DecimalException]
      deduction_keys [of "\<lparr>id_attr = IntId 2, name = ''Bob'', employee_type = PART_TIME,
      pay_rate = Decimal 25 0, is_union_member = True, has_retirement = True\<rparr>" "Decimal 200000 (- 2)"
        "[(''retirement'', Decimal 10000 (- 2)), (''union_dues'', Decimal 50 0)]" DecimalException]
    by simp
qed

lemma round_half_up_pos_iff: "0 < round_half_up y \<longleftrightarrow> 1 / 2 \<le> y"
  unfolding round_half_up_def by (auto; linarith)

lemma round_half_even_upper: "x < of_int n + 1 / 2 \<Longrightarrow> round_half_even x \<le> n"
proof -
  assume "x < of_int n + 1 / 2"
  with round_half_even_bounds(1) [of x]
  have "(of_int (round_half_even x) :: rat) < of_int n + 1" by linarith
  then have "(of_int (round_half_even x) :: rat) < of_int (n + 1)" by simp
  then have "round_half_even x < n + 1" by (simp only: of_int_less_iff)
  then show ?thesis by simp
qed

lemma retirement_threshold_value:
  "val (fix_context (Decimal 49999999999999999999999999995 (- 31))) = 1 / 200"
proof -
  have "fix_context (Decimal 49999999999999999999999999995 (- 31))
      = Decimal 5000000000000000000000000000 (- 30)"
    by code_simp
  then show ?thesis by simp
qed

lemma retirement_at_least_half_cent_iff:
  "1 / 200 \<le> val (dec_mul g RETIREMENT_RATE) \<longleftrightarrow> 1 / 10 - 1 / 10 ^ 29 \<le> val g"
proof
  assume a: "1 / 10 - 1 / 10 ^ 29 \<le> val g"
  have "val (Decimal 49999999999999999999999999995 (- 31)) \<le> val g * val RETIREMENT_RATE"
    using a by (simp add: RETIREMENT_RATE_def)
  then have "val (Decimal 49999999999999999999999999995 (- 31))
      \<le> val (Decimal (coefficient g * coefficient RETIREMENT_RATE)
                (exponent g + exponent RETIREMENT_RATE))"
    by (simp only: val_product)
  then have "val (fix_context (Decimal 49999999999999999999999999995 (- 31)))
      \<le> val (dec_mul g RETIREMENT_RATE)"
    unfolding dec_mul_def by (rule fix_context_mono)
  then show "1 / 200 \<le> val (dec_mul g RETIREMENT_RATE)"
    by (simp only: retirement_threshold_value)
next
  assume b: "1 / 200 \<le> val (dec_mul g RETIREMENT_RATE)"
  show "1 / 10 - 1 / 10 ^ 29 \<le> val g"
  proof (rule ccontr)
    assume "\<not> 1 / 10 - 1 / 10 ^ 29 \<le> val g"
    then have lt: "val g < 1 / 10 - 1 / 10 ^ 29" by simp
    let ?Y = "Decimal (coefficient g * coefficient RETIREMENT_RATE)
                (exponent g + exponent RETIREMENT_RATE)"
    have vy: "val ?Y = val g / 20"
      by (simp only: val_product) (simp add: RETIREMENT_RATE_def)
    have m: "dec_mul g RETIREMENT_RATE = fix_context ?Y" by (simp add: dec_mul_def)
    have "val (fix_context ?Y) < 1 / 200"
    proof (cases "0 < val g")
      case False
      then have "val g * val RETIREMENT_RATE \<le> of_int 0"
        by (simp add: RETIREMENT_RATE_def)
      then have "val (dec_mul g RETIREMENT_RATE) \<le> of_int 0"
        by (rule dec_mul_int_upper) (simp add: prec_def)
      then show ?thesis by (simp add: m)
    next
      case True
      then have py: "0 < val ?Y" by (simp add: vy del: val_Decimal)
      then have "0 < coefficient ?Y" by (simp only: val_pos_iff)
      then have nz: "coefficient ?Y \<noteq> 0" by (simp only: less_imp_neq [THEN not_sym] not_False_eq_True)
      have ylt: "val ?Y < 49999999999999999999999999995 / 10 ^ 31"
        using lt by (simp add: vy del: val_Decimal)
      have "(10::rat) powi (scale ?Y + 27) < 10 powi (- 2)"
        using scale_bounds(1) [OF nz] py ylt by simp
      then have "scale ?Y + 27 < - 2"
      proof (rule contrapos_pp)
        assume "\<not> scale ?Y + 27 < - 2"
        then have "- 2 \<le> scale ?Y + 27" by simp
        then have "(10::rat) powi (- 2) \<le> 10 powi (scale ?Y + 27)"
          by (intro power_int_increasing) simp_all
        then show "\<not> (10::rat) powi (scale ?Y + 27) < 10 powi (- 2)" by simp
      qed
      then consider "scale ?Y = - 30" | "scale ?Y + 28 \<le> - 3" by linarith
      then show ?thesis
      proof cases
        case 1
        have "val ?Y / 10 powi (- 30) < of_int 4999999999999999999999999999 + 1 / 2"
          using ylt by (simp add: power_int_minus_divide)
        then have "round_half_even (val ?Y / 10 powi (- 30)) \<le> 4999999999999999999999999999"
          by (rule round_half_even_upper)
        then have "(of_int (round_half_even (val ?Y / 10 powi (- 30))) :: rat)
            \<le> of_int 4999999999999999999999999999"
          by (simp only: of_int_le_iff)
        then have "of_int (round_half_even (val ?Y / 10 powi (- 30))) * (10::rat) powi (- 30)
            \<le> of_int 4999999999999999999999999999 * 10 powi (- 30)"
          by (intro mult_right_mono) simp_all
        then have "val (fix_context ?Y) \<le> of_int 4999999999999999999999999999 * 10 powi (- 30)"
          using val_fix_context [OF nz] by (simp only: 1)
        then show ?thesis by (simp add: power_int_minus_divide)
      next
        case 2
        then have "(10::rat) powi (scale ?Y + 28) \<le> 10 powi (- 3)"
          by (intro power_int_increasing) simp_all
        with fix_context_range_pos(2) [OF py] show ?thesis
          by (simp add: power_int_minus_divide)
      qed
    qed
    with b show False by (simp add: m)
  qed
qed

lemma retirement_nonneg: "0 \<le> val g \<Longrightarrow> 0 \<le> val (dec_mul g RETIREMENT_RATE)"
proof -
  assume "0 \<le> val g"
  then have "of_int 0 \<le> val g * val RETIREMENT_RATE" by (simp add: RETIREMENT_RATE_def)
  then have "of_int 0 \<le> val (dec_mul g RETIREMENT_RATE)"
    by (rule dec_mul_int_lower) (simp add: prec_def)
  then show ?thesis by simp
qed

text \<open>
  Claim C4 says that no key of the mapping has the value zero. A CONTRACTOR with a
  retirement plan and no worked days has the gross pay 0.00, and the mapping is
  \<open>{"retirement": 0.00}\<close>, also on the payslip.
\<close>

theorem zero_retirement_counterexample:
  "calculate_deductions
     \<lparr>id_attr = IntId 5, name = ''Eve'', employee_type = CONTRACTOR,
      pay_rate = Decimal 200 0, is_union_member = False, has_retirement = True\<rparr> (Decimal 0 (- 2))
   = Inr [(''retirement'', Decimal 0 (- 2))] \<and>
   fst (generate_pay_slip
     (\<lambda>_. \<lparr>id_attr = IntId 5, name = ''Eve'', employee_type = CONTRACTOR,
      pay_rate = Decimal 200 0, is_union_member = False, has_retirement = True\<rparr>) 0 (Decimal 0 0))
   = Inr \<lparr>employee = 0, gross_pay = Decimal 0 (- 2), tax_amount = Decimal 0 (- 2),
      deductions = [(''retirement'', Decimal 0 (- 2))],
      net_pay = Decimal 0 (- 2)\<rparr>"
  by code_simp

text \<open>
  Claim C4, amended. Whenever \<^verbatim>\<open>calculate_deductions\<close> returns, every key present in the mapping is one of
  these: "health_insurance" for a FULL_TIME employee, with the value 150; "union_dues"
  for a union member, with the value 50; "retirement" for an employee with the retirement
  flag, with the value \<^verbatim>\<open>_round_currency\<close> of \<open>gross * 0.05\<close>, which is strictly positive exactly when
  \<open>gross \<ge> 0.09999999999999999999999999999\<close> (that is \<open>1 / 10 - 1 / 10 ^ 29\<close>) and is
  0.00 for every gross pay from 0 up to that bound. A key is absent exactly when its
  deduction does not apply.
\<close>

theorem deduction_values:
  assumes "calculate_deductions emp g = Inr d"
  shows "(map_of d k = Some v \<longrightarrow>
            k = ''health_insurance'' \<and> employee_type emp = FULL_TIME \<and> v = Decimal 150 0 \<or>
            k = ''union_dues'' \<and> is_union_member emp \<and> v = Decimal 50 0 \<or>
            k = ''retirement'' \<and> has_retirement emp \<and>
              round_currency (dec_mul g RETIREMENT_RATE) = Inr v \<and>
              (0 < val v \<longleftrightarrow> 1 / 10 - 1 / 10 ^ 29 \<le> val g) \<and>
              (0 \<le> val g \<and> val g < 1 / 10 - 1 / 10 ^ 29 \<longrightarrow> v = Decimal 0 (- 2))) \<and>
         (map_of d ''health_insurance'' = None \<longleftrightarrow> employee_type emp \<noteq> FULL_TIME) \<and>
         (map_of d ''retirement'' = None \<longleftrightarrow> \<not> has_retirement emp) \<and>
         (map_of d ''union_dues'' = None \<longleftrightarrow> \<not> is_union_member emp)"
proof -
  let ?x = "val (dec_mul g RETIREMENT_RATE)"
  let ?a = "Decimal (round_half_up (?x * 100)) (- 2)"
  from assms have d: "d = (if employee_type emp = FULL_TIME
                       then [(''health_insurance'', Decimal 150 0)] else [])
         @ (if has_retirement emp then [(''retirement'', ?a)] else [])
         @ (if is_union_member emp then [(''union_dues'', Decimal 50 0)] else [])"
    and ok: "has_retirement emp \<longrightarrow> \<bar>?x\<bar> < 10 ^ 26 - 1 / 200"
    by (simp_all add: calculate_deductions_Inr)
  have rc: "has_retirement emp \<longrightarrow> round_currency (dec_mul g RETIREMENT_RATE) = Inr ?a"
    using ok round_currency_succeeds_iff [of "dec_mul g RETIREMENT_RATE"]
    by (auto simp: round_currency_Inr_iff)
  have pos: "0 < val ?a \<longleftrightarrow> 1 / 10 - 1 / 10 ^ 29 \<le> val g"
  proof -
    have "0 < val ?a \<longleftrightarrow> 0 < round_half_up (?x * 100)" by simp
    also have "\<dots> \<longleftrightarrow> 1 / 200 \<le> ?x" by (simp add: round_half_up_pos_iff mult.commute)
    also have "\<dots> \<longleftrightarrow> 1 / 10 - 1 / 10 ^ 29 \<le> val g"
      by (rule retirement_at_least_half_cent_iff)
    finally show ?thesis .
  qed
  have zero: "0 \<le> val g \<and> val g < 1 / 10 - 1 / 10 ^ 29 \<longrightarrow> ?a = Decimal 0 (- 2)"
  proof
    assume a: "0 \<le> val g \<and> val g < 1 / 10 - 1 / 10 ^ 29"
    then have lo: "0 \<le> ?x" by (simp add: retirement_nonneg)
    have "\<not> 1 / 200 \<le> ?x"
    proof
      assume "1 / 200 \<le> ?x"
      then have "1 / 10 - 1 / 10 ^ 29 \<le> val g"
        by (simp only: retirement_at_least_half_cent_iff)
      with a show False by linarith
    qed
    with lo have "round_half_up (?x * 100) = 0"
      by (simp add: round_half_up_def) linarith
    then show "?a = Decimal 0 (- 2)" by simp
  qed
  have vals: "map_of d k = Some v \<longrightarrow>
            k = ''health_insurance'' \<and> employee_type emp = FULL_TIME \<and> v = Decimal 150 0 \<or>
            k = ''union_dues'' \<and> is_union_member emp \<and> v = Decimal 50 0 \<or>
            k = ''retirement'' \<and> has_retirement emp \<and> v = ?a"
    by (auto simp: d split: if_splits)
  have abs: "(map_of d ''health_insurance'' = None \<longleftrightarrow> employee_type emp \<noteq> FULL_TIME)"
    "(map_of d ''retirement'' = None \<longleftrightarrow> \<not> has_retirement emp)"
    "(map_of d ''union_dues'' = None \<longleftrightarrow> \<not> is_union_member emp)"
    by (simp_all add: d)
  from vals rc pos zero abs show ?thesis by blast
qed

text \<open>
  A PART_TIME employee with a retirement plan on a gross pay of 2000.00.
\<close>

theorem deduction_values_witness:
  "calculate_deductions
     \<lparr>id_attr = IntId 4, name = ''Dave'', employee_type = PART_TIME,
      pay_rate = Decimal 30 0, is_union_member = False, has_retirement = True\<rparr> (Decimal 200000 (- 2))
   = Inr [(''retirement'', Decimal 10000 (- 2))] \<and>
   round_currency (dec_mul (Decimal 200000 (- 2)) RETIREMENT_RATE) = Inr (Decimal 10000 (- 2)) \<and>
   0 < val (Decimal 10000 (- 2)) \<and>
   1 / 10 - 1 / 10 ^ 29 \<le> val (Decimal 200000 (- 2))"
proof -
  have run: "calculate_deductions
     \<lparr>id_attr = IntId 4, name = ''Dave'', employee_type = PART_TIME,
      pay_rate = Decimal 30 0, is_union_member = False, has_retirement = True\<rparr> (Decimal 200000 (- 2))
   = Inr [(''retirement'', Decimal 10000 (- 2))]"
    by code_simp
  from deduction_values [OF run, of "''retirement''" "Decimal 10000 (- 2)"] run
  show ?thesis by simp
qed

section \<open>Payslips\<close>

lemma val_cents: "val (Decimal c (- 2)) = of_int c / 100"
  by simp

lemma tax_before_rounding_le_gross:
  assumes g: "val g = of_int c / 100" and c: "\<bar>c\<bar> < 10 ^ prec" and big: "1000 < val g"
  shows "val (tax_before_rounding g) \<le> val g"
proof -
  consider "val g \<le> 3000" | "3000 < val g" "val g \<le> 5000" | "5000 < val g" by linarith
  then show ?thesis
  proof cases
    case 1
    with big tax_bracket_2_range(2) [of g] show ?thesis by simp
  next
    case 2
    with tax_bracket_3_range(2) [of g] show ?thesis by simp
  next
    case 3
    let ?s = "dec_sub g TAX_BRACKET_3_MAX"
    let ?p = "dec_mul ?s (Decimal 30 (- 2))"
    have c5: "500000 < c" using 3 by (simp add: g)
    have s0: "0 \<le> val ?s"
      using dec_sub_int_lower [of 0 g TAX_BRACKET_3_MAX] 3 by (simp add: prec_def)
    have "val g - val TAX_BRACKET_3_MAX \<le> of_int (c - 500000) * 10 powi (- 2)"
      by (simp add: g diff_divide_distrib)
    then have s1: "val ?s \<le> of_int (c - 500000) * 10 powi (- 2)"
      by (rule dec_sub_upper) (use c c5 in simp)
    have "val ?s * val (Decimal 30 (- 2)) \<le> of_int (c - 500000) * 10 powi (- 2)"
      using s0 s1 by simp
    then have p1: "val ?p \<le> of_int (c - 500000) * 10 powi (- 2)"
      by (rule dec_mul_upper) (use c c5 in simp)
    have "val (Decimal 60000 (- 2)) + val ?p \<le> of_int (c - 440000) * 10 powi (- 2)"
      using p1 by (simp add: diff_divide_distrib)
    then have "val (dec_add (Decimal 60000 (- 2)) ?p) \<le> of_int (c - 440000) * 10 powi (- 2)"
      by (rule dec_add_upper) (use c c5 in simp)
    with 3 show ?thesis
      by (simp add: tax_before_rounding_cases g diff_divide_distrib)
  qed
qed

lemma tax_cents:
  assumes "calculate_tax (Decimal c (- 2)) = Inr t" "\<bar>c\<bar> < 10 ^ prec"
  shows "\<exists>tc. t = Decimal tc (- 2) \<and> 0 \<le> tc \<and> \<bar>c - tc\<bar> \<le> \<bar>c\<bar> \<and>
              tc = round_half_up (val (tax_before_rounding (Decimal c (- 2))) * 100)"
proof -
  let ?g = "Decimal c (- 2)"
  let ?tc = "round_half_up (val (tax_before_rounding ?g) * 100)"
  from assms(1) have t: "t = Decimal ?tc (- 2)" by (simp add: calculate_tax_Inr_iff)
  have "round_half_up (of_int 0) \<le> ?tc"
    using tax_before_rounding_nonneg [of ?g] by (intro round_half_up_mono) simp
  then have t0: "0 \<le> ?tc" by simp
  have "\<bar>c - ?tc\<bar> \<le> \<bar>c\<bar>"
  proof (cases "1000 < val ?g")
    case True
    have "val (tax_before_rounding ?g) \<le> val ?g"
      using _ assms(2) True by (rule tax_before_rounding_le_gross) simp
    then have "val (tax_before_rounding ?g) * 100 \<le> of_int c" by simp
    then have "?tc \<le> round_half_up (of_int c)" by (rule round_half_up_mono)
    with t0 show ?thesis by simp
  next
    case False
    then have "tax_before_rounding ?g = Decimal 0 0" by (simp add: tax_bracket_1)
    then show ?thesis by simp
  qed
  with t t0 show ?thesis by blast
qed

lemma retirement_cents:
  assumes "\<bar>c\<bar> < 10 ^ prec"
  shows "\<bar>round_half_up (val (dec_mul (Decimal c (- 2)) RETIREMENT_RATE) * 100)\<bar> \<le> 10 ^ 27"
proof -
  let ?x = "val (dec_mul (Decimal c (- 2)) RETIREMENT_RATE)"
  have "val (Decimal c (- 2)) * val RETIREMENT_RATE \<le> of_int \<bar>c\<bar> * 10 powi (- 3)"
    by (simp add: RETIREMENT_RATE_def power_int_minus_divide abs_if)
  then have up: "?x \<le> of_int \<bar>c\<bar> * 10 powi (- 3)"
    by (rule dec_mul_upper) (use assms in simp)
  have "of_int (- \<bar>c\<bar>) * 10 powi (- 3) \<le> val (Decimal c (- 2)) * val RETIREMENT_RATE"
    by (simp add: RETIREMENT_RATE_def power_int_minus_divide abs_if)
  then have lo: "of_int (- \<bar>c\<bar>) * 10 powi (- 3) \<le> ?x"
    by (rule dec_mul_lower) (use assms in simp)
  have cb: "(of_int \<bar>c\<bar> :: rat) \<le> 10 ^ 28"
  proof -
    have "\<bar>c\<bar> \<le> 10 ^ 28" using assms by (simp add: prec_def)
    then show ?thesis by (metis of_int_le_iff of_int_numeral of_int_power)
  qed
  have "?x * 100 \<le> of_int (10 ^ 27)"
    using up cb by (simp add: power_int_minus_divide)
  then have a: "round_half_up (?x * 100) \<le> 10 ^ 27"
    using round_half_up_mono [of "?x * 100" "of_int (10 ^ 27)"] by simp
  have "of_int (- (10 ^ 27)) \<le> ?x * 100"
    using lo cb by (simp add: power_int_minus_divide)
  then have b: "- (10 ^ 27) \<le> round_half_up (?x * 100)"
    using round_half_up_mono [of "of_int (- (10 ^ 27))" "?x * 100"] by simp
  from a b show ?thesis by linarith
qed

lemma deductions_cents:
  assumes "calculate_deductions emp (Decimal c (- 2)) = Inr d" "\<bar>c\<bar> < 10 ^ prec"
  shows "\<forall>v \<in> set (map snd d). \<exists>k. val v = of_int k / 100 \<and> \<bar>k\<bar> \<le> 10 ^ 27"
    and "length d \<le> 3"
proof -
  let ?a = "round_half_up (val (dec_mul (Decimal c (- 2)) RETIREMENT_RATE) * 100)"
  from assms(1) have d: "d = (if employee_type emp = FULL_TIME
                       then [(''health_insurance'', Decimal 150 0)] else [])
         @ (if has_retirement emp then [(''retirement'', Decimal ?a (- 2))] else [])
         @ (if is_union_member emp then [(''union_dues'', Decimal 50 0)] else [])"
    by (simp add: calculate_deductions_Inr)
  have h: "val (Decimal 150 0) = of_int 15000 / 100 \<and> \<bar>15000::int\<bar> \<le> 10 ^ 27" by simp
  have u: "val (Decimal 50 0) = of_int 5000 / 100 \<and> \<bar>5000::int\<bar> \<le> 10 ^ 27" by simp
  have a: "val (Decimal ?a (- 2)) = of_int ?a / 100 \<and> \<bar>?a\<bar> \<le> 10 ^ 27"
    using retirement_cents [OF assms(2)] by simp
  show "\<forall>v \<in> set (map snd d). \<exists>k. val v = of_int k / 100 \<and> \<bar>k\<bar> \<le> 10 ^ 27"
    unfolding d using h u a by (auto split: if_splits)
  show "length d \<le> 3" by (simp add: d)
qed

lemma foldl_dec_add_cents:
  assumes "val acc = of_int a / 100"
    and "\<forall>v \<in> set vs. \<exists>k. val v = of_int k / 100 \<and> \<bar>k\<bar> \<le> B"
    and "\<bar>a\<bar> + int (length vs) * B < 10 ^ prec"
  shows "\<exists>t. val (foldl dec_add acc vs) = of_int t / 100 \<and>
             \<bar>t\<bar> \<le> \<bar>a\<bar> + int (length vs) * B \<and>
             of_int t / 100 = val acc + sum_list (map val vs)"
  using assms
proof (induction vs arbitrary: acc a)
  case Nil
  then show ?case by auto
next
  case (Cons v vs)
  from Cons.prems(2) obtain k where k: "val v = of_int k / 100" "\<bar>k\<bar> \<le> B" by auto
  have sum: "val acc + val v = of_int (a + k) * 10 powi (- 2)"
    by (simp add: Cons.prems(1) k add_divide_distrib)
  have B0: "0 \<le> B" using k(2) by linarith
  then have "0 \<le> int (length vs) * B" by simp
  then have bound: "\<bar>a + k\<bar> + int (length vs) * B \<le> \<bar>a\<bar> + int (length (v # vs)) * B"
    using k(2) by (simp add: algebra_simps)
  with Cons.prems(3) \<open>0 \<le> int (length vs) * B\<close> have "\<bar>a + k\<bar> < 10 ^ prec" by linarith
  with sum have ex: "val (dec_add acc v) = val acc + val v" by (rule dec_add_exact)
  then have acc': "val (dec_add acc v) = of_int (a + k) / 100"
    by (simp add: Cons.prems(1) k add_divide_distrib)
  from Cons.IH [OF acc'] Cons.prems(2) Cons.prems(3) bound
  obtain t where t: "val (foldl dec_add (dec_add acc v) vs) = of_int t / 100"
    "\<bar>t\<bar> \<le> \<bar>a + k\<bar> + int (length vs) * B"
    "of_int t / 100 = val (dec_add acc v) + sum_list (map val vs)"
    by force
  from t bound ex show ?case by (intro exI [of _ t]) (simp add: add.assoc)
qed

lemma sum_values_cents:
  assumes "\<forall>v \<in> set (map snd d). \<exists>k. val v = of_int k / 100 \<and> \<bar>k\<bar> \<le> 10 ^ 27"
    and "length d \<le> 3"
  shows "\<exists>t. val (sum_values d) = of_int t / 100 \<and> \<bar>t\<bar> \<le> 3 * 10 ^ 27 \<and>
             val (sum_values d) = sum_list (map (val \<circ> snd) d)"
proof -
  have "\<bar>0::int\<bar> + int (length (map snd d)) * 10 ^ 27 < 10 ^ prec"
    using assms(2) by (simp add: prec_def)
  from foldl_dec_add_cents [of "Decimal 0 0" 0 "map snd d" "10 ^ 27", OF _ assms(1) this]
  obtain t where t: "val (foldl dec_add (Decimal 0 0) (map snd d)) = of_int t / 100"
    "\<bar>t\<bar> \<le> \<bar>0\<bar> + int (length (map snd d)) * 10 ^ 27"
    "of_int t / 100 = val (Decimal 0 0) + sum_list (map val (map snd d))"
    by auto
  have "\<bar>t\<bar> \<le> 3 * 10 ^ 27" using t(2) assms(2) by simp
  with t show ?thesis by (intro exI [of _ t]) (simp add: sum_values_def comp_def)
qed

lemma net_exact:
  assumes "\<bar>c - tc\<bar> < 10 ^ prec" "val tot = of_int T / 100"
  shows "round_currency (dec_sub (dec_sub (Decimal c (- 2)) (Decimal tc (- 2))) tot) = Inr net
         \<longleftrightarrow> \<bar>c - tc - T\<bar> < 10 ^ prec \<and> net = Decimal (c - tc - T) (- 2)"
proof -
  let ?d = "dec_sub (Decimal c (- 2)) (Decimal tc (- 2))"
  let ?r = "dec_sub ?d tot"
  have "val (Decimal c (- 2)) - val (Decimal tc (- 2)) = of_int (c - tc) * 10 powi (- 2)"
    by (simp add: diff_divide_distrib)
  from dec_sub_exact [OF this assms(1)]
  have d: "val ?d = of_int (c - tc) / 100" by (simp add: diff_divide_distrib)
  have x: "val ?d - val tot = of_int (c - tc - T) * 10 powi (- 2)"
    by (simp add: d assms(2) diff_divide_distrib)
  show ?thesis
  proof (cases "\<bar>c - tc - T\<bar> < 10 ^ prec")
    case True
    from dec_sub_exact [OF x True] have "val ?r * 100 = of_int (c - tc - T)"
      by (simp add: x)
    then have "round_half_up (val ?r * 100) = c - tc - T"
      by (simp only: round_half_up_of_int)
    with True show ?thesis by (simp add: round_currency_Inr_iff)
  next
    case False
    then consider "10 ^ prec \<le> c - tc - T" | "c - tc - T \<le> - (10 ^ prec)" by linarith
    then have "10 ^ prec \<le> \<bar>round_half_up (val ?r * 100)\<bar>"
    proof cases
      case 1
      then have "(of_int (10 ^ 28) :: rat) \<le> of_int (c - tc - T)"
        by (simp only: of_int_le_iff prec_def)
      then have "of_int 1 * 10 powi 26 \<le> val ?d - val tot"
        by (simp add: x)
      then have "of_int 1 * 10 powi 26 \<le> val ?r"
        by (rule dec_sub_lower) (simp add: prec_def)
      then have "of_int (10 ^ 28) \<le> val ?r * 100" by simp
      then have "round_half_up (of_int (10 ^ 28)) \<le> round_half_up (val ?r * 100)"
        by (rule round_half_up_mono)
      then show ?thesis by (simp add: prec_def)
    next
      case 2
      then have "(of_int (c - tc - T) :: rat) \<le> of_int (- (10 ^ 28))"
        by (simp only: of_int_le_iff prec_def)
      then have "val ?d - val tot \<le> of_int (- 1) * 10 powi 26"
        by (simp add: x)
      then have "val ?r \<le> of_int (- 1) * 10 powi 26"
        by (rule dec_sub_upper) (simp add: prec_def)
      then have "val ?r * 100 \<le> of_int (- (10 ^ 28))" by simp
      then have "round_half_up (val ?r * 100) \<le> round_half_up (of_int (- (10 ^ 28)))"
        by (rule round_half_up_mono)
      then show ?thesis by (simp add: prec_def)
    qed
    with False show ?thesis by (auto simp: round_currency_Inr_iff)
  qed
qed

lemma generate_pay_slip_store: "snd (generate_pay_slip s r h) = s"
  by (simp add: generate_pay_slip_def Let_def split: sum.splits)

lemma generate_pay_slip_Inr_iff:
  "fst (generate_pay_slip s r h) = Inr ps \<longleftrightarrow>
     (\<exists>gross tax d net.
        calculate_gross_pay (s r) h = Inr gross \<and>
        calculate_tax gross = Inr tax \<and>
        calculate_deductions (s r) gross = Inr d \<and>
        round_currency (dec_sub (dec_sub gross tax) (sum_values d)) = Inr net \<and>
        ps = \<lparr>employee = r, gross_pay = gross, tax_amount = tax,
               deductions = d, net_pay = net\<rparr>)"
  by (auto simp: generate_pay_slip_def Let_def split: sum.splits)

lemma generate_pay_slip_gross_error:
  "calculate_gross_pay (s r) h = Inl err \<Longrightarrow> generate_pay_slip s r h = (Inl err, s)"
  by (simp add: generate_pay_slip_def)

text \<open>
  Claim C1. For every payslip returned by \<^verbatim>\<open>generate_pay_slip\<close>, for any employee and any worked-units:
  \<open>net_pay\<close> equals \<open>gross_pay\<close> minus \<open>tax_amount\<close> minus the sum of the deduction
  values, exactly, and the total the code computes with \<^verbatim>\<open>sum\<close> is that exact sum. Each of
  \<open>gross_pay\<close>, \<open>tax_amount\<close>, the retirement deduction and \<open>net_pay\<close> has the exponent
  \<open>- 2\<close> and is the round-half-up rounding to two decimal places of the amount the code
  hands to \<^verbatim>\<open>_round_currency\<close> for it: the gross pay of the employee's category, the tax
  of the gross pay, the retirement share of the gross pay, and the difference. Every
  deduction value has two decimal places (the flat amounts are the integers 150 and 50).
\<close>

theorem net_pay_invariant:
  assumes "fst (generate_pay_slip s r h) = Inr ps"
  shows "val (net_pay ps)
           = val (gross_pay ps) - val (tax_amount ps) - val (total_deductions ps) \<and>
         val (total_deductions ps) = sum_list (map (val \<circ> snd) (deductions ps)) \<and>
         exponent (gross_pay ps) = - 2 \<and>
         (\<exists>raw. gross_before_rounding (s r) h = Inr raw \<and>
                is_rounded_half_up (val raw) (val (gross_pay ps))) \<and>
         exponent (tax_amount ps) = - 2 \<and>
         is_rounded_half_up (val (tax_before_rounding (gross_pay ps))) (val (tax_amount ps)) \<and>
         (\<forall>v \<in> snd ` set (deductions ps). two_places (val v)) \<and>
         (\<forall>v. map_of (deductions ps) ''retirement'' = Some v \<longrightarrow>
              exponent v = - 2 \<and>
              is_rounded_half_up (val (dec_mul (gross_pay ps) RETIREMENT_RATE)) (val v)) \<and>
         exponent (net_pay ps) = - 2 \<and>
         is_rounded_half_up
           (val (gross_pay ps) - val (tax_amount ps) - val (total_deductions ps))
           (val (net_pay ps))"
proof -
  from assms obtain gross tax d net where
    g: "calculate_gross_pay (s r) h = Inr gross"
    and t: "calculate_tax gross = Inr tax"
    and d: "calculate_deductions (s r) gross = Inr d"
    and n: "round_currency (dec_sub (dec_sub gross tax) (sum_values d)) = Inr net"
    and ps: "ps = \<lparr>employee = r, gross_pay = gross, tax_amount = tax,
               deductions = d, net_pay = net\<rparr>"
    unfolding generate_pay_slip_Inr_iff by blast
  from calculate_gross_pay_cents [OF g] obtain c where
    gc: "gross = Decimal c (- 2)" and c: "\<bar>c\<bar> < 10 ^ prec" by blast
  from tax_cents [OF t [unfolded gc] c] obtain tc where
    tc: "tax = Decimal tc (- 2)" "0 \<le> tc" "\<bar>c - tc\<bar> \<le> \<bar>c\<bar>" by blast
  have dc: "\<forall>v \<in> set (map snd d). \<exists>k. val v = of_int k / 100 \<and> \<bar>k\<bar> \<le> 10 ^ 27"
    and len: "length d \<le> 3"
    using deductions_cents [OF d [unfolded gc] c] by simp_all
  from sum_values_cents [OF dc len] obtain T where
    T: "val (sum_values d) = of_int T / 100"
    and sum: "val (sum_values d) = sum_list (map (val \<circ> snd) d)" by blast
  have ctc: "\<bar>c - tc\<bar> < 10 ^ prec" using tc(3) c by linarith
  from n [unfolded gc tc(1)] net_exact [OF ctc T]
  have net: "net = Decimal (c - tc - T) (- 2)" by simp
  have inv: "val net = val gross - val tax - val (sum_values d)"
    by (simp add: net gc tc(1) T diff_divide_distrib)
  from g obtain raw where raw: "gross_before_rounding (s r) h = Inr raw"
    and rg: "round_currency raw = Inr gross"
    by (auto simp: calculate_gross_pay_def split: sum.splits)
  have gr: "is_rounded_half_up (val raw) (val gross)"
    using round_currency_is_rounded [OF rg] by simp
  have tr: "is_rounded_half_up (val (tax_before_rounding gross)) (val tax)"
    using round_currency_is_rounded [OF t [unfolded calculate_tax_def]] by simp
  have nr: "is_rounded_half_up (val gross - val tax - val (sum_values d)) (val net)"
  proof -
    have "two_places (val net)" unfolding net val_cents by (rule two_places_cents)
    then show ?thesis by (simp add: is_rounded_half_up_def inv [symmetric])
  qed
  have tp: "\<forall>v \<in> snd ` set d. two_places (val v)"
  proof
    fix v assume "v \<in> snd ` set d"
    with dc obtain k where "val v = of_int k / 100" by auto
    then show "two_places (val v)" by (simp only: two_places_cents)
  qed
  have ret: "\<forall>v. map_of d ''retirement'' = Some v \<longrightarrow>
      exponent v = - 2 \<and> is_rounded_half_up (val (dec_mul gross RETIREMENT_RATE)) (val v)"
  proof (intro allI impI)
    fix v assume m: "map_of d ''retirement'' = Some v"
    from d m have "has_retirement (s r)"
      by (auto simp: calculate_deductions_Inr split: if_splits)
    with d m have "round_currency (dec_mul gross RETIREMENT_RATE) = Inr v"
      by (auto simp: calculate_deductions_cases split: sum.splits if_splits)
    then show "exponent v = - 2 \<and>
        is_rounded_half_up (val (dec_mul gross RETIREMENT_RATE)) (val v)"
      by (rule round_currency_is_rounded)
  qed
  show ?thesis
    using inv sum gr tr nr tp ret raw
    by (simp add: ps total_deductions_def gc tc(1) net)
qed

text \<open>
  The payslip of a FULL_TIME employee with a salary of 6000, union member with a
  retirement plan: 6000.00 gross, 900.00 tax, deductions 150, 300.00 and 50, 4600.00 net.
\<close>

theorem net_pay_invariant_witness:
  "fst (generate_pay_slip
     (\<lambda>_. \<lparr>id_attr = IntId 8, name = ''Henry'', employee_type = FULL_TIME,
      pay_rate = Decimal 6000 0, is_union_member = True, has_retirement = True\<rparr>) 0 (Decimal 0 0))
   = Inr \<lparr>employee = 0, gross_pay = Decimal 600000 (- 2), tax_amount = Decimal 90000 (- 2),
      deductions = [(''health_insurance'', Decimal 150 0), (''retirement'', Decimal 30000 (- 2)), (''union_dues'', Decimal 50 0)],
      net_pay = Decimal 460000 (- 2)\<rparr> \<and>
   val (Decimal 460000 (- 2))
     = val (Decimal 600000 (- 2)) - val (Decimal 90000 (- 2))
       - sum_list (map (val \<circ> snd)
           [(''health_insurance'', Decimal 150 0), (''retirement'', Decimal 30000 (- 2)), (''union_dues'', Decimal 50 0)]) \<and>
   is_rounded_half_up (val (tax_before_rounding (Decimal 600000 (- 2))))
     (val (Decimal 90000 (- 2)))"
proof -
  have run: "fst (generate_pay_slip
     (\<lambda>_. \<lparr>id_attr = IntId 8, name = ''Henry'', employee_type = FULL_TIME,
      pay_rate = Decimal 6000 0, is_union_member = True, has_retirement = True\<rparr>) 0 (Decimal 0 0))
   = Inr \<lparr>employee = 0, gross_pay = Decimal 600000 (- 2), tax_amount = Decimal 90000 (- 2),
      deductions = [(''health_insurance'', Decimal 150 0), (''retirement'', Decimal 30000 (- 2)), (''union_dues'', Decimal 50 0)],
      net_pay = Decimal 460000 (- 2)\<rparr>"
    by code_simp
  from net_pay_invariant [OF run] run show ?thesis by simp
qed

text \<open>
  Claim C10. Net pay is not guaranteed non-negative: there is a FULL_TIME employee with a
  pay rate from 0 to below 150 on whom \<^verbatim>\<open>generate_pay_slip\<close> succeeds and returns a strictly negative
  \<open>net_pay\<close>; indeed it does so on every FULL_TIME employee whose pay rate is at least 0
  and below 149.995, a pay rate of any number of digits and whatever the flags and the
  worked-units. Nothing clamps the net pay at zero or rejects such an input.
\<close>

theorem net_pay_can_be_negative:
  "(\<exists>s r h ps. employee_type (s r) = FULL_TIME \<and> 0 \<le> val (pay_rate (s r)) \<and>
      val (pay_rate (s r)) < 150 \<and>
      fst (generate_pay_slip s r h) = Inr ps \<and> val (net_pay ps) < 0) \<and>
   (employee_type (s r) = FULL_TIME \<and> 0 \<le> val (pay_rate (s r)) \<and>
    val (pay_rate (s r)) < 150 - 1 / 200 \<longrightarrow>
      (\<exists>ps. fst (generate_pay_slip s r h) = Inr ps \<and> val (net_pay ps) < 0))"
proof -
  have gen: "\<exists>ps. fst (generate_pay_slip s r u) = Inr ps \<and> val (net_pay ps) < 0"
    if ft: "employee_type (s r) = FULL_TIME" and lo: "0 \<le> val (pay_rate (s r))"
      and hi: "val (pay_rate (s r)) < 150 - 1 / 200" for s :: store and r u
  proof -
    let ?p = "pay_rate (s r)"
    define c where "c = round_half_up (val ?p * 100)"
    have "\<bar>val ?p * 100\<bar> < of_int 15000 - 1 / 2" using lo hi by (simp add: abs_if)
    then have c1: "\<bar>c\<bar> < 15000" unfolding c_def by (simp only: round_half_up_abs_less)
    have "round_half_up (of_int 0) \<le> c"
      unfolding c_def using lo by (intro round_half_up_mono) simp
    then have c0: "0 \<le> c" by simp
    have cp: "\<bar>c\<bar> < 10 ^ prec" using c1 by (simp add: prec_def)
    have g: "calculate_gross_pay (s r) u = Inr (Decimal c (- 2))"
      using ft cp by (simp add: calculate_gross_pay_cases round_currency_Inr_iff c_def)
    have "val (Decimal c (- 2)) \<le> 1000" using c1 by simp
    then have t: "calculate_tax (Decimal c (- 2)) = Inr (Decimal 0 (- 2))"
      by (rule calculate_tax_low)
    let ?x = "val (dec_mul (Decimal c (- 2)) RETIREMENT_RATE)"
    have x: "?x = of_int c / 2000"
      using retirement_exact [of "Decimal c (- 2)"] c1 by simp
    have xs: "\<bar>?x\<bar> < 10 ^ 26 - 1 / 200" using c0 c1 by (simp add: x)
    define a where "a = round_half_up (?x * 100)"
    have "round_half_up (of_int 0) \<le> a"
      unfolding a_def using c0 by (intro round_half_up_mono) (simp add: x)
    then have a0: "0 \<le> a" by simp
    define d where "d = [(''health_insurance'', Decimal 150 0)]
         @ (if has_retirement (s r) then [(''retirement'', Decimal a (- 2))] else [])
         @ (if is_union_member (s r) then [(''union_dues'', Decimal 50 0)] else [])"
    have dd: "calculate_deductions (s r) (Decimal c (- 2)) = Inr d"
      using ft xs by (simp add: calculate_deductions_Inr d_def a_def)
    have dc: "\<forall>v \<in> set (map snd d). \<exists>k. val v = of_int k / 100 \<and> \<bar>k\<bar> \<le> 10 ^ 27"
      and len: "length d \<le> 3"
      using deductions_cents [OF dd cp] by simp_all
    from sum_values_cents [OF dc len] obtain T where
      T: "val (sum_values d) = of_int T / 100" and Tb: "\<bar>T\<bar> \<le> 3 * 10 ^ 27"
      and sum: "val (sum_values d) = sum_list (map (val \<circ> snd) d)" by blast
    have "150 \<le> sum_list (map (val \<circ> snd) d)"
      using a0 by (simp add: d_def)
    with sum T have T0: "15000 \<le> T" by simp
    have n: "round_currency (dec_sub (dec_sub (Decimal c (- 2)) (Decimal 0 (- 2))) (sum_values d))
        = Inr (Decimal (c - 0 - T) (- 2))"
      using net_exact [of c 0 "sum_values d" T "Decimal (c - 0 - T) (- 2)"] cp T c1 Tb
      by (simp add: prec_def)
    have "fst (generate_pay_slip s r u) = Inr \<lparr>employee = r, gross_pay = Decimal c (- 2),
        tax_amount = Decimal 0 (- 2), deductions = d, net_pay = Decimal (c - 0 - T) (- 2)\<rparr>"
      using g t dd n by (simp add: generate_pay_slip_Inr_iff)
    moreover have "val (Decimal (c - 0 - T) (- 2)) < 0" using c1 T0 by simp
    ultimately show ?thesis by simp
  qed
  let ?al = "\<lparr>id_attr = IntId 1, name = ''Alice'', employee_type = FULL_TIME,
    pay_rate = Decimal 100 0, is_union_member = False, has_retirement = False\<rparr>"
  have "\<exists>ps. fst (generate_pay_slip (\<lambda>_. ?al) 0 (Decimal 0 0)) = Inr ps \<and> val (net_pay ps) < 0"
    by (rule gen) simp_all
  then have ex: "\<exists>s r h ps. employee_type (s r) = FULL_TIME \<and> 0 \<le> val (pay_rate (s r)) \<and>
      val (pay_rate (s r)) < 150 \<and>
      fst (generate_pay_slip s r h) = Inr ps \<and> val (net_pay ps) < 0"
    by (intro exI [of _ "\<lambda>_. ?al"] exI [of _ 0] exI [of _ "Decimal 0 0"]) simp
  from ex gen show ?thesis by blast
qed

text \<open>
  A salary of 100: gross 100.00, no tax, health insurance 150, net pay -50.00.
\<close>

theorem net_pay_can_be_negative_witness:
  "fst (generate_pay_slip
     (\<lambda>_. \<lparr>id_attr = IntId 1, name = ''Alice'', employee_type = FULL_TIME,
      pay_rate = Decimal 100 0, is_union_member = False, has_retirement = False\<rparr>) 0 (Decimal 0 0))
   = Inr \<lparr>employee = 0, gross_pay = Decimal 10000 (- 2), tax_amount = Decimal 0 (- 2),
      deductions = [(''health_insurance'', Decimal 150 0)],
      net_pay = Decimal (- 5000) (- 2)\<rparr> \<and>
   (\<exists>ps. fst (generate_pay_slip
     (\<lambda>_. \<lparr>id_attr = IntId 1, name = ''Alice'', employee_type = FULL_TIME,
      pay_rate = Decimal 100 0, is_union_member = False, has_retirement = False\<rparr>) 0 (Decimal 0 0)) = Inr ps \<and>
      val (net_pay ps) < 0)"
proof -
  have run: "fst (generate_pay_slip
     (\<lambda>_. \<lparr>id_attr = IntId 1, name = ''Alice'', employee_type = FULL_TIME,
      pay_rate = Decimal 100 0, is_union_member = False, has_retirement = False\<rparr>) 0 (Decimal 0 0))
   = Inr \<lparr>employee = 0, gross_pay = Decimal 10000 (- 2), tax_amount = Decimal 0 (- 2),
      deductions = [(''health_insurance'', Decimal 150 0)],
      net_pay = Decimal (- 5000) (- 2)\<rparr>"
    by code_simp
  show ?thesis
    using run net_pay_can_be_negative [of "(\<lambda>_. \<lparr>id_attr = IntId 1, name = ''Alice'', employee_type = FULL_TIME,
      pay_rate = Decimal 100 0, is_union_member = False, has_retirement = False\<rparr>)" 0 "Decimal 0 0"]
    by simp
qed

section \<open>The monthly batch\<close>

lemma generate_pay_slip_pair:
  "generate_pay_slip s r h = (fst (generate_pay_slip s r h), s)"
  by (simp add: prod_eq_iff generate_pay_slip_store)

lemma payroll_loop_Cons:
  "payroll_loop m (r # rest) acc s =
     (case fst (generate_pay_slip s r (worked_units m (s r))) of
        Inl err \<Rightarrow> (Inl err, s)
      | Inr ps \<Rightarrow> payroll_loop m rest (acc @ [ps]) s)"
  by (subst payroll_loop.simps, subst generate_pay_slip_pair) (simp split: sum.splits)

declare payroll_loop.simps(2) [simp del]

lemma payroll_loop_store: "snd (payroll_loop m refs acc s) = s"
  by (induction refs arbitrary: acc) (simp_all add: payroll_loop_Cons split: sum.splits)

lemma payroll_loop_Inr:
  "fst (payroll_loop m refs acc s) = Inr slips \<longleftrightarrow>
     (\<exists>new. slips = acc @ new \<and>
        list_all2 (\<lambda>r ps. fst (generate_pay_slip s r (worked_units m (s r))) = Inr ps) refs new)"
proof (induction refs arbitrary: acc)
  case Nil
  then show ?case by auto
next
  case (Cons r rest)
  show ?case
  proof (cases "fst (generate_pay_slip s r (worked_units m (s r)))")
    case (Inl err)
    then show ?thesis by (simp add: payroll_loop_Cons list_all2_Cons1)
  next
    case (Inr ps)
    then show ?thesis by (auto simp: payroll_loop_Cons Cons.IH list_all2_Cons1)
  qed
qed

lemma payroll_loop_Inl:
  assumes "\<forall>e \<in> set before. \<exists>ps. fst (generate_pay_slip s e (worked_units m (s e))) = Inr ps"
    and "fst (generate_pay_slip s r (worked_units m (s r))) = Inl err"
  shows "payroll_loop m (before @ r # after) acc s = (Inl err, s)"
  using assms
proof (induction before arbitrary: acc)
  case Nil
  then show ?case by (simp add: payroll_loop_Cons)
next
  case (Cons e before)
  from Cons.prems(1) obtain ps where
    "fst (generate_pay_slip s e (worked_units m (s e))) = Inr ps" by auto
  with Cons show ?case by (simp add: payroll_loop_Cons)
qed

lemma payroll_loop_Inl_iff:
  "fst (payroll_loop m refs acc s) = Inl err \<longleftrightarrow>
     (\<exists>before r after. refs = before @ r # after \<and>
        (\<forall>e \<in> set before. \<exists>ps. fst (generate_pay_slip s e (worked_units m (s e))) = Inr ps) \<and>
        fst (generate_pay_slip s r (worked_units m (s r))) = Inl err)"
proof
  show "fst (payroll_loop m refs acc s) = Inl err \<Longrightarrow>
     \<exists>before r after. refs = before @ r # after \<and>
        (\<forall>e \<in> set before. \<exists>ps. fst (generate_pay_slip s e (worked_units m (s e))) = Inr ps) \<and>
        fst (generate_pay_slip s r (worked_units m (s r))) = Inl err"
  proof (induction refs arbitrary: acc)
    case Nil
    then show ?case by simp
  next
    case (Cons e rest)
    show ?case
    proof (cases "fst (generate_pay_slip s e (worked_units m (s e)))")
      case (Inl err')
      with Cons.prems have "fst (generate_pay_slip s e (worked_units m (s e))) = Inl err"
        by (simp add: payroll_loop_Cons)
      then have "e # rest = [] @ e # rest \<and>
        (\<forall>x \<in> set []. \<exists>ps. fst (generate_pay_slip s x (worked_units m (s x))) = Inr ps) \<and>
        fst (generate_pay_slip s e (worked_units m (s e))) = Inl err" by simp
      then show ?thesis by blast
    next
      case (Inr ps)
      with Cons.prems have "fst (payroll_loop m rest (acc @ [ps]) s) = Inl err"
        by (simp add: payroll_loop_Cons)
      from Cons.IH [OF this] obtain before r after where
        d: "rest = before @ r # after"
        and b: "\<forall>x \<in> set before. \<exists>ps. fst (generate_pay_slip s x (worked_units m (s x))) = Inr ps"
        and f: "fst (generate_pay_slip s r (worked_units m (s r))) = Inl err"
        by blast
      have "e # rest = (e # before) @ r # after \<and>
        (\<forall>x \<in> set (e # before).
           \<exists>ps. fst (generate_pay_slip s x (worked_units m (s x))) = Inr ps) \<and>
        fst (generate_pay_slip s r (worked_units m (s r))) = Inl err"
        using d b f Inr by simp
      then show ?thesis by blast
    qed
  qed
next
  show "\<exists>before r after. refs = before @ r # after \<and>
        (\<forall>e \<in> set before. \<exists>ps. fst (generate_pay_slip s e (worked_units m (s e))) = Inr ps) \<and>
        fst (generate_pay_slip s r (worked_units m (s r))) = Inl err \<Longrightarrow>
     fst (payroll_loop m refs acc s) = Inl err"
    using payroll_loop_Inl by fastforce
qed

lemma worked_units_units_for:
  "worked_units (case hmap of None \<Rightarrow> Map.empty | Some m \<Rightarrow> m) emp = units_for hmap emp"
  by (cases "employee_type emp")
     (simp_all add: worked_units_def units_for_def split: option.splits)

lemma process_monthly_payroll_store: "snd (process_monthly_payroll s refs hmap) = s"
  by (simp add: process_monthly_payroll_def payroll_loop_store)

lemma process_monthly_payroll_Inr:
  "fst (process_monthly_payroll s refs hmap) = Inr slips \<longleftrightarrow>
     list_all2 (\<lambda>r ps. fst (generate_pay_slip s r (units_for hmap (s r))) = Inr ps) refs slips"
  by (simp add: process_monthly_payroll_def payroll_loop_Inr worked_units_units_for)

lemma process_monthly_payroll_Inl:
  assumes "\<forall>e \<in> set before. \<exists>ps. fst (generate_pay_slip s e (units_for hmap (s e))) = Inr ps"
    and "fst (generate_pay_slip s r (units_for hmap (s r))) = Inl err"
  shows "process_monthly_payroll s (before @ r # after) hmap = (Inl err, s)"
  using assms unfolding process_monthly_payroll_def
  by (intro payroll_loop_Inl) (simp_all add: worked_units_units_for)

lemma process_monthly_payroll_Inl_iff:
  "fst (process_monthly_payroll s refs hmap) = Inl err \<longleftrightarrow>
     (\<exists>before r after. refs = before @ r # after \<and>
        (\<forall>e \<in> set before. \<exists>ps. fst (generate_pay_slip s e (units_for hmap (s e))) = Inr ps) \<and>
        fst (generate_pay_slip s r (units_for hmap (s r))) = Inl err)"
  by (simp add: process_monthly_payroll_def payroll_loop_Inl_iff worked_units_units_for)

text \<open>
  Claim C7. For every list of employees and every worked-units mapping, absent or not,
  \<^verbatim>\<open>process_monthly_payroll\<close> returns a list of payslips exactly when the list has the length of the employee
  list and its i-th payslip is the one \<^verbatim>\<open>generate_pay_slip\<close> returns for the i-th employee, on the
  mapping's value when the employee's id is a key and otherwise on the default 0 for
  FULL_TIME, 80 for PART_TIME and 20 for CONTRACTOR. It fails exactly when \<^verbatim>\<open>generate_pay_slip\<close> fails,
  with the same error, on the first employee of the list on whom it does.
\<close>

theorem batch_in_order:
  "(fst (process_monthly_payroll s refs hmap) = Inr slips \<longleftrightarrow>
      length slips = length refs \<and>
      (\<forall>i < length refs.
         fst (generate_pay_slip s (refs ! i) (units_for hmap (s (refs ! i)))) = Inr (slips ! i))) \<and>
   (fst (process_monthly_payroll s refs hmap) = Inl err \<longleftrightarrow>
      (\<exists>before r after. refs = before @ r # after \<and>
         (\<forall>e \<in> set before.
            \<exists>ps. fst (generate_pay_slip s e (units_for hmap (s e))) = Inr ps) \<and>
         fst (generate_pay_slip s r (units_for hmap (s r))) = Inl err))"
proof -
  have "fst (process_monthly_payroll s refs hmap) = Inr slips \<longleftrightarrow>
      length slips = length refs \<and>
      (\<forall>i < length refs.
         fst (generate_pay_slip s (refs ! i) (units_for hmap (s (refs ! i)))) = Inr (slips ! i))"
    by (auto simp: process_monthly_payroll_Inr list_all2_conv_all_nth)
  with process_monthly_payroll_Inl_iff show ?thesis by blast
qed

text \<open>
  Three employees, one of each category, with 18 days given for the contractor.
\<close>

theorem batch_in_order_witness:
  "fst (process_monthly_payroll
     (\<lambda>r. if r = 0 then \<lparr>id_attr = IntId 1, name = ''Alice'', employee_type = FULL_TIME,
      pay_rate = Decimal 4000 0, is_union_member = False, has_retirement = False\<rparr>
      else if r = 1 then \<lparr>id_attr = IntId 2, name = ''Bob'', employee_type = PART_TIME,
      pay_rate = Decimal 25 0, is_union_member = False, has_retirement = False\<rparr>
      else \<lparr>id_attr = IntId 3, name = ''Carol'', employee_type = CONTRACTOR,
      pay_rate = Decimal 200 0, is_union_member = False, has_retirement = False\<rparr>)
     [0, 1, 2] (Some [IntId 3 \<mapsto> Decimal 18 0]))
   = Inr [\<lparr>employee = 0, gross_pay = Decimal 400000 (- 2), tax_amount = Decimal 40000 (- 2),
      deductions = [(''health_insurance'', Decimal 150 0)],
      net_pay = Decimal 345000 (- 2)\<rparr>,
     \<lparr>employee = 1, gross_pay = Decimal 200000 (- 2), tax_amount = Decimal 10000 (- 2),
      deductions = [],
      net_pay = Decimal 190000 (- 2)\<rparr>,
     \<lparr>employee = 2, gross_pay = Decimal 360000 (- 2), tax_amount = Decimal 32000 (- 2),
      deductions = [],
      net_pay = Decimal 328000 (- 2)\<rparr>]"
proof -
  have g0: "fst (generate_pay_slip
     (\<lambda>r. if r = 0 then \<lparr>id_attr = IntId 1, name = ''Alice'', employee_type = FULL_TIME,
      pay_rate = Decimal 4000 0, is_union_member = False, has_retirement = False\<rparr>
      else if r = 1 then \<lparr>id_attr = IntId 2, name = ''Bob'', employee_type = PART_TIME,
      pay_rate = Decimal 25 0, is_union_member = False, has_retirement = False\<rparr>
      else \<lparr>id_attr = IntId 3, name = ''Carol'', employee_type = CONTRACTOR,
      pay_rate = Decimal 200 0, is_union_member = False, has_retirement = False\<rparr>) 0 (Decimal 0 0))
   = Inr \<lparr>employee = 0, gross_pay = Decimal 400000 (- 2), tax_amount = Decimal 40000 (- 2),
      deductions = [(''health_insurance'', Decimal 150 0)],
      net_pay = Decimal 345000 (- 2)\<rparr>" by code_simp
  have g1: "fst (generate_pay_slip
     (\<lambda>r. if r = 0 then \<lparr>id_attr = IntId 1, name = ''Alice'', employee_type = FULL_TIME,
      pay_rate = Decimal 4000 0, is_union_member = False, has_retirement = False\<rparr>
      else if r = 1 then \<lparr>id_attr = IntId 2, name = ''Bob'', employee_type = PART_TIME,
      pay_rate = Decimal 25 0, is_union_member = False, has_retirement = False\<rparr>
      else \<lparr>id_attr = IntId 3, name = ''Carol'', employee_type = CONTRACTOR,
      pay_rate = Decimal 200 0, is_union_member = False, has_retirement = False\<rparr>) 1 (Decimal 80 0))
   = Inr \<lparr>employee = 1, gross_pay = Decimal 200000 (- 2), tax_amount = Decimal 10000 (- 2),
      deductions = [],
      net_pay = Decimal 190000 (- 2)\<rparr>" by code_simp
  have g2: "fst (generate_pay_slip
     (\<lambda>r. if r = 0 then \<lparr>id_attr = IntId 1, name = ''Alice'', employee_type = FULL_TIME,
      pay_rate = Decimal 4000 0, is_union_member = False, has_retirement = False\<rparr>
      else if r = 1 then \<lparr>id_attr = IntId 2, name = ''Bob'', employee_type = PART_TIME,
      pay_rate = Decimal 25 0, is_union_member = False, has_retirement = False\<rparr>
      else \<lparr>id_attr = IntId 3, name = ''Carol'', employee_type = CONTRACTOR,
      pay_rate = Decimal 200 0, is_union_member = False, has_retirement = False\<rparr>) 2 (Decimal 18 0))
   = Inr \<lparr>employee = 2, gross_pay = Decimal 360000 (- 2), tax_amount = Decimal 32000 (- 2),
      deductions = [],
      net_pay = Decimal 328000 (- 2)\<rparr>" by code_simp
  show ?thesis
    using batch_in_order [of "(\<lambda>r. if r = 0 then \<lparr>id_attr = IntId 1, name = ''Alice'', employee_type = FULL_TIME,
      pay_rate = Decimal 4000 0, is_union_member = False, has_retirement = False\<rparr>
      else if r = 1 then \<lparr>id_attr = IntId 2, name = ''Bob'', employee_type = PART_TIME,
      pay_rate = Decimal 25 0, is_union_member = False, has_retirement = False\<rparr>
      else \<lparr>id_attr = IntId 3, name = ''Carol'', employee_type = CONTRACTOR,
      pay_rate = Decimal 200 0, is_union_member = False, has_retirement = False\<rparr>)"
      "[0, 1, 2]" "(Some [IntId 3 \<mapsto> Decimal 18 0])"
      "[\<lparr>employee = 0, gross_pay = Decimal 400000 (- 2), tax_amount = Decimal 40000 (- 2),
      deductions = [(''health_insurance'', Decimal 150 0)],
      net_pay = Decimal 345000 (- 2)\<rparr>,
     \<lparr>employee = 1, gross_pay = Decimal 200000 (- 2), tax_amount = Decimal 10000 (- 2),
      deductions = [],
      net_pay = Decimal 190000 (- 2)\<rparr>,
     \<lparr>employee = 2, gross_pay = Decimal 360000 (- 2), tax_amount = Decimal 32000 (- 2),
      deductions = [],
      net_pay = Decimal 328000 (- 2)\<rparr>]"] g0 g1 g2
    by (simp add: All_less_Suc units_for_def)
qed

text \<open>
  Claim C8. \<^verbatim>\<open>generate_pay_slip\<close> and \<^verbatim>\<open>process_monthly_payroll\<close> leave the store of employee objects as they found it,
  when they return and when they raise: every attribute of every employee (id, name,
  employee_type, pay_rate, is_union_member, has_retirement) has after the call the value
  it had before. The employee reference of a returned payslip is the reference that was
  passed in, and the payslips of a batch refer to the employees of the list, in order.
\<close>

theorem employees_unchanged:
  "snd (generate_pay_slip s r h) = s \<and>
   (fst (generate_pay_slip s r h) = Inr ps \<longrightarrow> employee ps = r) \<and>
   snd (process_monthly_payroll s refs hmap) = s \<and>
   (fst (process_monthly_payroll s refs hmap) = Inr slips \<longrightarrow> map employee slips = refs)"
proof -
  have one: "employee ps = e" if "fst (generate_pay_slip s e u) = Inr ps" for e u ps
    using that by (auto simp: generate_pay_slip_Inr_iff)
  have "map employee slips = refs"
    if "list_all2 (\<lambda>r ps. fst (generate_pay_slip s r (units_for hmap (s r))) = Inr ps) refs slips"
    using that by (induction rule: list_all2_induct) (simp_all add: one)
  with one show ?thesis
    by (simp add: process_monthly_payroll_Inr generate_pay_slip_store
        process_monthly_payroll_store)
qed

text \<open>
  A payslip, a call that raises, and a batch of three employees.
\<close>

theorem employees_unchanged_witness:
  "generate_pay_slip
     (\<lambda>r. if r = 0 then \<lparr>id_attr = IntId 1, name = ''Alice'', employee_type = FULL_TIME,
      pay_rate = Decimal 4000 0, is_union_member = False, has_retirement = False\<rparr>
      else if r = 1 then \<lparr>id_attr = IntId 2, name = ''Bob'', employee_type = PART_TIME,
      pay_rate = Decimal 25 0, is_union_member = False, has_retirement = False\<rparr>
      else \<lparr>id_attr = IntId 3, name = ''Carol'', employee_type = CONTRACTOR,
      pay_rate = Decimal 200 0, is_union_member = False, has_retirement = False\<rparr>) 0 (Decimal 0 0)
   = (Inr \<lparr>employee = 0, gross_pay = Decimal 400000 (- 2), tax_amount = Decimal 40000 (- 2),
      deductions = [(''health_insurance'', Decimal 150 0)],
      net_pay = Decimal 345000 (- 2)\<rparr>,
      (\<lambda>r. if r = 0 then \<lparr>id_attr = IntId 1, name = ''Alice'', employee_type = FULL_TIME,
      pay_rate = Decimal 4000 0, is_union_member = False, has_retirement = False\<rparr>
      else if r = 1 then \<lparr>id_attr = IntId 2, name = ''Bob'', employee_type = PART_TIME,
      pay_rate = Decimal 25 0, is_union_member = False, has_retirement = False\<rparr>
      else \<lparr>id_attr = IntId 3, name = ''Carol'', employee_type = CONTRACTOR,
      pay_rate = Decimal 200 0, is_union_member = False, has_retirement = False\<rparr>)) \<and>
   generate_pay_slip
     (\<lambda>_. \<lparr>id_attr = IntId 5, name = ''Eve'', employee_type = CONTRACTOR,
      pay_rate = Decimal 1 27, is_union_member = False, has_retirement = False\<rparr>) 0 (Decimal 1 0)
   = (Inl DecimalException, (\<lambda>_. \<lparr>id_attr = IntId 5, name = ''Eve'', employee_type = CONTRACTOR,
      pay_rate = Decimal 1 27, is_union_member = False, has_retirement = False\<rparr>)) \<and>
   snd (process_monthly_payroll
     (\<lambda>r. if r = 0 then \<lparr>id_attr = IntId 1, name = ''Alice'', employee_type = FULL_TIME,
      pay_rate = Decimal 4000 0, is_union_member = False, has_retirement = False\<rparr>
      else if r = 1 then \<lparr>id_attr = IntId 2, name = ''Bob'', employee_type = PART_TIME,
      pay_rate = Decimal 25 0, is_union_member = False, has_retirement = False\<rparr>
      else \<lparr>id_attr = IntId 3, name = ''Carol'', employee_type = CONTRACTOR,
      pay_rate = Decimal 200 0, is_union_member = False, has_retirement = False\<rparr>)
     [0, 1, 2] (Some [IntId 3 \<mapsto> Decimal 18 0]))
   = (\<lambda>r. if r = 0 then \<lparr>id_attr = IntId 1, name = ''Alice'', employee_type = FULL_TIME,
      pay_rate = Decimal 4000 0, is_union_member = False, has_retirement = False\<rparr>
      else if r = 1 then \<lparr>id_attr = IntId 2, name = ''Bob'', employee_type = PART_TIME,
      pay_rate = Decimal 25 0, is_union_member = False, has_retirement = False\<rparr>
      else \<lparr>id_attr = IntId 3, name = ''Carol'', employee_type = CONTRACTOR,
      pay_rate = Decimal 200 0, is_union_member = False, has_retirement = False\<rparr>) \<and>
   map employee
     [\<lparr>employee = 0, gross_pay = Decimal 400000 (- 2), tax_amount = Decimal 40000 (- 2),
      deductions = [(''health_insurance'', Decimal 150 0)],
      net_pay = Decimal 345000 (- 2)\<rparr>,
     \<lparr>employee = 1, gross_pay = Decimal 200000 (- 2), tax_amount = Decimal 10000 (- 2),
      deductions = [],
      net_pay = Decimal 190000 (- 2)\<rparr>,
     \<lparr>employee = 2, gross_pay = Decimal 360000 (- 2), tax_amount = Decimal 32000 (- 2),
      deductions = [],
      net_pay = Decimal 328000 (- 2)\<rparr>] = [0, 1, 2]"
proof -
  have g0: "fst (generate_pay_slip
     (\<lambda>r. if r = 0 then \<lparr>id_attr = IntId 1, name = ''Alice'', employee_type = FULL_TIME,
      pay_rate = Decimal 4000 0, is_union_member = False, has_retirement = False\<rparr>
      else if r = 1 then \<lparr>id_attr = IntId 2, name = ''Bob'', employee_type = PART_TIME,
      pay_rate = Decimal 25 0, is_union_member = False, has_retirement = False\<rparr>
      else \<lparr>id_attr = IntId 3, name = ''Carol'', employee_type = CONTRACTOR,
      pay_rate = Decimal 200 0, is_union_member = False, has_retirement = False\<rparr>) 0 (Decimal 0 0))
   = Inr \<lparr>employee = 0, gross_pay = Decimal 400000 (- 2), tax_amount = Decimal 40000 (- 2),
      deductions = [(''health_insurance'', Decimal 150 0)],
      net_pay = Decimal 345000 (- 2)\<rparr>" by code_simp
  have gb: "fst (generate_pay_slip
     (\<lambda>_. \<lparr>id_attr = IntId 5, name = ''Eve'', employee_type = CONTRACTOR,
      pay_rate = Decimal 1 27, is_union_member = False, has_retirement = False\<rparr>) 0 (Decimal 1 0))
   = Inl DecimalException" by code_simp
  have all: "fst (process_monthly_payroll
     (\<lambda>r. if r = 0 then \<lparr>id_attr = IntId 1, name = ''Alice'', employee_type = FULL_TIME,
      pay_rate = Decimal 4000 0, is_union_member = False, has_retirement = False\<rparr>
      else if r = 1 then \<lparr>id_attr = IntId 2, name = ''Bob'', employee_type = PART_TIME,
      pay_rate = Decimal 25 0, is_union_member = False, has_retirement = False\<rparr>
      else \<lparr>id_attr = IntId 3, name = ''Carol'', employee_type = CONTRACTOR,
      pay_rate = Decimal 200 0, is_union_member = False, has_retirement = False\<rparr>)
     [0, 1, 2] (Some [IntId 3 \<mapsto> Decimal 18 0]))
   = Inr [\<lparr>employee = 0, gross_pay = Decimal 400000 (- 2), tax_amount = Decimal 40000 (- 2),
      deductions = [(''health_insurance'', Decimal 150 0)],
      net_pay = Decimal 345000 (- 2)\<rparr>,
     \<lparr>employee = 1, gross_pay = Decimal 200000 (- 2), tax_amount = Decimal 10000 (- 2),
      deductions = [],
      net_pay = Decimal 190000 (- 2)\<rparr>,
     \<lparr>employee = 2, gross_pay = Decimal 360000 (- 2), tax_amount = Decimal 32000 (- 2),
      deductions = [],
      net_pay = Decimal 328000 (- 2)\<rparr>]" by code_simp
  show ?thesis
    using g0 gb all
      employees_unchanged [of "(\<lambda>r. if r = 0 then \<lparr>id_attr = IntId 1, name = ''Alice'', employee_type = FULL_TIME,
      pay_rate = Decimal 4000 0, is_union_member = False, has_retirement = False\<rparr>
      else if r = 1 then \<lparr>id_attr = IntId 2, name = ''Bob'', employee_type = PART_TIME,
      pay_rate = Decimal 25 0, is_union_member = False, has_retirement = False\<rparr>
      else \<lparr>id_attr = IntId 3, name = ''Carol'', employee_type = CONTRACTOR,
      pay_rate = Decimal 200 0, is_union_member = False, has_retirement = False\<rparr>)" 0 "Decimal 0 0"
        "\<lparr>employee = 0, gross_pay = Decimal 400000 (- 2), tax_amount = Decimal 40000 (- 2),
      deductions = [(''health_insurance'', Decimal 150 0)],
      net_pay = Decimal 345000 (- 2)\<rparr>" "[0, 1, 2]" "(Some [IntId 3 \<mapsto> Decimal 18 0])"
        "[\<lparr>employee = 0, gross_pay = Decimal 400000 (- 2), tax_amount = Decimal 40000 (- 2),
      deductions = [(''health_insurance'', Decimal 150 0)],
      net_pay = Decimal 345000 (- 2)\<rparr>,
     \<lparr>employee = 1, gross_pay = Decimal 200000 (- 2), tax_amount = Decimal 10000 (- 2),
      deductions = [],
      net_pay = Decimal 190000 (- 2)\<rparr>,
     \<lparr>employee = 2, gross_pay = Decimal 360000 (- 2), tax_amount = Decimal 32000 (- 2),
      deductions = [],
      net_pay = Decimal 328000 (- 2)\<rparr>]"]
      employees_unchanged [of "(\<lambda>_. \<lparr>id_attr = IntId 5, name = ''Eve'', employee_type = CONTRACTOR,
      pay_rate = Decimal 1 27, is_union_member = False, has_retirement = False\<rparr>)" 0 "Decimal 1 0"]
    by (simp add: prod_eq_iff)
qed

text \<open>
  Claim C3 says that for a PART_TIME employee 120 worked-units succeed. For the hourly
  rate \<open>10 ^ 24\<close> they do not: the product \<open>1.2 * 10 ^ 26\<close> cannot be written with two
  decimal places in 28 digits, and the call raises InvalidOperation.
\<close>

theorem part_time_gross_raises_counterexample:
  "calculate_gross_pay
     \<lparr>id_attr = IntId 4, name = ''Dave'', employee_type = PART_TIME,
      pay_rate = Decimal 1 24, is_union_member = False, has_retirement = False\<rparr> (Decimal 120 0)
   = Inl DecimalException"
  by code_simp

text \<open>
  Claim C3, amended. For a PART_TIME employee, \<^verbatim>\<open>calculate_gross_pay\<close> with any worked-units greater than
  120 (121 for one) raises the out-of-range error, and \<^verbatim>\<open>generate_pay_slip\<close> raises it too, no payslip
  being constructed and the employees untouched. With worked-units equal to 120 the
  result is \<^verbatim>\<open>_round_currency\<close> of the product in the 28-digit context; when the product of the two
  coefficients has at most 28 digits, it is \<open>pay_rate * 120\<close> rounded to two decimals
  round-half-up when that is below \<open>10 ^ 26 - 0.005\<close> in absolute value, and the decimal
  exception otherwise. In \<^verbatim>\<open>process_monthly_payroll\<close> the error of such an employee, reached because every
  earlier employee of the list succeeded, is the result of the batch; and a batch
  whose list holds such an employee never returns a list of payslips.
\<close>

theorem part_time_hours_limit:
  assumes "employee_type (s r) = PART_TIME"
  shows "(120 < val h \<longrightarrow>
            calculate_gross_pay (s r) h = Inl HoursOutOfRange \<and>
            generate_pay_slip s r h = (Inl HoursOutOfRange, s)) \<and>
         (val h = 120 \<longrightarrow>
            calculate_gross_pay (s r) h = round_currency (dec_mul (pay_rate (s r)) h) \<and>
            (\<bar>coefficient (pay_rate (s r)) * coefficient h\<bar> < 10 ^ 28 \<longrightarrow>
               (\<bar>val (pay_rate (s r)) * 120\<bar> < 10 ^ 26 - 1 / 200 \<longrightarrow>
                  (\<exists>g. calculate_gross_pay (s r) h = Inr g \<and> exponent g = - 2 \<and>
                       is_rounded_half_up (val (pay_rate (s r)) * 120) (val g))) \<and>
               (10 ^ 26 - 1 / 200 \<le> \<bar>val (pay_rate (s r)) * 120\<bar> \<longrightarrow>
                  calculate_gross_pay (s r) h = Inl DecimalException))) \<and>
         (120 < val (units_for hmap (s r)) \<and>
          (\<forall>e \<in> set before.
             \<exists>ps. fst (generate_pay_slip s e (units_for hmap (s e))) = Inr ps) \<longrightarrow>
            process_monthly_payroll s (before @ r # after) hmap = (Inl HoursOutOfRange, s)) \<and>
         (120 < val (units_for hmap (s r)) \<and> r \<in> set refs \<longrightarrow>
            (\<forall>slips. fst (process_monthly_payroll s refs hmap) \<noteq> Inr slips))"
proof -
  have over: "calculate_gross_pay (s r) u = Inl HoursOutOfRange" if "120 < val u" for u
    using assms that by (simp add: calculate_gross_pay_cases)
  then have slip: "generate_pay_slip s r u = (Inl HoursOutOfRange, s)" if "120 < val u" for u
    using that by (simp add: generate_pay_slip_gross_error)
  have at: "calculate_gross_pay (s r) h = round_currency (dec_mul (pay_rate (s r)) h)"
    if "val h = 120"
    using assms that by (simp add: calculate_gross_pay_cases)
  have ex: "val (dec_mul (pay_rate (s r)) h) = val (pay_rate (s r)) * 120"
    if "val h = 120" "\<bar>coefficient (pay_rate (s r)) * coefficient h\<bar> < 10 ^ 28"
    using dec_mul_exact_coefficients [of "pay_rate (s r)" h] that by (simp add: prec_def)
  have c2: "val h = 120 \<longrightarrow>
            calculate_gross_pay (s r) h = round_currency (dec_mul (pay_rate (s r)) h) \<and>
            (\<bar>coefficient (pay_rate (s r)) * coefficient h\<bar> < 10 ^ 28 \<longrightarrow>
               (\<bar>val (pay_rate (s r)) * 120\<bar> < 10 ^ 26 - 1 / 200 \<longrightarrow>
                  (\<exists>g. calculate_gross_pay (s r) h = Inr g \<and> exponent g = - 2 \<and>
                       is_rounded_half_up (val (pay_rate (s r)) * 120) (val g))) \<and>
               (10 ^ 26 - 1 / 200 \<le> \<bar>val (pay_rate (s r)) * 120\<bar> \<longrightarrow>
                  calculate_gross_pay (s r) h = Inl DecimalException))"
  proof (intro impI conjI)
    assume h: "val h = 120"
    show "calculate_gross_pay (s r) h = round_currency (dec_mul (pay_rate (s r)) h)"
      using h by (rule at)
    assume b: "\<bar>coefficient (pay_rate (s r)) * coefficient h\<bar> < 10 ^ 28"
    {
      assume "\<bar>val (pay_rate (s r)) * 120\<bar> < 10 ^ 26 - 1 / 200"
      then show "\<exists>g. calculate_gross_pay (s r) h = Inr g \<and> exponent g = - 2 \<and>
                       is_rounded_half_up (val (pay_rate (s r)) * 120) (val g)"
        using round_currency_rounds [of "dec_mul (pay_rate (s r)) h"]
        by (simp add: at [OF h] ex [OF h b])
    }
    {
      assume "10 ^ 26 - 1 / 200 \<le> \<bar>val (pay_rate (s r)) * 120\<bar>"
      then show "calculate_gross_pay (s r) h = Inl DecimalException"
        using round_currency_fails_iff [of "dec_mul (pay_rate (s r)) h" DecimalException]
        by (simp add: at [OF h] ex [OF h b])
    }
  qed
  have batch: "process_monthly_payroll s (before @ r # after) hmap = (Inl HoursOutOfRange, s)"
    if "120 < val (units_for hmap (s r))"
      and "\<forall>e \<in> set before. \<exists>ps. fst (generate_pay_slip s e (units_for hmap (s e))) = Inr ps"
    using that(2) slip [OF that(1)] by (intro process_monthly_payroll_Inl) simp_all
  have none: "fst (process_monthly_payroll s refs hmap) \<noteq> Inr slips"
    if u: "120 < val (units_for hmap (s r))" and m: "r \<in> set refs" for slips
  proof
    assume "fst (process_monthly_payroll s refs hmap) = Inr slips"
    then have "list_all2 (\<lambda>r ps. fst (generate_pay_slip s r (units_for hmap (s r))) = Inr ps)
        refs slips"
      by (simp add: process_monthly_payroll_Inr)
    with m obtain ps where "fst (generate_pay_slip s r (units_for hmap (s r))) = Inr ps"
      by (auto simp: in_set_conv_nth list_all2_conv_all_nth)
    with slip [OF u] show False by simp
  qed
  from over slip c2 batch none show ?thesis by blast
qed

text \<open>
  A batch of three whose second employee is PART_TIME with 121 hours in the mapping.
\<close>

theorem part_time_hours_limit_witness:
  "calculate_gross_pay
     \<lparr>id_attr = IntId 4, name = ''Dave'', employee_type = PART_TIME,
      pay_rate = Decimal 30 0, is_union_member = False, has_retirement = True\<rparr> (Decimal 121 0) = Inl HoursOutOfRange \<and>
   generate_pay_slip
     (\<lambda>r. if r = 0 then \<lparr>id_attr = IntId 1, name = ''Alice'', employee_type = FULL_TIME,
      pay_rate = Decimal 4000 0, is_union_member = False, has_retirement = False\<rparr>
      else if r = 1 then \<lparr>id_attr = IntId 4, name = ''Dave'', employee_type = PART_TIME,
      pay_rate = Decimal 30 0, is_union_member = False, has_retirement = True\<rparr>
      else \<lparr>id_attr = IntId 3, name = ''Carol'', employee_type = CONTRACTOR,
      pay_rate = Decimal 200 0, is_union_member = False, has_retirement = False\<rparr>) 1 (Decimal 121 0)
   = (Inl HoursOutOfRange,
      (\<lambda>r. if r = 0 then \<lparr>id_attr = IntId 1, name = ''Alice'', employee_type = FULL_TIME,
      pay_rate = Decimal 4000 0, is_union_member = False, has_retirement = False\<rparr>
      else if r = 1 then \<lparr>id_attr = IntId 4, name = ''Dave'', employee_type = PART_TIME,
      pay_rate = Decimal 30 0, is_union_member = False, has_retirement = True\<rparr>
      else \<lparr>id_attr = IntId 3, name = ''Carol'', employee_type = CONTRACTOR,
      pay_rate = Decimal 200 0, is_union_member = False, has_retirement = False\<rparr>)) \<and>
   calculate_gross_pay
     \<lparr>id_attr = IntId 4, name = ''Dave'', employee_type = PART_TIME,
      pay_rate = Decimal 30 0, is_union_member = False, has_retirement = True\<rparr> (Decimal 120 0) = Inr (Decimal 360000 (- 2)) \<and>
   process_monthly_payroll
     (\<lambda>r. if r = 0 then \<lparr>id_attr = IntId 1, name = ''Alice'', employee_type = FULL_TIME,
      pay_rate = Decimal 4000 0, is_union_member = False, has_retirement = False\<rparr>
      else if r = 1 then \<lparr>id_attr = IntId 4, name = ''Dave'', employee_type = PART_TIME,
      pay_rate = Decimal 30 0, is_union_member = False, has_retirement = True\<rparr>
      else \<lparr>id_attr = IntId 3, name = ''Carol'', employee_type = CONTRACTOR,
      pay_rate = Decimal 200 0, is_union_member = False, has_retirement = False\<rparr>)
     [0, 1, 2] (Some [IntId 4 \<mapsto> Decimal 121 0])
   = (Inl HoursOutOfRange,
      (\<lambda>r. if r = 0 then \<lparr>id_attr = IntId 1, name = ''Alice'', employee_type = FULL_TIME,
      pay_rate = Decimal 4000 0, is_union_member = False, has_retirement = False\<rparr>
      else if r = 1 then \<lparr>id_attr = IntId 4, name = ''Dave'', employee_type = PART_TIME,
      pay_rate = Decimal 30 0, is_union_member = False, has_retirement = True\<rparr>
      else \<lparr>id_attr = IntId 3, name = ''Carol'', employee_type = CONTRACTOR,
      pay_rate = Decimal 200 0, is_union_member = False, has_retirement = False\<rparr>))"
proof -
  let ?s = "(\<lambda>r::nat. if r = 0 then \<lparr>id_attr = IntId 1, name = ''Alice'', employee_type = FULL_TIME,
      pay_rate = Decimal 4000 0, is_union_member = False, has_retirement = False\<rparr>
      else if r = 1 then \<lparr>id_attr = IntId 4, name = ''Dave'', employee_type = PART_TIME,
      pay_rate = Decimal 30 0, is_union_member = False, has_retirement = True\<rparr>
      else \<lparr>id_attr = IntId 3, name = ''Carol'', employee_type = CONTRACTOR,
      pay_rate = Decimal 200 0, is_union_member = False, has_retirement = False\<rparr>)"
  have pt: "employee_type (?s 1) = PART_TIME" by simp
  have u: "120 < val (units_for (Some [IntId 4 \<mapsto> Decimal 121 0]) (?s 1))"
    by (simp add: units_for_def)
  have b: "\<forall>e \<in> set [0]. \<exists>ps. fst (generate_pay_slip ?s e
      (units_for (Some [IntId 4 \<mapsto> Decimal 121 0]) (?s e))) = Inr ps"
  proof -
    have "fst (generate_pay_slip ?s 0 (Decimal 0 0)) = Inr \<lparr>employee = 0, gross_pay = Decimal 400000 (- 2), tax_amount = Decimal 40000 (- 2),
      deductions = [(''health_insurance'', Decimal 150 0)],
      net_pay = Decimal 345000 (- 2)\<rparr>" by code_simp
    then show ?thesis by (simp add: units_for_def)
  qed
  have at: "calculate_gross_pay
     \<lparr>id_attr = IntId 4, name = ''Dave'', employee_type = PART_TIME,
      pay_rate = Decimal 30 0, is_union_member = False, has_retirement = True\<rparr> (Decimal 120 0) = Inr (Decimal 360000 (- 2))" by code_simp
  show ?thesis
    using part_time_hours_limit [of ?s 1 "Decimal 121 0" "(Some [IntId 4 \<mapsto> Decimal 121 0])" "[0]" "[2]" "[0, 1, 2]"]
      pt u b at
    by simp
qed

end
